theory Spec2Isabelle
  imports Complex_Main
begin

section \<open>The news processing pipeline\<close>

text \<open>
  The pipeline is the Python backend (\<open>services/news_pipeline.py\<close>) that the chat
  component calls over HTTP. Only the chat component is available as source code, so the
  data model and the operations of the pipeline are written down here from the
  specification (sections 3 to 5 and 7).
\<close>

subsection \<open>Data model\<close>

text \<open>Modelled from the spec: RawArticle (section 3).\<close>

record RawArticle =
  title :: string
  content :: string
  source :: string
  publishedAt :: "nat option"
  url :: "string option"

text \<open>Modelled from the spec: the provenance tag of a stage result (section 3, glossary).\<close>

datatype origin = Primary | Fallback | Unavailable

text \<open>
  Modelled from the spec: StageResult (section 3), the wrapper every stage returns; the
  confidence is a number in the unit interval.
\<close>

record 'a StageResult =
  value_sr :: 'a
  confidence :: rat
  origin :: origin

text \<open>Modelled from the spec: SentimentValue, CredibilityValue and SummaryValue (section 3).\<close>

datatype SentimentValue = Positive | Negative | Neutral

datatype CredibilityValue = Authentic | Fake | Unknown

type_synonym SummaryValue = string

text \<open>Modelled from the spec: ProcessedArticle (section 3).\<close>

record ProcessedArticle =
  article :: RawArticle
  sentiment :: "SentimentValue StageResult"
  credibility :: "CredibilityValue StageResult"
  summary :: "SummaryValue StageResult"
  processedAt :: nat
  partial :: bool

text \<open>
  Modelled from the spec: the errors a stage can end with (section 7, and the unexpected
  internal error of section 8), and the names of the three stages.
\<close>

datatype stage_error = ModelUnavailable | TransientIO | QuotaAuthFailure | UnexpectedError

datatype stage_name = SentimentStage | CredibilityStage | SummaryStage

text \<open>
  Modelled from the spec: the errors that reach the caller of the orchestrator (section 7):
  malformed input and total-system errors (such as a corrupted cache). Stage errors are
  not among them. Nothing in this model corrupts the cache, so the only error processOne
  itself ends with is the first; the batch treats either kind alike.
\<close>

datatype pipeline_error = MalformedInput | SystemError

text \<open>
  Modelled from the spec: the injected read-only service objects (section 9). A tier of a
  stage either fails or gives a value with its confidence; what the classifiers and the
  remote summarizer compute is theirs. \<open>fingerprint\<close> is the stable hash that
  identifies an article; \<open>stageLatency\<close> is the time the logic of a stage takes on an
  article, against which the request timeout of section 5 is measured.
\<close>

record services =
  sentimentPrimary :: "string \<Rightarrow> stage_error + SentimentValue \<times> rat"
  sentimentFallback :: "string \<Rightarrow> stage_error + SentimentValue \<times> rat"
  credibilityPrimary :: "string \<Rightarrow> stage_error + CredibilityValue \<times> rat"
  summaryPrimary :: "string \<times> nat \<Rightarrow> stage_error + SummaryValue \<times> rat"
  summaryFallback :: "string \<times> nat \<Rightarrow> stage_error + SummaryValue \<times> rat"
  fingerprint :: "RawArticle \<Rightarrow> nat"
  stageLatency :: "stage_name \<Rightarrow> RawArticle \<Rightarrow> nat"

text \<open>
  Modelled from the spec: the configuration options the pipeline reads (sections 6 and 7):
  cache time-to-live, summary length bound, the hard size cap on the text of an article,
  the request timeout, and one feature flag per stage.
\<close>

record config =
  cacheTtl :: nat
  summaryMaxLength :: nat
  maxTextLength :: nat
  requestTimeout :: nat
  sentimentEnabled :: bool
  credibilityEnabled :: bool
  summaryEnabled :: bool

subsection \<open>Stages\<close>

text \<open>
  Modelled from the spec: the two-tier primary-then-fallback strategy of section 9; when
  neither tier can run, the stage's degraded value with confidence 0 and origin
  unavailable.
\<close>

definition primaryThenFallback ::
  "('t \<Rightarrow> stage_error + 'a \<times> rat) \<Rightarrow> ('t \<Rightarrow> stage_error + 'a \<times> rat) \<Rightarrow> 'a \<Rightarrow> 't \<Rightarrow> 'a StageResult" where
  "primaryThenFallback prim fb degraded x =
     (case prim x of
        Inr (v, c) \<Rightarrow> \<lparr>value_sr = v, confidence = c, origin = Primary\<rparr>
      | Inl _ \<Rightarrow>
          (case fb x of
             Inr (v, c) \<Rightarrow> \<lparr>value_sr = v, confidence = c, origin = Fallback\<rparr>
           | Inl _ \<Rightarrow> \<lparr>value_sr = degraded, confidence = 0, origin = Unavailable\<rparr>))"

text \<open>Modelled from the spec: SentimentStage.classify (section 4.1); degraded value neutral.\<close>

definition classifySentiment :: "services \<Rightarrow> string \<Rightarrow> SentimentValue StageResult" where
  "classifySentiment S txt = primaryThenFallback (sentimentPrimary S) (sentimentFallback S) Neutral txt"

text \<open>
  Modelled from the spec: CredibilityStage.classify (section 4.2); there is no fallback
  tier, and the degraded result is unknown with confidence 0.
\<close>

definition classifyCredibility :: "services \<Rightarrow> string \<Rightarrow> CredibilityValue StageResult" where
  "classifyCredibility S txt =
     (case credibilityPrimary S txt of
        Inr (v, c) \<Rightarrow> \<lparr>value_sr = v, confidence = c, origin = Primary\<rparr>
      | Inl _ \<Rightarrow> \<lparr>value_sr = Unknown, confidence = 0, origin = Unavailable\<rparr>)"

text \<open>
  Modelled from the spec: SummaryStage.summarize (section 4.3); when both tiers fail the
  value is the content truncated to \<open>maxLength\<close>.
\<close>

definition summarize :: "services \<Rightarrow> string \<Rightarrow> nat \<Rightarrow> SummaryValue StageResult" where
  "summarize S txt maxLen =
     primaryThenFallback (summaryPrimary S) (summaryFallback S) (take maxLen txt) (txt, maxLen)"

subsection \<open>ResultCache\<close>

text \<open>
  Modelled from the spec: CacheEntry (section 3): a key (stage name, content fingerprint)
  maps to a stage result and its expiry.
\<close>

type_synonym 'v ResultCache = "stage_name \<times> nat \<rightharpoonup> 'v StageResult \<times> nat"

text \<open>
  Modelled from the spec: ResultCache.get (section 4.4) at the time \<open>now\<close>; an entry is
  a result with its expiry, and an expired entry is a miss (lazy eviction on read).
\<close>

definition get :: "'v ResultCache \<Rightarrow> nat \<Rightarrow> stage_name \<times> nat \<Rightarrow> 'v StageResult option" where
  "get c now k =
     (case c k of
        None \<Rightarrow> None
      | Some (r, expiry) \<Rightarrow> (if now < expiry then Some r else None))"

text \<open>Modelled from the spec: ResultCache.put (section 4.4); the last writer wins.\<close>

definition put :: "'v ResultCache \<Rightarrow> nat \<Rightarrow> stage_name \<times> nat \<Rightarrow> 'v StageResult \<Rightarrow> nat \<Rightarrow> 'v ResultCache" where
  "put c now k r ttl = c(k \<mapsto> (r, now + ttl))"

text \<open>
  Modelled from the spec: a stage consulting the cache first (section 2). The result, the
  cache afterwards, and whether the stage logic ran.
\<close>

definition cached ::
  "'v ResultCache \<Rightarrow> nat \<Rightarrow> nat \<Rightarrow> stage_name \<times> nat \<Rightarrow> (unit \<Rightarrow> 'v StageResult)
     \<Rightarrow> 'v StageResult \<times> 'v ResultCache \<times> bool" where
  "cached c now ttl k compute =
     (case get c now k of
        Some r \<Rightarrow> (r, c, False)
      | None \<Rightarrow> (let r = compute () in (r, put c now k r ttl, True)))"

subsection \<open>PipelineOrchestrator\<close>

text \<open>
  Modelled from the spec: the state shared across requests (sections 3 and 5): the cache
  is the only mutable shared structure, one per stage's result type; \<open>stageRuns\<close>
  counts the executions of stage logic, as the call counter of section 8 does.
\<close>

record pipeline =
  sentimentCache :: "SentimentValue ResultCache"
  credibilityCache :: "CredibilityValue ResultCache"
  summaryCache :: "SummaryValue ResultCache"
  stageRuns :: nat

text \<open>Modelled from the spec: what one cache-checked stage adds to the call counter.\<close>

definition ran :: "bool \<Rightarrow> nat" where
  "ran b = (if b then 1 else 0)"

text \<open>
  Modelled from the spec: malformed input (section 7): empty text, or text exceeding the
  hard size cap.
\<close>

definition malformed :: "config \<Rightarrow> RawArticle \<Rightarrow> bool" where
  "malformed cfg a \<longleftrightarrow> content a = [] \<or> maxTextLength cfg < length (content a)"

text \<open>Modelled from the spec: the result of a stage that is unavailable (sections 4.1 to 4.3).\<close>

definition unavailableResult :: "'v \<Rightarrow> 'v StageResult" where
  "unavailableResult degraded = \<lparr>value_sr = degraded, confidence = 0, origin = Unavailable\<rparr>"

text \<open>
  Modelled from the spec: one stage as the orchestrator runs it (sections 2, 5 and 6). A
  stage disabled by its feature flag is forced to unavailable without a lookup or an
  attempt. Otherwise the cache is consulted first; on a miss, a stage still pending when
  the request times out is cancelled and forced to unavailable, and nothing of it is
  kept; else the stage logic runs and its result is cached.
\<close>

definition runStage ::
  "bool \<Rightarrow> bool \<Rightarrow> 'v ResultCache \<Rightarrow> nat \<Rightarrow> nat \<Rightarrow> stage_name \<times> nat \<Rightarrow> 'v
     \<Rightarrow> (unit \<Rightarrow> 'v StageResult) \<Rightarrow> 'v StageResult \<times> 'v ResultCache \<times> bool" where
  "runStage enabled cancelled c now ttl k degraded compute =
     (if \<not> enabled then (unavailableResult degraded, c, False)
      else if get c now k = None \<and> cancelled then (unavailableResult degraded, c, False)
      else cached c now ttl k compute)"

text \<open>
  Modelled from the spec: processOne (sections 4.5 and 7): malformed input is rejected at
  the boundary before any stage runs; otherwise the three stages run, independent of one
  another, and are merged into a ProcessedArticle; \<open>partial\<close> holds when a stage did
  not use its primary method. A stage is cancelled when its logic takes longer than the
  request timeout.
\<close>

definition processOne ::
  "services \<Rightarrow> config \<Rightarrow> nat \<Rightarrow> pipeline \<Rightarrow> RawArticle
     \<Rightarrow> (pipeline_error + ProcessedArticle) \<times> pipeline" where
  "processOne S cfg now st a =
     (if malformed cfg a then (Inl MalformedInput, st)
      else
        (let fp = fingerprint S a;
             (s, sc, sr) = runStage (sentimentEnabled cfg)
                             (requestTimeout cfg < stageLatency S SentimentStage a)
                             (sentimentCache st) now (cacheTtl cfg) (SentimentStage, fp) Neutral
                             (\<lambda>_. classifySentiment S (content a));
             (c, cc, cr) = runStage (credibilityEnabled cfg)
                             (requestTimeout cfg < stageLatency S CredibilityStage a)
                             (credibilityCache st) now (cacheTtl cfg) (CredibilityStage, fp) Unknown
                             (\<lambda>_. classifyCredibility S (content a));
             (m, mc, mr) = runStage (summaryEnabled cfg)
                             (requestTimeout cfg < stageLatency S SummaryStage a)
                             (summaryCache st) now (cacheTtl cfg) (SummaryStage, fp)
                             (take (summaryMaxLength cfg) (content a))
                             (\<lambda>_. summarize S (content a) (summaryMaxLength cfg))
         in (Inr \<lparr>article = a, sentiment = s, credibility = c, summary = m, processedAt = now,
                  partial = (origin s \<noteq> Primary \<or> origin c \<noteq> Primary \<or> origin m \<noteq> Primary)\<rparr>,
             \<lparr>sentimentCache = sc, credibilityCache = cc, summaryCache = mc,
              stageRuns = stageRuns st + ran sr + ran cr + ran mr\<rparr>)))"

text \<open>Modelled from the spec: the record emitted for an article whose processing failed entirely.\<close>

definition allUnavailable :: "config \<Rightarrow> nat \<Rightarrow> RawArticle \<Rightarrow> ProcessedArticle" where
  "allUnavailable cfg now a =
     \<lparr>article = a,
      sentiment = unavailableResult Neutral,
      credibility = unavailableResult Unknown,
      summary = unavailableResult (take (summaryMaxLength cfg) (content a)),
      processedAt = now, partial = True\<rparr>"

text \<open>
  Modelled from the spec: the batch (sections 4.5 and 5). Each article is a task that
  keeps its index; \<open>order\<close> is the order in which the tasks complete. A task whose
  worker fails (an error that would reach the caller) emits the all-unavailable record,
  and the batch continues.
\<close>

type_synonym worker = "pipeline \<Rightarrow> RawArticle \<Rightarrow> (pipeline_error + ProcessedArticle) \<times> pipeline"

fun runTasks ::
  "worker \<Rightarrow> config \<Rightarrow> nat \<Rightarrow> RawArticle list \<Rightarrow> nat list
     \<Rightarrow> ProcessedArticle option list \<times> pipeline \<Rightarrow> ProcessedArticle option list \<times> pipeline" where
  "runTasks w cfg now as [] acc = acc"
| "runTasks w cfg now as (i # order) (out, st) =
     (if i < length as then
        (case w st (as ! i) of
           (Inr p, st') \<Rightarrow> runTasks w cfg now as order (out[i := Some p], st')
         | (Inl _, st') \<Rightarrow>
             runTasks w cfg now as order (out[i := Some (allUnavailable cfg now (as ! i))], st'))
      else runTasks w cfg now as order (out, st))"

text \<open>
  Modelled from the spec: the join of the batch (section 5): the results in input order,
  once every task has completed.
\<close>

fun joinAll :: "'a option list \<Rightarrow> 'a list option" where
  "joinAll [] = Some []"
| "joinAll (None # xs) = None"
| "joinAll (Some x # xs) = (case joinAll xs of None \<Rightarrow> None | Some ys \<Rightarrow> Some (x # ys))"

text \<open>
  Modelled from the spec: a batch over a given worker: all tasks run from the given
  pipeline state, in the given completion order, and are joined.
\<close>

definition processBatchWith ::
  "worker \<Rightarrow> config \<Rightarrow> nat \<Rightarrow> pipeline \<Rightarrow> nat list \<Rightarrow> RawArticle list
     \<Rightarrow> ProcessedArticle list option \<times> pipeline" where
  "processBatchWith w cfg now st order as =
     (let (out, st') = runTasks w cfg now as order (replicate (length as) None, st)
      in (joinAll out, st'))"

text \<open>Modelled from the spec: processBatch (section 4.5), the batch whose worker is processOne.\<close>

definition processBatch ::
  "services \<Rightarrow> config \<Rightarrow> nat \<Rightarrow> pipeline \<Rightarrow> nat list \<Rightarrow> RawArticle list
     \<Rightarrow> ProcessedArticle list option \<times> pipeline" where
  "processBatch S cfg now st order as = processBatchWith (processOne S cfg now) cfg now st order as"

text \<open>
  Modelled from the spec: fetchAndProcess (section 4.5); \<open>fetchSource\<close> is the external
  source collaborator, and the batch runs on whatever it returned.
\<close>

definition fetchAndProcess ::
  "(string \<Rightarrow> nat \<Rightarrow> RawArticle list) \<Rightarrow> services \<Rightarrow> config \<Rightarrow> nat \<Rightarrow> pipeline \<Rightarrow> nat list
     \<Rightarrow> string \<Rightarrow> nat \<Rightarrow> ProcessedArticle list option \<times> pipeline" where
  "fetchAndProcess fetchSource S cfg now st order query pageSize =
     processBatch S cfg now st order (fetchSource query pageSize)"

section \<open>JavaScript strings\<close>

text \<open>
  A JavaScript string is a sequence of UTF-16 code units; \<open>.length\<close>, \<open>substring\<close>,
  \<open>split\<close> and \<open>includes\<close> all count code units. Code units are natural numbers
  here (below 65536 in every real string; no property below depends on the bound).
\<close>

type_synonym jsstring = "nat list"

definition str :: "string \<Rightarrow> jsstring" where
  "str s = map of_char s"

text \<open>WhiteSpace and LineTerminator code points of ECMAScript, as \<open>String.prototype.trim\<close> strips them.\<close>

definition isWhiteSpace :: "nat \<Rightarrow> bool" where
  "isWhiteSpace c \<longleftrightarrow>
     c = 0x09 \<or> c = 0x0A \<or> c = 0x0B \<or> c = 0x0C \<or> c = 0x0D \<or> c = 0x20 \<or> c = 0xA0 \<or>
     c = 0x1680 \<or> (0x2000 \<le> c \<and> c \<le> 0x200A) \<or> c = 0x2028 \<or> c = 0x2029 \<or>
     c = 0x202F \<or> c = 0x205F \<or> c = 0x3000 \<or> c = 0xFEFF"

definition trim :: "jsstring \<Rightarrow> jsstring" where
  "trim s = rev (dropWhile isWhiteSpace (rev (dropWhile isWhiteSpace s)))"

text \<open>\<open>s.split(sep)\<close> for a one-unit separator; \<open>''.split(sep)\<close> is \<open>['']\<close>.\<close>

fun split :: "nat \<Rightarrow> jsstring \<Rightarrow> jsstring list" where
  "split sep [] = [[]]"
| "split sep (c # cs) =
     (if c = sep then [] # split sep cs
      else (case split sep cs of [] \<Rightarrow> [[c]] | l # ls \<Rightarrow> (c # l) # ls))"

fun join :: "jsstring \<Rightarrow> jsstring list \<Rightarrow> jsstring" where
  "join sep [] = []"
| "join sep [l] = l"
| "join sep (l # k # ls) = l @ sep @ join sep (k # ls)"

fun includes_js :: "jsstring \<Rightarrow> jsstring \<Rightarrow> bool" where
  "includes_js [] k = (k = [])"
| "includes_js (c # cs) k = (take (length k) (c # cs) = k \<or> includes_js cs k)"

text \<open>
  The number of characters (Unicode code points) of a string, as opposed to its
  \<open>.length\<close>: a high surrogate followed by a low surrogate is one character of two
  code units.
\<close>

fun codePoints :: "jsstring \<Rightarrow> nat" where
  "codePoints [] = 0"
| "codePoints [c] = 1"
| "codePoints (c # d # cs) =
     (if 0xD800 \<le> c \<and> c \<le> 0xDBFF \<and> 0xDC00 \<le> d \<and> d \<le> 0xDFFF
      then Suc (codePoints cs) else Suc (codePoints (d # cs)))"

definition substring0 :: "nat \<Rightarrow> jsstring \<Rightarrow> jsstring" where
  "substring0 n s = take n s"

definition newline :: nat where
  "newline = 0x0A"

section \<open>Values read from a parsed JSON response\<close>

text \<open>
  A property of a response object is absent (\<open>undefined\<close>), \<open>null\<close>, or a value of the
  type the API documents for it.
\<close>

datatype 'a jsprop = Undefined | Null | Val 'a

text \<open>\<open>xs[i]\<close>: reading past the end of an array gives \<open>undefined\<close>.\<close>

definition elemAt :: "'a list \<Rightarrow> nat \<Rightarrow> 'a jsprop" where
  "elemAt xs i = (if i < length xs then Val (xs ! i) else Undefined)"

text \<open>\<open>base?.field\<close>\<close>

definition chain :: "'a jsprop \<Rightarrow> ('a \<Rightarrow> 'b jsprop) \<Rightarrow> 'b jsprop" where
  "chain base field = (case base of Val x \<Rightarrow> field x | _ \<Rightarrow> Undefined)"

text \<open>Truthiness of a string; \<open>a || b\<close> on strings.\<close>

definition truthyS :: "jsstring jsprop \<Rightarrow> bool" where
  "truthyS p = (case p of Val s \<Rightarrow> s \<noteq> [] | _ \<Rightarrow> False)"

definition orS :: "jsstring jsprop \<Rightarrow> jsstring jsprop \<Rightarrow> jsstring jsprop" where
  "orS a b = (if truthyS a then a else b)"

text \<open>String conversion in a template literal or under \<open>+\<close>.\<close>

definition toString :: "jsstring jsprop \<Rightarrow> jsstring" where
  "toString p = (case p of Undefined \<Rightarrow> str ''undefined'' | Null \<Rightarrow> str ''null'' | Val s \<Rightarrow> s)"

text \<open>
  \<open>sentiment_analysis\<close> and \<open>fake_news_detection\<close> objects: the properties the code
  reads from either. Numbers are the exact values of the doubles.
\<close>

record analysis =
  sentiment :: "jsstring jsprop"
  prediction :: "jsstring jsprop"
  confidence :: "rat jsprop"

record source_obj =
  name :: "jsstring jsprop"

record original_article =
  description :: "jsstring jsprop"
  content :: "jsstring jsprop"
  orig_source :: "source_obj jsprop"
  published_at :: "jsstring jsprop"

record article =
  title :: "jsstring jsprop"
  summary :: "jsstring jsprop"
  source :: "jsstring jsprop"
  sentiment_analysis :: "analysis jsprop"
  fake_news_detection :: "analysis jsprop"
  original_article :: "original_article jsprop"

record data =
  processed_articles :: "article list jsprop"

text \<open>What \<open>response.json()\<close> resolves to: an article object, a list wrapper, or \<open>null\<close>.\<close>

datatype json = ArticleJson article | DataJson data | NullJson

definition emptyAnalysis :: analysis where
  "emptyAnalysis = \<lparr>sentiment = Undefined, prediction = Undefined, confidence = Undefined\<rparr>"

definition emptyArticle :: article where
  "emptyArticle = \<lparr>title = Undefined, summary = Undefined, source = Undefined,
     sentiment_analysis = Undefined, fake_news_detection = Undefined,
     original_article = Undefined\<rparr>"

text \<open>
  Reading an object of one shape through the property names of the other finds nothing;
  reading a property of \<open>null\<close> throws a TypeError (\<open>None\<close>).
\<close>

definition asArticle :: "json \<Rightarrow> article option" where
  "asArticle j = (case j of ArticleJson a \<Rightarrow> Some a | DataJson _ \<Rightarrow> Some emptyArticle | NullJson \<Rightarrow> None)"

definition asData :: "json \<Rightarrow> data option" where
  "asData j = (case j of DataJson d \<Rightarrow> Some d
                | ArticleJson _ \<Rightarrow> Some \<lparr>processed_articles = Undefined\<rparr> | NullJson \<Rightarrow> None)"

section \<open>Requests, responses and the environment of the chat component\<close>

datatype jvalue = JString jsstring | JNumber rat | JBoolean bool

record request =
  url :: string
  httpMethod :: string
  headers :: "(string \<times> string) list"
  body :: "(string \<times> jvalue) list"

text \<open>\<open>jsonBody = None\<close>: \<open>response.json()\<close> rejects.\<close>

record response =
  ok :: bool
  jsonBody :: "json option"

text \<open>
  What the component takes from its platform: the string and number built-ins whose
  results are locale or floating-point matters, the clock, \<open>Math.random()\<close>, and the
  network (\<open>fetch\<close> returns \<open>None\<close> when the promise rejects).
\<close>

record env =
  toLowerCase :: "jsstring \<Rightarrow> jsstring"
  toFixed :: "rat \<Rightarrow> nat \<Rightarrow> jsstring"
  times :: "rat \<Rightarrow> rat \<Rightarrow> rat"
  toLocaleDateString :: "jsstring \<Rightarrow> jsstring"
  newDate :: "nat \<Rightarrow> nat"
  random :: rat
  fetch :: "request \<Rightarrow> response option"

record message =
  text_js :: "jsstring jsprop"
  sender :: string
  timestamp :: nat

record app =
  messages :: "message list"
  inputValue :: jsstring
  isLoading :: bool

datatype js_error = FetchRejected | JsonRejected | TypeError | Error string

section \<open>The chat component (App.js)\<close>

subsection \<open>Fixed texts\<close>

definition welcomeText :: jsstring where
  "welcomeText = str ''Welcome to the Galaxy News Intelligence Chatbot! '' @ [0xD83C, 0xDF0C] @ str '' I can help you analyze news articles, detect fake news, and provide sentiment analysis. What would you like to explore?''"

definition noResultsText :: jsstring where
  "noResultsText = str ''I couldn't find any relevant news articles. Try asking about a different topic! '' @ [0xD83D, 0xDD04]"

definition connectionErrorText :: jsstring where
  "connectionErrorText = str ''I'm having trouble connecting to the analysis service. Please try again in a moment. '' @ [0x26A0, 0xFE0F]"

definition generalResponses :: "jsstring list" where
  "generalResponses =
    [str ''Hello! I'm your Galaxy News Intelligence Chatbot. '' @ [0xD83C, 0xDF0C] @ str '' I can help you analyze news trends, detect fake news, and provide sentiment analysis. Try asking me about AI trends, recent developments, or current news topics!'',
     str ''I'm here to help you understand news trends! '' @ [0xD83D, 0xDCC8] @ str '' Ask me about trends in AI, technology, or any topic, and I'll provide trend analysis, sentiment analysis, and fake news detection.'',
     str ''Welcome to the future of news analysis! '' @ [0xD83D, 0xDD0D] @ str '' I can analyze news trends, track developments over time, and provide comprehensive analysis. What trend interests you?'',
     str ''I'm your AI-powered news analyst! '' @ [0x26A1] @ str '' I can help you identify trends, analyze sentiment, and track the evolution of any topic. Ask me about AI trends or any recent developments!'']"

definition potentialFakeText :: jsstring where
  "potentialFakeText = [0x26A0, 0xFE0F] @ str '' Potential fake news detected''"

definition likelyAuthenticText :: jsstring where
  "likelyAuthenticText = [0x2705] @ str '' Likely authentic''"

definition articleHeader :: jsstring where
  "articleHeader = [0xD83D, 0xDCC4] @ str '' **Article Analysis:**\<newline>\<newline>**''"

definition trendHeader :: jsstring where
  "trendHeader = [0xD83D, 0xDCC8] @ str '' **Trend Analysis for: ''"

definition latestHeader :: jsstring where
  "latestHeader = [0xD83D, 0xDCF0] @ str '' **Latest News:**\<newline>\<newline>**''"

subsection \<open>The interpolated expressions of the reply templates\<close>

text \<open>\<open>article.sentiment_analysis || {}\<close>, \<open>article.fake_news_detection || {}\<close>\<close>

definition orEmpty :: "analysis jsprop \<Rightarrow> analysis" where
  "orEmpty p = (case p of Val a \<Rightarrow> a | _ \<Rightarrow> emptyAnalysis)"

text \<open>
  \<open>article.summary || article.original_article?.description ||
  article.original_article?.content?.substring(0, n) + '...'\<close>
\<close>

definition summarySlot :: "nat \<Rightarrow> article \<Rightarrow> jsstring" where
  "summarySlot n a =
     toString (orS (summary a) (orS (chain (original_article a) description)
       (Val (toString (chain (chain (original_article a) content) (\<lambda>c. Val (substring0 n c)))
             @ str ''...''))))"

text \<open>\<open>sentiment.sentiment || 'Neutral'\<close>\<close>

definition sentimentLabel :: "analysis \<Rightarrow> jsstring" where
  "sentimentLabel s = toString (orS (sentiment s) (Val (str ''Neutral'')))"

text \<open>\<open>sentiment.confidence ? `(${sentiment.confidence.toFixed(2)})` : ''\<close>\<close>

definition sentimentConfidence :: "env \<Rightarrow> analysis \<Rightarrow> jsstring" where
  "sentimentConfidence E s =
     (case confidence s of
        Val x \<Rightarrow> (if x \<noteq> 0 then str ''('' @ toFixed E x 2 @ str '')'' else [])
      | _ \<Rightarrow> [])"

text \<open>\<open>fakeNews.confidence ? `${(fakeNews.confidence * 100).toFixed(0)}%` : 'High'\<close>\<close>

definition credibilityScore :: "env \<Rightarrow> analysis \<Rightarrow> jsstring" where
  "credibilityScore E f =
     (case confidence f of
        Val x \<Rightarrow> (if x \<noteq> 0 then toFixed E (times E x 100) 0 @ str ''%'' else str ''High'')
      | _ \<Rightarrow> str ''High'')"

text \<open>\<open>fakeNews.prediction === 'fake' ? '... Potential fake news detected' : '... Likely authentic'\<close>\<close>

definition credibilityVerdict :: "analysis \<Rightarrow> jsstring" where
  "credibilityVerdict f =
     (if prediction f = Val (str ''fake'') then potentialFakeText else likelyAuthenticText)"

text \<open>\<open>article.source || 'User provided'\<close>\<close>

definition sourceProvided :: "article \<Rightarrow> jsstring" where
  "sourceProvided a = toString (orS (source a) (Val (str ''User provided'')))"

text \<open>\<open>article.source || article.original_article?.source?.name || 'Unknown'\<close>\<close>

definition sourceFetched :: "article \<Rightarrow> jsstring" where
  "sourceFetched a =
     toString (orS (source a)
       (orS (chain (chain (original_article a) orig_source) name) (Val (str ''Unknown''))))"

text \<open>
  \<open>article.original_article?.published_at ? yes(new Date(...).toLocaleDateString()) : no\<close>
\<close>

definition publishedSlot :: "env \<Rightarrow> article \<Rightarrow> jsstring \<Rightarrow> jsstring \<Rightarrow> jsstring" where
  "publishedSlot E a label no =
     (case chain (original_article a) published_at of
        Val p \<Rightarrow> (if p \<noteq> [] then label @ toLocaleDateString E p else no)
      | _ \<Rightarrow> no)"

subsection \<open>The three reply templates\<close>

definition articleAnalysisText :: "env \<Rightarrow> article \<Rightarrow> jsstring" where
  "articleAnalysisText E a =
     (let sentiment = orEmpty (sentiment_analysis a); fakeNews = orEmpty (fake_news_detection a)
      in articleHeader @ toString (title a) @ str ''**\<newline>\<newline>''
         @ summarySlot 300 a
         @ str ''\<newline>\<newline>'' @ [0xD83D, 0xDD0D] @ str '' **Analysis Results:**\<newline>- Sentiment: ''
         @ sentimentLabel sentiment @ str '' '' @ sentimentConfidence E sentiment
         @ str ''\<newline>- Credibility: ''
         @ credibilityScore E fakeNews @ str '' '' @ credibilityVerdict fakeNews
         @ str ''\<newline>- Source: '' @ sourceProvided a
         @ str ''\<newline>\<newline>*Analysis completed using AI-powered news intelligence.*'')"

definition trendAnalysisText :: "env \<Rightarrow> jsstring \<Rightarrow> article \<Rightarrow> jsstring" where
  "trendAnalysisText E userText a =
     (let sentiment = orEmpty (sentiment_analysis a); fakeNews = orEmpty (fake_news_detection a)
      in trendHeader @ userText @ str ''**\<newline>\<newline>**''
         @ toString (title a) @ str ''**\<newline>\<newline>''
         @ summarySlot 200 a
         @ str ''\<newline>\<newline>'' @ [0xD83D, 0xDD0D] @ str '' **Trend Insights:**\<newline>- Current Sentiment: ''
         @ sentimentLabel sentiment @ str '' '' @ sentimentConfidence E sentiment
         @ str ''\<newline>- Credibility Score: ''
         @ credibilityScore E fakeNews @ str '' '' @ credibilityVerdict fakeNews
         @ str ''\<newline>- Source: '' @ sourceFetched a
         @ str ''\<newline>- Published: '' @ publishedSlot E a [] (str ''Recent'')
         @ str ''\<newline>\<newline>*This analysis represents the latest developments in this trend. For comprehensive trend analysis, consider checking multiple sources over time.*'')"

definition latestNewsText :: "env \<Rightarrow> article \<Rightarrow> jsstring" where
  "latestNewsText E a =
     (let sentiment = orEmpty (sentiment_analysis a); fakeNews = orEmpty (fake_news_detection a)
      in latestHeader @ toString (title a) @ str ''**\<newline>\<newline>''
         @ summarySlot 200 a
         @ str ''\<newline>\<newline>'' @ [0xD83D, 0xDD0D] @ str '' **Analysis:**\<newline>- Sentiment: ''
         @ sentimentLabel sentiment @ str '' '' @ sentimentConfidence E sentiment
         @ str ''\<newline>- Credibility: ''
         @ credibilityScore E fakeNews @ str '' '' @ credibilityVerdict fakeNews
         @ str ''\<newline>- Source: '' @ sourceFetched a
         @ str ''\<newline>\<newline>'' @ publishedSlot E a (str ''Published: '') [])"

subsection \<open>handleSendMessage\<close>

definition isNewsQuery :: "env \<Rightarrow> jsstring \<Rightarrow> bool" where
  "isNewsQuery E t \<longleftrightarrow>
     includes_js (toLowerCase E t) (str ''news'') \<or>
     includes_js (toLowerCase E t) (str ''article'') \<or>
     includes_js (toLowerCase E t) (str ''analyze'') \<or>
     includes_js (toLowerCase E t) (str ''trend'') \<or>
     includes_js (toLowerCase E t) (str ''trends'') \<or>
     includes_js (toLowerCase E t) (str ''recent'') \<or>
     includes_js (toLowerCase E t) (str ''latest'') \<or>
     includes_js (toLowerCase E t) (str ''development'') \<or>
     includes_js (toLowerCase E t) (str ''developments'') \<or>
     includes_js (toLowerCase E t) (str ''progress'') \<or>
     includes_js (toLowerCase E t) (str ''evolution'')"

definition isTrendQuery :: "env \<Rightarrow> jsstring \<Rightarrow> bool" where
  "isTrendQuery E t \<longleftrightarrow>
     includes_js (toLowerCase E t) (str ''trend'') \<or>
     includes_js (toLowerCase E t) (str ''trends'') \<or>
     includes_js (toLowerCase E t) (str ''progress'') \<or>
     includes_js (toLowerCase E t) (str ''evolution'')"

definition processRequest :: "jsstring \<Rightarrow> jsstring \<Rightarrow> request" where
  "processRequest t c =
     \<lparr>url = ''http://localhost:8000/api/process'', httpMethod = ''POST'',
      headers = [(''Content-Type'', ''application/json'')],
      body = [(''title'', JString t), (''content'', JString c),
              (''source'', JString (str ''User Input'')), (''include_analysis'', JBoolean True)]\<rparr>"

definition fetchAndProcessRequest :: "jsstring \<Rightarrow> request" where
  "fetchAndProcessRequest userText =
     \<lparr>url = ''http://localhost:8000/api/fetch-and-process'', httpMethod = ''POST'',
      headers = [(''Content-Type'', ''application/json'')],
      body = [(''query'', JString userText), (''page_size'', JNumber 5),
              (''include_analysis'', JBoolean True)]\<rparr>"

definition botMessage :: "env \<Rightarrow> jsstring jsprop \<Rightarrow> message" where
  "botMessage E t = \<lparr>text_js = t, sender = ''bot'', timestamp = newDate E 1\<rparr>"

text \<open>
  The body of the \<open>try\<close> block, for \<open>userMessage.text = userText\<close>: the requests
  issued, and the bot message built or the exception thrown.
\<close>

definition tryBody :: "env \<Rightarrow> jsstring \<Rightarrow> request list \<times> (js_error + message)" where
  "tryBody E userText =
     (let isNews = isNewsQuery E userText;
          isArticleContent = (length userText > 200)
      in if isArticleContent then
           (let lines = split newline userText;
                title = toString (orS (elemAt lines 0) (Val (str ''User Provided Article'')));
                content = toString (orS (Val (trim (join [newline] (drop 1 lines)))) (Val userText));
                req = processRequest title content
            in case fetch E req of
                 None \<Rightarrow> ([req], Inl FetchRejected)
               | Some response \<Rightarrow>
                   if ok response then
                     (case jsonBody response of
                        None \<Rightarrow> ([req], Inl JsonRejected)
                      | Some j \<Rightarrow>
                          (case asArticle j of
                             None \<Rightarrow> ([req], Inl TypeError)
                           | Some art \<Rightarrow>
                               ([req], Inr (botMessage E (Val (articleAnalysisText E art))))))
                   else ([req], Inl (Error ''Failed to process article'')))
         else if isNews then
           (let req = fetchAndProcessRequest userText
            in case fetch E req of
                 None \<Rightarrow> ([req], Inl FetchRejected)
               | Some response \<Rightarrow>
                   if ok response then
                     (case jsonBody response of
                        None \<Rightarrow> ([req], Inl JsonRejected)
                      | Some j \<Rightarrow>
                          (case asData j of
                             None \<Rightarrow> ([req], Inl TypeError)
                           | Some d \<Rightarrow>
                               (case (case processed_articles d of Val as \<Rightarrow> as | _ \<Rightarrow> []) of
                                  art # _ \<Rightarrow>
                                    ([req], Inr (botMessage E (Val
                                       (if isTrendQuery E userText
                                        then trendAnalysisText E userText art
                                        else latestNewsText E art))))
                                | [] \<Rightarrow> ([req], Inr (botMessage E (Val noResultsText))))))
                   else ([req], Inl (Error ''Failed to fetch news'')))
         else
           ([], Inr (botMessage E
              (elemAt generalResponses
                 (nat \<lfloor>random E * of_nat (length generalResponses)\<rfloor>)))))"

definition errorMsg :: "env \<Rightarrow> message" where
  "errorMsg E = \<lparr>text_js = Val connectionErrorText, sender = ''bot'', timestamp = newDate E 1\<rparr>"

definition handleSendMessage :: "env \<Rightarrow> app \<Rightarrow> app \<times> request list" where
  "handleSendMessage E s =
     (if trim (inputValue s) = [] \<or> isLoading s then (s, [])
      else
        (let userMessage = \<lparr>text_js = Val (trim (inputValue s)), sender = ''user'',
                             timestamp = newDate E 0\<rparr>;
             s1 = s\<lparr>messages := messages s @ [userMessage]\<rparr>;
             s2 = s1\<lparr>inputValue := []\<rparr>;
             s3 = s2\<lparr>isLoading := True\<rparr>;
             r = tryBody E (trim (inputValue s));
             s4 = (case snd r of
                     Inr botMsg \<Rightarrow> s3\<lparr>messages := messages s3 @ [botMsg]\<rparr>
                   | Inl err \<Rightarrow> s3\<lparr>messages := messages s3 @ [errorMsg E]\<rparr>)
         in (s4\<lparr>isLoading := False\<rparr>, fst r)))"

text \<open>\<open>handleKeyPress\<close>: Enter without Shift sends.\<close>

definition handleKeyPress :: "env \<Rightarrow> string \<Rightarrow> bool \<Rightarrow> app \<Rightarrow> app \<times> request list" where
  "handleKeyPress E key shiftKey s =
     (if key = ''Enter'' \<and> \<not> shiftKey then handleSendMessage E s else (s, []))"

subsection \<open>The input control (InputArea.js)\<close>

definition maxLength :: nat where
  "maxLength = 500"

definition isDisabled :: "app \<Rightarrow> bool" where
  "isDisabled s \<longleftrightarrow> trim (inputValue s) = [] \<or> isLoading s"

definition initialApp :: "nat \<Rightarrow> app" where
  "initialApp t0 =
     \<lparr>messages = [\<lparr>text_js = Val welcomeText, sender = ''bot'', timestamp = t0\<rparr>],
      inputValue = [], isLoading = False\<rparr>"

text \<open>
  The states the user can drive the component into. The text input is disabled while
  loading and carries \<open>maxLength={500}\<close>, so an edit delivers a value of at most
  \<open>maxLength\<close> code units to \<open>onChange\<close>; the send button is disabled by
  \<open>isDisabled\<close>; each send runs in an environment of its own. A send is one step:
  while it awaits its response the input and the button are disabled, so no other event
  of the user falls in between.
\<close>

inductive reachable :: "app \<Rightarrow> bool" where
  init: "reachable (initialApp t0)"
| change: "reachable s \<Longrightarrow> \<not> isLoading s \<Longrightarrow> length v \<le> maxLength
           \<Longrightarrow> reachable (s\<lparr>inputValue := v\<rparr>)"
| keyPress: "reachable s \<Longrightarrow> \<not> isLoading s
           \<Longrightarrow> reachable (fst (handleKeyPress E key shiftKey s))"
| click: "reachable s \<Longrightarrow> \<not> isDisabled s \<Longrightarrow> reachable (fst (handleSendMessage E s))"

subsection \<open>Kinds of bot reply\<close>

text \<open>An analysis reply is a text that begins with the header of one of the three templates.\<close>

definition startsWith :: "jsstring \<Rightarrow> jsstring \<Rightarrow> bool" where
  "startsWith t h \<longleftrightarrow> take (length h) t = h"

definition isAnalysisReply :: "jsstring \<Rightarrow> bool" where
  "isAnalysisReply t \<longleftrightarrow> startsWith t articleHeader \<or> startsWith t trendHeader \<or> startsWith t latestHeader"

subsection \<open>The size cap as a state invariant\<close>

definition capped :: "app \<Rightarrow> bool" where
  "capped s \<longleftrightarrow> \<not> isLoading s \<and> length (inputValue s) \<le> maxLength \<and>
     (\<forall>m\<in>set (messages s). sender m = ''user'' \<longrightarrow>
        (\<exists>t. text_js m = Val t \<and> t \<noteq> [] \<and> length t \<le> maxLength))"

section \<open>Concrete platforms, services and inputs\<close>

text \<open>Lower-casing of the ASCII letters; enough for the concrete runs, whose inputs are ASCII.\<close>

definition asciiLower :: "jsstring \<Rightarrow> jsstring" where
  "asciiLower s = map (\<lambda>c. if 0x41 \<le> c \<and> c \<le> 0x5A then c + 0x20 else c) s"

text \<open>
  A platform with the given \<open>Math.random()\<close> value and network; no concrete run below
  formats a number or a date.
\<close>

definition sampleEnv :: "rat \<Rightarrow> (request \<Rightarrow> response option) \<Rightarrow> env" where
  "sampleEnv r net =
     \<lparr>toLowerCase = asciiLower, toFixed = (\<lambda>x n. []), times = (\<lambda>x y. x * y),
      toLocaleDateString = (\<lambda>d. d), newDate = (\<lambda>k. k), random = r, fetch = net\<rparr>"

definition offline :: "request \<Rightarrow> response option" where
  "offline req = None"

text \<open>Services none of whose tiers can run, and the pipeline at start-up.\<close>

definition failingServices :: services where
  "failingServices =
     \<lparr>sentimentPrimary = (\<lambda>t. Inl ModelUnavailable), sentimentFallback = (\<lambda>t. Inl ModelUnavailable),
      credibilityPrimary = (\<lambda>t. Inl ModelUnavailable),
      summaryPrimary = (\<lambda>t. Inl QuotaAuthFailure), summaryFallback = (\<lambda>t. Inl ModelUnavailable),
      fingerprint = (\<lambda>a. length (RawArticle.title a) + length (RawArticle.content a)),
      stageLatency = (\<lambda>s a. 0)\<rparr>"

text \<open>
  Services whose primary tiers answer; the fingerprint tells the sample articles apart.
\<close>

definition workingServices :: services where
  "workingServices =
     \<lparr>sentimentPrimary = (\<lambda>t. Inr (Positive, 9 / 10)), sentimentFallback = (\<lambda>t. Inr (Neutral, 1 / 2)),
      credibilityPrimary = (\<lambda>t. Inr (Authentic, 4 / 5)),
      summaryPrimary = (\<lambda>(t, n). Inr (take n t, 1)), summaryFallback = (\<lambda>(t, n). Inr (take n t, 1 / 2)),
      fingerprint = (\<lambda>a. sum_list (map of_char (RawArticle.title a)) + 1000 * length (RawArticle.content a)),
      stageLatency = (\<lambda>s a. 0)\<rparr>"

definition emptyPipeline :: pipeline where
  "emptyPipeline =
     \<lparr>sentimentCache = Map.empty, credibilityCache = Map.empty, summaryCache = Map.empty,
      stageRuns = 0\<rparr>"

definition sampleConfig :: config where
  "sampleConfig =
     \<lparr>cacheTtl = 60, summaryMaxLength = 400, maxTextLength = 10000, requestTimeout = 30,
      sentimentEnabled = True, credibilityEnabled = True, summaryEnabled = True\<rparr>"

definition sampleArticle :: "string \<Rightarrow> RawArticle" where
  "sampleArticle t =
     \<lparr>RawArticle.title = t,
      RawArticle.content = ''Stocks rally as tech earnings beat expectations'',
      RawArticle.source = ''wire'', publishedAt = None, RawArticle.url = None\<rparr>"

text \<open>An article without text.\<close>

definition blankArticle :: "string \<Rightarrow> RawArticle" where
  "blankArticle t =
     \<lparr>RawArticle.title = t, RawArticle.content = [], RawArticle.source = ''wire'',
      publishedAt = None, RawArticle.url = None\<rparr>"

text \<open>
  Services that are healthy except that the credibility classifier ends with an unexpected
  internal error on one text, and an article with that text.
\<close>

definition flakyServices :: services where
  "flakyServices =
     workingServices\<lparr>credibilityPrimary :=
       (\<lambda>t. if t = ''Breaking'' then Inl UnexpectedError else Inr (Authentic, 4 / 5))\<rparr>"

definition oddArticle :: "string \<Rightarrow> RawArticle" where
  "oddArticle t =
     \<lparr>RawArticle.title = t, RawArticle.content = ''Breaking'', RawArticle.source = ''wire'',
      publishedAt = None, RawArticle.url = None\<rparr>"

text \<open>Healthy services whose summarizer takes longer than the request timeout allows.\<close>

definition slowServices :: services where
  "slowServices =
     workingServices\<lparr>stageLatency := (\<lambda>s a. if s = SummaryStage then 45 else 0)\<rparr>"

text \<open>Two stage results for the concrete cache runs.\<close>

definition cachedResult :: "SentimentValue StageResult" where
  "cachedResult = \<lparr>value_sr = Positive, StageResult.confidence = 9 / 10, origin = Primary\<rparr>"

definition recomputedResult :: "SentimentValue StageResult" where
  "recomputedResult = \<lparr>value_sr = Negative, StageResult.confidence = 1 / 2, origin = Fallback\<rparr>"

text \<open>A network on which every request is answered with an empty list of articles.\<close>

definition emptyNet :: "request \<Rightarrow> response option" where
  "emptyNet req = Some \<lparr>ok = True, jsonBody = Some (DataJson \<lparr>processed_articles = Val []\<rparr>)\<rparr>"

text \<open>A network that answers with an article whose credibility analysis is degraded.\<close>

definition degradedCredibility :: analysis where
  "degradedCredibility =
     \<lparr>sentiment = Undefined, prediction = Val (str ''unknown''), confidence = Val 0\<rparr>"

definition degradedNet :: "request \<Rightarrow> response option" where
  "degradedNet req =
     Some \<lparr>ok = True,
           jsonBody = Some (ArticleJson (emptyArticle\<lparr>fake_news_detection := Val degradedCredibility\<rparr>))\<rparr>"

text \<open>A credibility analysis that predicts fake, with confidence.\<close>

definition fakeCredibility :: analysis where
  "fakeCredibility =
     \<lparr>sentiment = Undefined, prediction = Val (str ''fake''), confidence = Val (9 / 10)\<rparr>"

text \<open>
  A message of 101 characters, each the galaxy emoji U+1F30C of the welcome text, which is
  the surrogate pair D83C DF0C; and a pasted article of three lines, the second one blank.
\<close>

definition emojiMessage :: jsstring where
  "emojiMessage = concat (replicate 101 [0xD83C, 0xDF0C])"

definition pastedArticle :: jsstring where
  "pastedArticle =
     str ''Markets'' @ [newline, newline] @ str ''Up'' @ [newline] @ replicate 200 0x78"

text \<open>Two source collaborators: one with two matches, one with none.\<close>

definition twoArticles :: "string \<Rightarrow> nat \<Rightarrow> RawArticle list" where
  "twoArticles q n = take n [sampleArticle ''A'', sampleArticle ''C'']"

definition noArticles :: "string \<Rightarrow> nat \<Rightarrow> RawArticle list" where
  "noArticles q n = []"

section \<open>Properties of the chat component\<close>

subsection \<open>Strings and the shape of a send\<close>

lemma dropWhile_all_iff: "(\<forall>x\<in>set (dropWhile P s). P x) \<longleftrightarrow> dropWhile P s = []"
proof (cases "dropWhile P s")
  case Nil
  then show ?thesis by (auto dest: set_dropWhileD)
next
  case (Cons x xs)
  then have "\<not> P x" using hd_dropWhile[of P s] by simp
  then show ?thesis using Cons by auto
qed

lemma trim_empty_iff: "trim s = [] \<longleftrightarrow> (\<forall>c\<in>set s. isWhiteSpace c)"
proof -
  have "trim s = [] \<longleftrightarrow> (\<forall>x\<in>set (dropWhile isWhiteSpace s). isWhiteSpace x)"
    by (simp add: trim_def)
  also have "\<dots> \<longleftrightarrow> dropWhile isWhiteSpace s = []" by (rule dropWhile_all_iff)
  also have "\<dots> \<longleftrightarrow> (\<forall>c\<in>set s. isWhiteSpace c)" by simp
  finally show ?thesis .
qed

lemma length_trim_le: "length (trim s) \<le> length s"
proof -
  have "length (trim s) \<le> length (dropWhile isWhiteSpace s)"
    unfolding trim_def using length_dropWhile_le[of isWhiteSpace "rev (dropWhile isWhiteSpace s)"] by simp
  also have "\<dots> \<le> length s" by (rule length_dropWhile_le)
  finally show ?thesis .
qed

lemma handleSendMessage_blank:
  "\<forall>c\<in>set (inputValue s). isWhiteSpace c \<Longrightarrow> handleSendMessage E s = (s, [])"
  by (simp add: handleSendMessage_def trim_empty_iff)

lemma tryBody_sender: "snd (tryBody E t) = Inr b \<Longrightarrow> sender b = ''bot''"
  by (auto simp: tryBody_def Let_def botMessage_def split: if_splits option.splits list.splits)

lemma handleSendMessage_sent:
  assumes "trim (inputValue s) \<noteq> []" "\<not> isLoading s"
  shows "fst (handleSendMessage E s) =
     \<lparr>messages = messages s @
        [\<lparr>text_js = Val (trim (inputValue s)), sender = ''user'', timestamp = newDate E 0\<rparr>,
         (case snd (tryBody E (trim (inputValue s))) of Inr b \<Rightarrow> b | Inl _ \<Rightarrow> errorMsg E)],
      inputValue = [], isLoading = False\<rparr>"
  using assms by (cases s) (simp add: handleSendMessage_def Let_def split: sum.splits)

lemma handleSendMessage_requests:
  assumes "trim (inputValue s) \<noteq> []" "\<not> isLoading s"
  shows "snd (handleSendMessage E s) = fst (tryBody E (trim (inputValue s)))"
  using assms by (simp add: handleSendMessage_def Let_def)

lemma reply_sender:
  "sender (case snd (tryBody E t) of Inr b \<Rightarrow> b | Inl _ \<Rightarrow> errorMsg E) = ''bot''"
  by (cases "snd (tryBody E t)") (simp_all add: errorMsg_def tryBody_sender)

lemma capped_send: "capped s \<Longrightarrow> capped (fst (handleSendMessage E s))"
proof (cases "trim (inputValue s) = [] \<or> isLoading s")
  case True
  assume "capped s"
  with True show ?thesis by (simp add: handleSendMessage_def)
next
  case False
  assume c: "capped s"
  have "length (trim (inputValue s)) \<le> maxLength"
    using c length_trim_le[of "inputValue s"] by (simp add: capped_def)
  with False c show ?thesis
    by (auto simp: handleSendMessage_sent capped_def reply_sender)
qed

lemma reachable_capped: "reachable s \<Longrightarrow> capped s"
proof (induction rule: reachable.induct)
  case (init t0)
  show ?case by (simp add: capped_def initialApp_def)
next
  case (change s v)
  then show ?case by (simp add: capped_def)
next
  case (keyPress s E key shiftKey)
  then show ?case by (simp add: handleKeyPress_def capped_send)
next
  case (click s E)
  then show ?case by (simp add: capped_send)
qed

text \<open>
  C3: an input that is empty or only whitespace is rejected before anything runs:
  handleSendMessage returns the state as it was and issues no request. The input
  control caps the input at 500 code units, so in every state the user can reach the
  input, and every message the user has sent, has at most 500 code units.
\<close>

theorem C3_blank_input_rejected_and_size_cap:
  "((\<forall>c\<in>set (inputValue s). isWhiteSpace c) \<longrightarrow> handleSendMessage E s = (s, [])) \<and>
   (reachable s' \<longrightarrow>
      length (inputValue s') \<le> 500 \<and>
      (\<forall>m\<in>set (messages s'). sender m = ''user'' \<longrightarrow>
         (\<exists>t. text_js m = Val t \<and> t \<noteq> [] \<and> length t \<le> 500)))"
  using handleSendMessage_blank[of s E] reachable_capped[of s']
  by (simp add: capped_def maxLength_def)

lemma sample_hello:
  "fst (handleSendMessage (sampleEnv 0 offline) ((initialApp 0)\<lparr>inputValue := str ''hello''\<rparr>)) =
   \<lparr>messages = [\<lparr>text_js = Val welcomeText, sender = ''bot'', timestamp = 0\<rparr>,
                \<lparr>text_js = Val (str ''hello''), sender = ''user'', timestamp = 0\<rparr>,
                \<lparr>text_js = Val (generalResponses ! 0), sender = ''bot'', timestamp = 1\<rparr>],
     inputValue = [], isLoading = False\<rparr>"
  by (simp add: handleSendMessage_def tryBody_def Let_def initialApp_def sampleEnv_def str_def
        trim_def isWhiteSpace_def isNewsQuery_def asciiLower_def botMessage_def elemAt_def
        generalResponses_def)

theorem C3_blank_input_rejected_and_size_cap_witness:
  "list_all isWhiteSpace (inputValue ((initialApp 0)\<lparr>inputValue := str ''  ''\<rparr>)) \<and>
   handleSendMessage (sampleEnv 0 offline) ((initialApp 0)\<lparr>inputValue := str ''  ''\<rparr>)
     = ((initialApp 0)\<lparr>inputValue := str ''  ''\<rparr>, []) \<and>
   reachable (fst (handleSendMessage (sampleEnv 0 offline) ((initialApp 0)\<lparr>inputValue := str ''hello''\<rparr>))) \<and>
   (\<exists>m\<in>set (messages (fst (handleSendMessage (sampleEnv 0 offline) ((initialApp 0)\<lparr>inputValue := str ''hello''\<rparr>)))).
      sender m = ''user'' \<and> (\<exists>t. text_js m = Val t \<and> t \<noteq> [] \<and> length t \<le> 500))"
proof -
  let ?blank = "(initialApp 0)\<lparr>inputValue := str ''  ''\<rparr>"
  let ?typed = "(initialApp 0)\<lparr>inputValue := str ''hello''\<rparr>"
  let ?sent = "fst (handleSendMessage (sampleEnv 0 offline) ?typed)"
  have blank: "\<forall>c\<in>set (inputValue ?blank). isWhiteSpace c"
    by (simp add: str_def isWhiteSpace_def)
  have r1: "reachable ?typed"
    by (rule reachable.change[OF reachable.init]) (simp_all add: initialApp_def maxLength_def str_def)
  have r2: "reachable ?sent"
    by (rule reachable.click[OF r1]) (simp add: isDisabled_def initialApp_def trim_def str_def isWhiteSpace_def)
  have m: "\<lparr>text_js = Val (str ''hello''), sender = ''user'', timestamp = 0\<rparr> \<in> set (messages ?sent)"
    by (simp add: sample_hello)
  from C3_blank_input_rejected_and_size_cap[of ?blank "sampleEnv 0 offline" ?sent] blank r2 m
  show ?thesis unfolding list_all_iff by (metis message.select_convs(1) message.select_convs(2))
qed

subsection \<open>Routing of a submitted message\<close>

lemma split_nonempty: "split sep s \<noteq> []"
  by (induction s) (auto split: list.splits)

lemma length_generalResponses: "length generalResponses = 4"
  by (simp add: generalResponses_def)

lemma randomIndex_bound:
  fixes r :: rat
  assumes "0 \<le> r" "r < 1"
  shows "nat \<lfloor>r * of_nat (length generalResponses)\<rfloor> < length generalResponses"
proof -
  have "r * 4 < 4" using assms by simp
  then have "\<lfloor>r * 4\<rfloor> < 4" by (simp add: floor_less_iff)
  then have "nat \<lfloor>r * 4\<rfloor> < 4" by linarith
  then show ?thesis by (simp add: length_generalResponses)
qed

lemma first_or_default:
  "toString (orS (elemAt ls 0) (Val d)) = (if ls = [] \<or> hd ls = [] then d else hd ls)"
  by (cases ls) (simp_all add: elemAt_def orS_def truthyS_def toString_def)

lemma string_or_default:
  "toString (orS (Val x) (Val d)) = (if x = [] then d else x)"
  by (simp add: orS_def truthyS_def toString_def)

lemma hd_split: "hd (split sep s) = takeWhile (\<lambda>c. c \<noteq> sep) s"
  by (induction s) (auto split: list.splits simp: split_nonempty)

lemma tl_split:
  "tl (split sep s) = (case dropWhile (\<lambda>c. c \<noteq> sep) s of [] \<Rightarrow> [] | x # r \<Rightarrow> split sep r)"
proof (induction s)
  case Nil
  then show ?case by simp
next
  case (Cons c cs)
  obtain l ls where sp: "split sep cs = l # ls"
    using split_nonempty[of sep cs] by (cases "split sep cs") auto
  show ?case
  proof (cases "c = sep")
    case True
    then show ?thesis by simp
  next
    case False
    then have "tl (split sep (c # cs)) = tl (split sep cs)" using sp by simp
    then show ?thesis using Cons False by simp
  qed
qed

lemma join_Cons: "join sep ((c # l) # ls) = c # join sep (l # ls)"
  by (cases ls) simp_all

lemma join_split: "join [sep] (split sep s) = s"
proof (induction s)
  case Nil
  then show ?case by simp
next
  case (Cons c cs)
  obtain l ls where sp: "split sep cs = l # ls" using split_nonempty[of sep cs] by (cases "split sep cs") auto
  show ?case
  proof (cases "c = sep")
    case True
    then show ?thesis using Cons sp by simp
  next
    case False
    then show ?thesis using Cons sp by (simp add: join_Cons)
  qed
qed

lemma join_tl_split:
  "join [sep] (tl (split sep s)) = drop 1 (dropWhile (\<lambda>c. c \<noteq> sep) s)"
proof (cases "dropWhile (\<lambda>c. c \<noteq> sep) s")
  case Nil
  then have "tl (split sep s) = []" by (simp only: tl_split list.case)
  then show ?thesis by (simp only: Nil join.simps drop_Nil)
next
  case (Cons x r)
  then have "tl (split sep s) = split sep r" by (simp only: tl_split list.case)
  then show ?thesis by (simp only: Cons join_split One_nat_def drop_Suc_Cons drop_0)
qed

lemma rev_dropWhile_takeWhile:
  "rev (dropWhile P (rev u)) @ rev (takeWhile P (rev u)) = u"
proof -
  have "rev (takeWhile P (rev u) @ dropWhile P (rev u)) = rev (rev u)"
    by (simp only: takeWhile_dropWhile_id)
  then show ?thesis by (simp only: rev_append rev_rev_ident)
qed

lemma trim_decomp:
  "\<exists>l r. s = l @ trim s @ r \<and> list_all isWhiteSpace l \<and> list_all isWhiteSpace r"
proof -
  let ?u = "dropWhile isWhiteSpace s"
  let ?l = "takeWhile isWhiteSpace s"
  let ?r = "rev (takeWhile isWhiteSpace (rev ?u))"
  have u: "?u = trim s @ ?r"
    unfolding trim_def by (rule rev_dropWhile_takeWhile[symmetric])
  have "s = ?l @ ?u" by simp
  then have "s = ?l @ trim s @ ?r" using u by simp
  moreover have "list_all isWhiteSpace ?l" by (auto simp: list_all_iff dest: set_takeWhileD)
  moreover have "list_all isWhiteSpace ?r" by (auto simp: list_all_iff dest: set_takeWhileD)
  ultimately show ?thesis by blast
qed

lemma trim_ends:
  assumes "trim s \<noteq> []"
  shows "\<not> isWhiteSpace (hd (trim s))" and "\<not> isWhiteSpace (last (trim s))"
proof -
  let ?u = "dropWhile isWhiteSpace s"
  let ?d = "dropWhile isWhiteSpace (rev ?u)"
  have d: "?d \<noteq> []" using assms by (simp add: trim_def)
  have "last (trim s) = hd ?d" using d by (simp add: trim_def last_rev)
  then show "\<not> isWhiteSpace (last (trim s))" using d hd_dropWhile[of isWhiteSpace "rev ?u"] by simp
  have u: "?u = trim s @ rev (takeWhile isWhiteSpace (rev ?u))"
    unfolding trim_def by (rule rev_dropWhile_takeWhile[symmetric])
  then have "hd ?u = hd (trim s)" using assms by (metis hd_append2)
  moreover have "?u \<noteq> []"
  proof
    assume "?u = []"
    then have "trim s @ rev (takeWhile isWhiteSpace (rev ?u)) = []" using u by (simp only:)
    then show False using assms by (simp only: append_is_Nil_conv simp_thms)
  qed
  ultimately show "\<not> isWhiteSpace (hd (trim s))" using hd_dropWhile[of isWhiteSpace s] by simp
qed

lemma first_line_nonempty:
  assumes "trim s \<noteq> []"
  shows "takeWhile (\<lambda>c. c \<noteq> newline) (trim s) \<noteq> []"
proof -
  have "\<not> isWhiteSpace (hd (trim s))" using assms by (rule trim_ends)
  then have "hd (trim s) \<noteq> newline" by (auto simp: isWhiteSpace_def newline_def)
  then show ?thesis using assms by (cases "trim s") simp_all
qed

lemma tryBody_article_requests:
  assumes "200 < length t"
  shows "fst (tryBody E t) =
     [processRequest
        (if takeWhile (\<lambda>c. c \<noteq> newline) t = [] then str ''User Provided Article''
         else takeWhile (\<lambda>c. c \<noteq> newline) t)
        (if trim (drop 1 (dropWhile (\<lambda>c. c \<noteq> newline) t)) = [] then t
         else trim (drop 1 (dropWhile (\<lambda>c. c \<noteq> newline) t)))]"
proof -
  let ?T = "toString (orS (elemAt (split newline t) 0) (Val (str ''User Provided Article'')))"
  let ?C = "toString (orS (Val (trim (join [newline] (drop 1 (split newline t))))) (Val t))"
  have "fst (tryBody E t) = [processRequest ?T ?C]"
    using assms
    by (simp add: tryBody_def Let_def if_distrib[where f=fst] split: option.splits split del: if_split cong: if_cong)
  then have "fst (tryBody E t) =
     [processRequest
        (if hd (split newline t) = [] then str ''User Provided Article'' else hd (split newline t))
        (if trim (join [newline] (tl (split newline t))) = [] then t
         else trim (join [newline] (tl (split newline t))))]"
    by (simp only: first_or_default string_or_default split_nonempty drop_Suc drop_0 One_nat_def simp_thms)
  then show ?thesis by (simp only: hd_split join_tl_split)
qed

lemma includes_iff: "includes_js s k \<longleftrightarrow> (\<exists>p q. s = p @ k @ q)"
proof (induction s)
  case Nil
  then show ?case by auto
next
  case (Cons c cs)
  show ?case
  proof
    assume "includes_js (c # cs) k"
    then consider "take (length k) (c # cs) = k" | "includes_js cs k" by auto
    then show "\<exists>p q. c # cs = p @ k @ q"
    proof cases
      case 1
      have "c # cs = take (length k) (c # cs) @ drop (length k) (c # cs)"
        by (simp only: append_take_drop_id)
      then have "c # cs = [] @ k @ drop (length k) (c # cs)" using 1 by simp
      then show ?thesis by blast
    next
      case 2
      then obtain p q where "cs = p @ k @ q" using Cons by blast
      then have "c # cs = (c # p) @ k @ q" by simp
      then show ?thesis by blast
    qed
  next
    assume "\<exists>p q. c # cs = p @ k @ q"
    then obtain p q where pq: "c # cs = p @ k @ q" by blast
    show "includes_js (c # cs) k"
    proof (cases p)
      case Nil
      then have "take (length k) (c # cs) = k" using pq by simp
      then show ?thesis by simp
    next
      case (Cons x p')
      then have "cs = p' @ k @ q" using pq by simp
      then have "includes_js cs k" using Cons.IH by blast
      then show ?thesis by simp
    qed
  qed
qed

lemma tryBody_news_requests:
  assumes "\<not> 200 < length t" "isNewsQuery E t"
  shows "fst (tryBody E t) = [fetchAndProcessRequest t]"
  using assms
  by (simp add: tryBody_def Let_def split: option.splits list.splits jsprop.splits)

lemma tryBody_chat:
  assumes "\<not> 200 < length t" "\<not> isNewsQuery E t"
  shows "tryBody E t =
     ([], Inr (botMessage E (elemAt generalResponses
                 (nat \<lfloor>random E * of_nat (length generalResponses)\<rfloor>))))"
  using assms by (simp add: tryBody_def Let_def)

lemma isNewsQuery_keywords:
  "isNewsQuery E t \<longleftrightarrow>
     (\<exists>k\<in>set [str ''news'', str ''article'', str ''analyze'', str ''trend'', str ''trends'',
                str ''recent'', str ''latest'', str ''development'', str ''developments'',
                str ''progress'', str ''evolution'']. includes_js (toLowerCase E t) k)"
  by (simp add: isNewsQuery_def)

lemma codePoints_le_length: "codePoints s \<le> length s"
  by (induction s rule: codePoints.induct) auto

text \<open>
  C8: a submitted message \<open>t\<close> (the trimmed input) longer than 200 code units, as
  every message of more than 200 characters is, is handled as a pasted article: exactly one request is issued, a POST to /api/process
  whose body has as title the first line of \<open>t\<close>, that is \<open>t\<close> up to its first
  newline (the default title if that line is empty, which it never is for a submitted
  message), as content what follows the first newline, trimmed (the whole message if
  that is empty), source 'User Input' and include_analysis true. Trimming removes
  white space at both ends and nothing else.
\<close>

theorem C8_long_message_posted_as_article:
  assumes "\<not> isLoading s" and "t = trim (inputValue s)" and "200 < length t"
  shows "snd (handleSendMessage E s) =
     [\<lparr>url = ''http://localhost:8000/api/process'', httpMethod = ''POST'',
       headers = [(''Content-Type'', ''application/json'')],
       body = [(''title'', JString (if takeWhile (\<lambda>c. c \<noteq> newline) t = []
                                      then str ''User Provided Article''
                                      else takeWhile (\<lambda>c. c \<noteq> newline) t)),
               (''content'', JString (if trim (drop 1 (dropWhile (\<lambda>c. c \<noteq> newline) t)) = [] then t
                                        else trim (drop 1 (dropWhile (\<lambda>c. c \<noteq> newline) t)))),
               (''source'', JString (str ''User Input'')),
               (''include_analysis'', JBoolean True)]\<rparr>] \<and>
     takeWhile (\<lambda>c. c \<noteq> newline) t \<noteq> [] \<and>
     (\<exists>l r. drop 1 (dropWhile (\<lambda>c. c \<noteq> newline) t) =
               l @ trim (drop 1 (dropWhile (\<lambda>c. c \<noteq> newline) t)) @ r \<and>
            list_all isWhiteSpace l \<and> list_all isWhiteSpace r) \<and>
     (trim (drop 1 (dropWhile (\<lambda>c. c \<noteq> newline) t)) \<noteq> [] \<longrightarrow>
        \<not> isWhiteSpace (hd (trim (drop 1 (dropWhile (\<lambda>c. c \<noteq> newline) t)))) \<and>
        \<not> isWhiteSpace (last (trim (drop 1 (dropWhile (\<lambda>c. c \<noteq> newline) t)))))"
proof -
  have ne: "trim (inputValue s) \<noteq> []" using assms by auto
  have 1: "snd (handleSendMessage E s) =
     [\<lparr>url = ''http://localhost:8000/api/process'', httpMethod = ''POST'',
       headers = [(''Content-Type'', ''application/json'')],
       body = [(''title'', JString (if takeWhile (\<lambda>c. c \<noteq> newline) t = []
                                      then str ''User Provided Article''
                                      else takeWhile (\<lambda>c. c \<noteq> newline) t)),
               (''content'', JString (if trim (drop 1 (dropWhile (\<lambda>c. c \<noteq> newline) t)) = [] then t
                                        else trim (drop 1 (dropWhile (\<lambda>c. c \<noteq> newline) t)))),
               (''source'', JString (str ''User Input'')),
               (''include_analysis'', JBoolean True)]\<rparr>]"
    using handleSendMessage_requests[OF ne assms(1), of E] tryBody_article_requests[OF assms(3), of E]
    by (simp add: assms(2) processRequest_def)
  have 2: "takeWhile (\<lambda>c. c \<noteq> newline) t \<noteq> []"
    unfolding assms(2) using ne by (rule first_line_nonempty)
  have 3: "\<exists>l r. drop 1 (dropWhile (\<lambda>c. c \<noteq> newline) t) =
               l @ trim (drop 1 (dropWhile (\<lambda>c. c \<noteq> newline) t)) @ r \<and>
            list_all isWhiteSpace l \<and> list_all isWhiteSpace r"
    by (rule trim_decomp)
  have 4: "trim (drop 1 (dropWhile (\<lambda>c. c \<noteq> newline) t)) \<noteq> [] \<longrightarrow>
        \<not> isWhiteSpace (hd (trim (drop 1 (dropWhile (\<lambda>c. c \<noteq> newline) t)))) \<and>
        \<not> isWhiteSpace (last (trim (drop 1 (dropWhile (\<lambda>c. c \<noteq> newline) t))))"
    using trim_ends by blast
  show ?thesis using 1 2 3 4 by blast
qed

text \<open>
  C9 (as amended): for a submitted message \<open>t\<close> of at most 200 UTF-16 code units,
  the one request POST /api/fetch-and-process with query \<open>t\<close>, page_size 5 and
  include_analysis true is issued if and only if the lower-cased message contains one of
  the eleven keywords as a substring; otherwise no request is issued and the reply is one
  of the general chat responses.
\<close>

theorem C9_short_message_routed_by_keywords:
  assumes "\<not> isLoading s" and "t = trim (inputValue s)" and "t \<noteq> []" and "length t \<le> 200"
    and "0 \<le> random E" and "random E < 1"
  shows "(snd (handleSendMessage E s) =
            [\<lparr>url = ''http://localhost:8000/api/fetch-and-process'', httpMethod = ''POST'',
              headers = [(''Content-Type'', ''application/json'')],
              body = [(''query'', JString t), (''page_size'', JNumber 5),
                      (''include_analysis'', JBoolean True)]\<rparr>]
          \<longleftrightarrow>
          (\<exists>k\<in>set [str ''news'', str ''article'', str ''analyze'', str ''trend'', str ''trends'',
                     str ''recent'', str ''latest'', str ''development'', str ''developments'',
                     str ''progress'', str ''evolution'']. (\<exists>p q. toLowerCase E t = p @ k @ q)))
       \<and>
         (\<not> (\<exists>k\<in>set [str ''news'', str ''article'', str ''analyze'', str ''trend'', str ''trends'',
                     str ''recent'', str ''latest'', str ''development'', str ''developments'',
                     str ''progress'', str ''evolution'']. (\<exists>p q. toLowerCase E t = p @ k @ q))
          \<longrightarrow> snd (handleSendMessage E s) = [] \<and>
              (\<exists>r\<in>set generalResponses.
                 last (messages (fst (handleSendMessage E s))) =
                   \<lparr>text_js = Val r, sender = ''bot'', timestamp = newDate E 1\<rparr>))"
proof -
  have ne: "trim (inputValue s) \<noteq> []" using assms by auto
  have short: "\<not> 200 < length t" using assms by simp
  have reqs: "snd (handleSendMessage E s) = fst (tryBody E t)"
    using handleSendMessage_requests[OF ne assms(1), of E] by (simp add: assms(2))
  have sent: "last (messages (fst (handleSendMessage E s))) =
        (case snd (tryBody E t) of Inr b \<Rightarrow> b | Inl _ \<Rightarrow> errorMsg E)"
    using handleSendMessage_sent[OF ne assms(1), of E] by (simp add: assms(2))
  have kw: "(\<exists>k\<in>set [str ''news'', str ''article'', str ''analyze'', str ''trend'', str ''trends'',
                     str ''recent'', str ''latest'', str ''development'', str ''developments'',
                     str ''progress'', str ''evolution'']. (\<exists>p q. toLowerCase E t = p @ k @ q))
             \<longleftrightarrow> isNewsQuery E t"
    unfolding includes_iff[symmetric] by (rule isNewsQuery_keywords[symmetric])
  show ?thesis
  proof (cases "isNewsQuery E t")
    case True
    then show ?thesis
      unfolding kw using reqs tryBody_news_requests[OF short True]
      by (simp add: fetchAndProcessRequest_def)
  next
    case False
    let ?i = "nat \<lfloor>random E * of_nat (length generalResponses)\<rfloor>"
    have i: "?i < length generalResponses" using randomIndex_bound assms by blast
    have mem: "generalResponses ! ?i \<in> set generalResponses" using i by simp
    have r: "snd (handleSendMessage E s) = []"
      using reqs tryBody_chat[OF short False] by simp
    have l: "last (messages (fst (handleSendMessage E s))) =
       \<lparr>text_js = Val (generalResponses ! ?i), sender = ''bot'', timestamp = newDate E 1\<rparr>"
      using sent tryBody_chat[OF short False] i by (simp add: botMessage_def elemAt_def)
    have b: "\<exists>r\<in>set generalResponses.
        last (messages (fst (handleSendMessage E s))) =
          \<lparr>text_js = Val r, sender = ''bot'', timestamp = newDate E 1\<rparr>"
      using l mem by blast
    show ?thesis unfolding kw using False r b by simp
  qed
qed

lemma chat_reply:
  assumes "\<not> isLoading s" and "t = trim (inputValue s)" and "t \<noteq> []" and "length t \<le> 200"
    and "\<not> isNewsQuery E t" and "nat \<lfloor>random E * 4\<rfloor> = i" and "i < length generalResponses"
  shows "last (messages (fst (handleSendMessage E s))) =
           \<lparr>text_js = Val (generalResponses ! i), sender = ''bot'', timestamp = newDate E 1\<rparr>"
    and "snd (handleSendMessage E s) = []"
proof -
  have ne: "trim (inputValue s) \<noteq> []" using assms by auto
  have short: "\<not> 200 < length t" using assms by simp
  have idx: "nat \<lfloor>random E * of_nat (length generalResponses)\<rfloor> = i"
    using assms(6) by (simp add: length_generalResponses)
  have "last (messages (fst (handleSendMessage E s))) =
        (case snd (tryBody E t) of Inr b \<Rightarrow> b | Inl _ \<Rightarrow> errorMsg E)"
    using handleSendMessage_sent[OF ne assms(1), of E] by (simp add: assms(2))
  then show "last (messages (fst (handleSendMessage E s))) =
           \<lparr>text_js = Val (generalResponses ! i), sender = ''bot'', timestamp = newDate E 1\<rparr>"
    using assms(7) tryBody_chat[OF short assms(5)] by (simp add: idx botMessage_def elemAt_def)
  have "snd (handleSendMessage E s) = fst (tryBody E t)"
    using handleSendMessage_requests[OF ne assms(1), of E] by (simp add: assms(2))
  then show "snd (handleSendMessage E s) = []"
    using tryBody_chat[OF short assms(5)] by simp
qed

text \<open>
  C7: for an input that is neither an article nor a news query, the reply is the entry
  of the fixed table \<open>generalResponses\<close> at the index \<open>i\<close> computed from the random
  value, a member of the table, and no request is issued. The reply depends on the run
  only through \<open>i\<close>: a second run with the same index, whatever its state, clock and
  network, gives the same reply text.
\<close>

theorem C7_chit_chat_reply_from_fixed_table:
  assumes "\<not> isLoading s" and "t = trim (inputValue s)" and "t \<noteq> []" and "length t \<le> 200"
    and "\<not> isNewsQuery E t" and "0 \<le> random E" and "random E < 1"
    and "i = nat \<lfloor>random E * 4\<rfloor>"
    and "\<not> isLoading s'" and "t' = trim (inputValue s')" and "t' \<noteq> []" and "length t' \<le> 200"
    and "\<not> isNewsQuery E' t'" and "nat \<lfloor>random E' * 4\<rfloor> = i"
  shows "i < length generalResponses \<and>
         generalResponses ! i \<in> set generalResponses \<and>
         last (messages (fst (handleSendMessage E s))) =
           \<lparr>text_js = Val (generalResponses ! i), sender = ''bot'', timestamp = newDate E 1\<rparr> \<and>
         snd (handleSendMessage E s) = [] \<and>
         text_js (last (messages (fst (handleSendMessage E' s')))) =
           text_js (last (messages (fst (handleSendMessage E s))))"
proof -
  have i: "i < length generalResponses"
    using randomIndex_bound[OF assms(6) assms(7)] assms(8) by (simp add: length_generalResponses)
  have mem: "generalResponses ! i \<in> set generalResponses" using i by simp
  note one = chat_reply[OF assms(1-5) assms(8)[symmetric] i]
  note two = chat_reply[OF assms(9-14) i]
  show ?thesis using i mem one two by simp
qed

lemma trim_id:
  assumes "s \<noteq> []" "\<not> isWhiteSpace (hd s)" "\<not> isWhiteSpace (last s)"
  shows "trim s = s"
proof -
  have a: "dropWhile isWhiteSpace s = s" using assms by (cases s) simp_all
  have "rev s \<noteq> []" "\<not> isWhiteSpace (hd (rev s))" using assms by (simp_all add: hd_rev)
  then have b: "dropWhile isWhiteSpace (rev s) = rev s" by (cases "rev s") simp_all
  show ?thesis by (simp add: trim_def a b)
qed

lemma trim_leading: "isWhiteSpace w \<Longrightarrow> trim (w # s) = trim s"
  by (simp add: trim_def)

lemma dropWhile_none: "\<forall>c\<in>set s. \<not> P c \<Longrightarrow> dropWhile P s = s"
  by (cases s) auto

lemma trim_none: "\<forall>c\<in>set s. \<not> isWhiteSpace c \<Longrightarrow> trim s = s"
  by (simp add: trim_def dropWhile_none)

lemma sample_long:
  "trim (replicate 201 0x78) = replicate 201 0x78"
  by (rule trim_id) (simp_all add: isWhiteSpace_def last_replicate)

lemma sample_pasted: "trim pastedArticle = pastedArticle"
  by (rule trim_id) (simp_all add: pastedArticle_def isWhiteSpace_def str_def)

lemma pasted_title: "takeWhile (\<lambda>c. c \<noteq> newline) pastedArticle = str ''Markets''"
  by (simp add: pastedArticle_def str_def newline_def)

lemma pasted_rest:
  "drop 1 (dropWhile (\<lambda>c. c \<noteq> newline) pastedArticle) =
     newline # str ''Up'' @ [newline] @ replicate 200 0x78"
  by (simp add: pastedArticle_def str_def newline_def)

lemma pasted_content:
  "trim (drop 1 (dropWhile (\<lambda>c. c \<noteq> newline) pastedArticle)) =
     str ''Up'' @ [newline] @ replicate 200 0x78"
proof -
  have "trim (newline # str ''Up'' @ [newline] @ replicate 200 0x78) =
          trim (str ''Up'' @ [newline] @ replicate 200 0x78)"
    by (rule trim_leading) (simp add: isWhiteSpace_def newline_def)
  also have "\<dots> = str ''Up'' @ [newline] @ replicate 200 0x78"
    by (rule trim_id) (simp_all add: isWhiteSpace_def str_def)
  finally show ?thesis by (simp only: pasted_rest)
qed

theorem C8_long_message_posted_as_article_witness:
  "\<not> isLoading ((initialApp 0)\<lparr>inputValue := pastedArticle\<rparr>) \<and>
   200 < length (trim (inputValue ((initialApp 0)\<lparr>inputValue := pastedArticle\<rparr>))) \<and>
   snd (handleSendMessage (sampleEnv 0 offline) ((initialApp 0)\<lparr>inputValue := pastedArticle\<rparr>)) =
     [\<lparr>url = ''http://localhost:8000/api/process'', httpMethod = ''POST'',
       headers = [(''Content-Type'', ''application/json'')],
       body = [(''title'', JString (str ''Markets'')),
               (''content'', JString (str ''Up'' @ [newline] @ replicate 200 0x78)),
               (''source'', JString (str ''User Input'')),
               (''include_analysis'', JBoolean True)]\<rparr>] \<and>
   \<not> isLoading ((initialApp 0)\<lparr>inputValue := replicate 201 0x78\<rparr>) \<and>
   200 < length (trim (inputValue ((initialApp 0)\<lparr>inputValue := replicate 201 0x78\<rparr>))) \<and>
   snd (handleSendMessage (sampleEnv 0 offline) ((initialApp 0)\<lparr>inputValue := replicate 201 0x78\<rparr>)) =
     [\<lparr>url = ''http://localhost:8000/api/process'', httpMethod = ''POST'',
       headers = [(''Content-Type'', ''application/json'')],
       body = [(''title'', JString (replicate 201 0x78)),
               (''content'', JString (replicate 201 0x78)),
               (''source'', JString (str ''User Input'')),
               (''include_analysis'', JBoolean True)]\<rparr>]"
proof -
  let ?p = "(initialApp 0)\<lparr>inputValue := pastedArticle\<rparr>"
  let ?s = "(initialApp 0)\<lparr>inputValue := replicate 201 0x78\<rparr>"
  have lp: "\<not> isLoading ?p" and l: "\<not> isLoading ?s" by (simp_all add: initialApp_def)
  have tp: "pastedArticle = trim (inputValue ?p)" by (simp add: sample_pasted)
  have t: "replicate 201 0x78 = trim (inputValue ?s)" by (simp add: sample_long)
  have np: "200 < length pastedArticle" by (simp add: pastedArticle_def str_def)
  have n: "200 < length (replicate 201 (0x78 :: nat))" by simp
  have whole: "takeWhile (\<lambda>c. c \<noteq> newline) (replicate 201 0x78) = replicate 201 0x78"
    "dropWhile (\<lambda>c. c \<noteq> newline) (replicate 201 0x78) = []"
    by (simp_all add: newline_def)
  have tr: "trim [] = []" by (simp add: trim_def)
  have ne: "str ''Markets'' \<noteq> []" "str ''Up'' @ [newline] @ replicate 200 0x78 \<noteq> []"
    "replicate 201 (0x78::nat) \<noteq> []"
    by (simp_all add: str_def)
  have 1: "snd (handleSendMessage (sampleEnv 0 offline) ?p) =
     [\<lparr>url = ''http://localhost:8000/api/process'', httpMethod = ''POST'',
       headers = [(''Content-Type'', ''application/json'')],
       body = [(''title'', JString (str ''Markets'')),
               (''content'', JString (str ''Up'' @ [newline] @ replicate 200 0x78)),
               (''source'', JString (str ''User Input'')),
               (''include_analysis'', JBoolean True)]\<rparr>]"
    using C8_long_message_posted_as_article[OF lp tp np, of "sampleEnv 0 offline"]
    by (simp only: pasted_title pasted_content ne if_False)
  have 2: "snd (handleSendMessage (sampleEnv 0 offline) ?s) =
     [\<lparr>url = ''http://localhost:8000/api/process'', httpMethod = ''POST'',
       headers = [(''Content-Type'', ''application/json'')],
       body = [(''title'', JString (replicate 201 0x78)),
               (''content'', JString (replicate 201 0x78)),
               (''source'', JString (str ''User Input'')),
               (''include_analysis'', JBoolean True)]\<rparr>]"
    using C8_long_message_posted_as_article[OF l t n, of "sampleEnv 0 offline"]
    by (simp only: whole drop_Nil tr ne if_False if_True simp_thms)
  show ?thesis using lp l np n 1 2 unfolding tp[symmetric] t[symmetric] by blast
qed

lemma sample_latest_news:
  "trim (str ''latest news'') = str ''latest news''"
  by (rule trim_id) (simp_all add: isWhiteSpace_def str_def)

lemma sample_hello_trim:
  "trim (str ''hello'') = str ''hello''"
  by (rule trim_id) (simp_all add: isWhiteSpace_def str_def)

lemma sample_hello_not_news: "\<not> isNewsQuery (sampleEnv r net) (str ''hello'')"
  by (simp add: isNewsQuery_def sampleEnv_def asciiLower_def str_def)

lemma sample_latest_news_is_news: "isNewsQuery (sampleEnv r net) (str ''latest news'')"
  by (simp add: isNewsQuery_def sampleEnv_def asciiLower_def str_def)

theorem C9_short_message_routed_by_keywords_witness:
  "\<not> isLoading ((initialApp 0)\<lparr>inputValue := str ''latest news''\<rparr>) \<and>
   trim (inputValue ((initialApp 0)\<lparr>inputValue := str ''latest news''\<rparr>)) \<noteq> [] \<and>
   length (trim (inputValue ((initialApp 0)\<lparr>inputValue := str ''latest news''\<rparr>))) \<le> 200 \<and>
   0 \<le> random (sampleEnv 0 offline) \<and> random (sampleEnv 0 offline) < 1 \<and>
   isNewsQuery (sampleEnv 0 offline) (str ''latest news'') \<and>
   snd (handleSendMessage (sampleEnv 0 offline) ((initialApp 0)\<lparr>inputValue := str ''latest news''\<rparr>)) =
     [\<lparr>url = ''http://localhost:8000/api/fetch-and-process'', httpMethod = ''POST'',
       headers = [(''Content-Type'', ''application/json'')],
       body = [(''query'', JString (str ''latest news'')), (''page_size'', JNumber 5),
               (''include_analysis'', JBoolean True)]\<rparr>] \<and>
   \<not> isNewsQuery (sampleEnv 0 offline) (str ''hello'') \<and>
   snd (handleSendMessage (sampleEnv 0 offline) ((initialApp 0)\<lparr>inputValue := str ''hello''\<rparr>)) = [] \<and>
   (\<exists>r\<in>set generalResponses.
      last (messages (fst (handleSendMessage (sampleEnv 0 offline) ((initialApp 0)\<lparr>inputValue := str ''hello''\<rparr>)))) =
        \<lparr>text_js = Val r, sender = ''bot'', timestamp = newDate (sampleEnv 0 offline) 1\<rparr>)"
proof -
  let ?E = "sampleEnv 0 offline"
  let ?n = "(initialApp 0)\<lparr>inputValue := str ''latest news''\<rparr>"
  let ?h = "(initialApp 0)\<lparr>inputValue := str ''hello''\<rparr>"
  have ln: "\<not> isLoading ?n" and lh: "\<not> isLoading ?h" by (simp_all add: initialApp_def)
  have tn: "str ''latest news'' = trim (inputValue ?n)" by (simp add: sample_latest_news)
  have th: "str ''hello'' = trim (inputValue ?h)" by (simp add: sample_hello_trim)
  have nn: "str ''latest news'' \<noteq> []" and nh: "str ''hello'' \<noteq> []" by (simp_all add: str_def)
  have sn: "length (str ''latest news'') \<le> 200" and sh: "length (str ''hello'') \<le> 200"
    by (simp_all add: str_def)
  have r0: "0 \<le> random ?E" and r1: "random ?E < 1" by (simp_all add: sampleEnv_def)
  note news = C9_short_message_routed_by_keywords[OF ln tn nn sn r0 r1]
  note chat = C9_short_message_routed_by_keywords[OF lh th nh sh r0 r1]
  have kn: "isNewsQuery ?E (str ''latest news'')" by (rule sample_latest_news_is_news)
  have kh: "\<not> isNewsQuery ?E (str ''hello'')" by (rule sample_hello_not_news)
  have 1: "snd (handleSendMessage ?E ?n) =
     [\<lparr>url = ''http://localhost:8000/api/fetch-and-process'', httpMethod = ''POST'',
       headers = [(''Content-Type'', ''application/json'')],
       body = [(''query'', JString (str ''latest news'')), (''page_size'', JNumber 5),
               (''include_analysis'', JBoolean True)]\<rparr>]"
    using news kn unfolding isNewsQuery_keywords includes_iff by blast
  have 2: "snd (handleSendMessage ?E ?h) = [] \<and>
     (\<exists>r\<in>set generalResponses.
        last (messages (fst (handleSendMessage ?E ?h))) =
          \<lparr>text_js = Val r, sender = ''bot'', timestamp = newDate ?E 1\<rparr>)"
    using chat kh unfolding isNewsQuery_keywords includes_iff by blast
  show ?thesis
    using ln nn sn r0 r1 kn kh 1 2 unfolding tn[symmetric] by blast
qed

lemma codePoints_pairs: "codePoints (concat (replicate n [0xD83C, 0xDF0C])) = n"
  by (induction n) simp_all

lemma emoji_set: "set emojiMessage = {0xD83C, 0xDF0C}"
  by (auto simp: emojiMessage_def)

lemma emoji_length: "length emojiMessage = 202"
  by (simp add: emojiMessage_def length_concat sum_list_replicate)

lemma emoji_trim: "trim emojiMessage = emojiMessage"
  by (rule trim_none) (simp add: emoji_set isWhiteSpace_def)

lemma includes_hd: "k \<noteq> [] \<Longrightarrow> hd k \<notin> set s \<Longrightarrow> \<not> includes_js s k"
  by (cases k) (auto simp: includes_iff)

lemma emoji_not_news: "\<not> isNewsQuery (sampleEnv r net) emojiMessage"
proof -
  have "asciiLower emojiMessage = emojiMessage"
    unfolding asciiLower_def by (rule map_idI) (auto simp: emoji_set)
  then have low: "toLowerCase (sampleEnv r net) emojiMessage = emojiMessage"
    by (simp add: sampleEnv_def)
  show ?thesis
    unfolding isNewsQuery_def low
    by (simp add: includes_hd emoji_set str_def)
qed

text \<open>
  C9 as stated counts characters. A message of 101 emoji has 101 characters and no
  keyword, yet it is 202 code units long and is posted to /api/process as an article:
  a request is issued, and it is not the one of a news query.
\<close>

theorem C9_emoji_message_counterexample:
  "codePoints emojiMessage = 101 \<and> length emojiMessage = 202 \<and>
   trim (inputValue ((initialApp 0)\<lparr>inputValue := emojiMessage\<rparr>)) = emojiMessage \<and>
   \<not> isLoading ((initialApp 0)\<lparr>inputValue := emojiMessage\<rparr>) \<and>
   \<not> isNewsQuery (sampleEnv 0 offline) emojiMessage \<and>
   snd (handleSendMessage (sampleEnv 0 offline) ((initialApp 0)\<lparr>inputValue := emojiMessage\<rparr>)) =
     [\<lparr>url = ''http://localhost:8000/api/process'', httpMethod = ''POST'',
       headers = [(''Content-Type'', ''application/json'')],
       body = [(''title'', JString emojiMessage),
               (''content'', JString emojiMessage),
               (''source'', JString (str ''User Input'')),
               (''include_analysis'', JBoolean True)]\<rparr>]"
proof -
  let ?s = "(initialApp 0)\<lparr>inputValue := emojiMessage\<rparr>"
  have c: "codePoints emojiMessage = 101" unfolding emojiMessage_def by (rule codePoints_pairs)
  have t: "trim (inputValue ?s) = emojiMessage" by (simp add: emoji_trim)
  have l: "\<not> isLoading ?s" by (simp add: initialApp_def)
  have ne: "trim (inputValue ?s) \<noteq> []" unfolding t using emoji_length by auto
  have long: "200 < length emojiMessage" by (simp add: emoji_length)
  have whole: "takeWhile (\<lambda>c. c \<noteq> newline) emojiMessage = emojiMessage"
    "dropWhile (\<lambda>c. c \<noteq> newline) emojiMessage = []"
    by (auto simp: emoji_set newline_def)
  have tr: "trim [] = []" by (simp add: trim_def)
  have e: "emojiMessage \<noteq> []" using emoji_length by auto
  have "fst (tryBody (sampleEnv 0 offline) emojiMessage) =
          [processRequest emojiMessage emojiMessage]"
    using tryBody_article_requests[OF long, of "sampleEnv 0 offline"]
    by (simp only: whole drop_Nil tr e if_False if_True simp_thms)
  then have r: "snd (handleSendMessage (sampleEnv 0 offline) ?s) =
     [\<lparr>url = ''http://localhost:8000/api/process'', httpMethod = ''POST'',
       headers = [(''Content-Type'', ''application/json'')],
       body = [(''title'', JString emojiMessage),
               (''content'', JString emojiMessage),
               (''source'', JString (str ''User Input'')),
               (''include_analysis'', JBoolean True)]\<rparr>]"
    using handleSendMessage_requests[OF ne l, of "sampleEnv 0 offline"]
    by (simp add: emoji_trim processRequest_def)
  show ?thesis using c emoji_length t l emoji_not_news r by blast
qed

theorem C7_chit_chat_reply_from_fixed_table_witness:
  "\<not> isLoading ((initialApp 0)\<lparr>inputValue := str ''hello''\<rparr>) \<and>
   trim (inputValue ((initialApp 0)\<lparr>inputValue := str ''hello''\<rparr>)) \<noteq> [] \<and>
   length (trim (inputValue ((initialApp 0)\<lparr>inputValue := str ''hello''\<rparr>))) \<le> 200 \<and>
   \<not> isNewsQuery (sampleEnv (1/2) offline) (str ''hello'') \<and>
   0 \<le> random (sampleEnv (1/2) offline) \<and> random (sampleEnv (1/2) offline) < 1 \<and>
   (2::nat) = nat \<lfloor>random (sampleEnv (1/2) offline) * 4\<rfloor> \<and>
   \<not> isLoading ((initialApp 9)\<lparr>inputValue := str ''hello''\<rparr>) \<and>
   \<not> isNewsQuery (sampleEnv (1/2) emptyNet) (str ''hello'') \<and>
   nat \<lfloor>random (sampleEnv (1/2) emptyNet) * 4\<rfloor> = 2 \<and>
   generalResponses ! 2 \<in> set generalResponses \<and>
   last (messages (fst (handleSendMessage (sampleEnv (1/2) offline) ((initialApp 0)\<lparr>inputValue := str ''hello''\<rparr>)))) =
     \<lparr>text_js = Val (generalResponses ! 2), sender = ''bot'', timestamp = 1\<rparr> \<and>
   snd (handleSendMessage (sampleEnv (1/2) offline) ((initialApp 0)\<lparr>inputValue := str ''hello''\<rparr>)) = [] \<and>
   text_js (last (messages (fst (handleSendMessage (sampleEnv (1/2) emptyNet) ((initialApp 9)\<lparr>inputValue := str ''hello''\<rparr>))))) =
     Val (generalResponses ! 2)"
proof -
  let ?E = "sampleEnv (1/2) offline"
  let ?E' = "sampleEnv (1/2) emptyNet"
  let ?h = "(initialApp 0)\<lparr>inputValue := str ''hello''\<rparr>"
  let ?h' = "(initialApp 9)\<lparr>inputValue := str ''hello''\<rparr>"
  have lh: "\<not> isLoading ?h" and lh': "\<not> isLoading ?h'" by (simp_all add: initialApp_def)
  have th: "str ''hello'' = trim (inputValue ?h)" and th': "str ''hello'' = trim (inputValue ?h')"
    by (simp_all add: sample_hello_trim)
  have nh: "str ''hello'' \<noteq> []" and sh: "length (str ''hello'') \<le> 200" by (simp_all add: str_def)
  have kh: "\<not> isNewsQuery ?E (str ''hello'')" and kh': "\<not> isNewsQuery ?E' (str ''hello'')"
    by (rule sample_hello_not_news)+
  have r0: "0 \<le> random ?E" and r1: "random ?E < 1" by (simp_all add: sampleEnv_def)
  have i: "(2::nat) = nat \<lfloor>random ?E * 4\<rfloor>" and i': "nat \<lfloor>random ?E' * 4\<rfloor> = 2"
    by (simp_all add: sampleEnv_def)
  have d: "newDate ?E 1 = 1" by (simp add: sampleEnv_def)
  note c7 = C7_chit_chat_reply_from_fixed_table[OF lh th nh sh kh r0 r1 i lh' th' nh sh kh' i']
  show ?thesis
    using c7 lh nh sh kh r0 r1 i lh' kh' i'
    unfolding th[symmetric] d by (simp del: set_simps)
qed

section \<open>Properties of the pipeline\<close>

lemma get_put_same: "get (put c t k r ttl) now k = (if now < t + ttl then Some r else None)"
  by (simp add: get_def put_def)

lemma get_put_other: "k' \<noteq> k \<Longrightarrow> get (put c t k r ttl) now k' = get c now k'"
  by (simp add: get_def put_def)

lemma get_Some_iff: "get c now k = Some r \<longleftrightarrow> (\<exists>e. c k = Some (r, e) \<and> now < e)"
  by (auto simp: get_def split: option.splits)

lemma get_expired: "c k = Some (r, e) \<Longrightarrow> e \<le> now \<Longrightarrow> get c now k = None"
  by (simp add: get_def)

lemma get_absent: "get (c(k := None)) now k = None"
  by (simp add: get_def)

lemma get_later: "get c t k = None \<Longrightarrow> t \<le> now \<Longrightarrow> get c now k = None"
  by (auto simp: get_def split: option.splits if_splits)

lemma cached_miss:
  "get c now k = None \<Longrightarrow> cached c now ttl k f = (f (), put c now k (f ()) ttl, True)"
  by (simp add: cached_def Let_def)

lemma cached_hit: "get c now k = Some r \<Longrightarrow> cached c now ttl k f = (r, c, False)"
  by (simp add: cached_def)

lemma put_absent: "put (c(k := None)) now k r ttl = put c now k r ttl"
  by (simp add: put_def)

lemma fst_runStage:
  "fst (runStage en canc c now ttl k d f) =
     (if \<not> en then unavailableResult d
      else case get c now k of
             Some r \<Rightarrow> r
           | None \<Rightarrow> if canc then unavailableResult d else f ())"
  by (simp add: runStage_def cached_def Let_def split: option.splits)

lemma cache_runStage:
  "fst (snd (runStage en canc c now ttl k d f)) =
     (if en \<and> get c now k = None \<and> \<not> canc then put c now k (f ()) ttl else c)"
  by (simp add: runStage_def cached_def Let_def split: option.splits)

lemma ran_runStage:
  "snd (snd (runStage en canc c now ttl k d f)) \<longleftrightarrow> en \<and> get c now k = None \<and> \<not> canc"
  by (simp add: runStage_def cached_def Let_def split: option.splits)

lemma runStage_frame:
  "k' \<noteq> k \<Longrightarrow> get (fst (snd (runStage en canc c now ttl k d f))) t k' = get c t k'"
  by (simp add: cache_runStage get_put_other)

lemma runStage_again:
  "fst (runStage en canc (fst (snd (runStage en canc c now ttl k d f))) now ttl k d f) =
     fst (runStage en canc c now ttl k d f)"
  by (simp add: fst_runStage cache_runStage get_put_same)

lemma processOne_malformed:
  "malformed cfg a \<Longrightarrow> processOne S cfg now st a = (Inl MalformedInput, st)"
  by (simp add: processOne_def)

lemma processOne_fields:
  "\<not> malformed cfg a \<Longrightarrow> processOne S cfg now st a =
     (Inr \<lparr>article = a,
       sentiment = fst (runStage (sentimentEnabled cfg)
                          (requestTimeout cfg < stageLatency S SentimentStage a)
                          (sentimentCache st) now (cacheTtl cfg) (SentimentStage, fingerprint S a) Neutral
                          (\<lambda>_. classifySentiment S (RawArticle.content a))),
       credibility = fst (runStage (credibilityEnabled cfg)
                          (requestTimeout cfg < stageLatency S CredibilityStage a)
                          (credibilityCache st) now (cacheTtl cfg) (CredibilityStage, fingerprint S a) Unknown
                          (\<lambda>_. classifyCredibility S (RawArticle.content a))),
       summary = fst (runStage (summaryEnabled cfg)
                          (requestTimeout cfg < stageLatency S SummaryStage a)
                          (summaryCache st) now (cacheTtl cfg) (SummaryStage, fingerprint S a)
                          (take (summaryMaxLength cfg) (RawArticle.content a))
                          (\<lambda>_. summarize S (RawArticle.content a) (summaryMaxLength cfg))),
       processedAt = now,
       partial = (origin (fst (runStage (sentimentEnabled cfg)
                          (requestTimeout cfg < stageLatency S SentimentStage a)
                          (sentimentCache st) now (cacheTtl cfg) (SentimentStage, fingerprint S a) Neutral
                          (\<lambda>_. classifySentiment S (RawArticle.content a)))) \<noteq> Primary \<or>
                  origin (fst (runStage (credibilityEnabled cfg)
                          (requestTimeout cfg < stageLatency S CredibilityStage a)
                          (credibilityCache st) now (cacheTtl cfg) (CredibilityStage, fingerprint S a) Unknown
                          (\<lambda>_. classifyCredibility S (RawArticle.content a)))) \<noteq> Primary \<or>
                  origin (fst (runStage (summaryEnabled cfg)
                          (requestTimeout cfg < stageLatency S SummaryStage a)
                          (summaryCache st) now (cacheTtl cfg) (SummaryStage, fingerprint S a)
                          (take (summaryMaxLength cfg) (RawArticle.content a))
                          (\<lambda>_. summarize S (RawArticle.content a) (summaryMaxLength cfg)))) \<noteq> Primary)\<rparr>,
      \<lparr>sentimentCache = fst (snd (runStage (sentimentEnabled cfg)
                          (requestTimeout cfg < stageLatency S SentimentStage a)
                          (sentimentCache st) now (cacheTtl cfg) (SentimentStage, fingerprint S a) Neutral
                          (\<lambda>_. classifySentiment S (RawArticle.content a)))),
       credibilityCache = fst (snd (runStage (credibilityEnabled cfg)
                          (requestTimeout cfg < stageLatency S CredibilityStage a)
                          (credibilityCache st) now (cacheTtl cfg) (CredibilityStage, fingerprint S a) Unknown
                          (\<lambda>_. classifyCredibility S (RawArticle.content a)))),
       summaryCache = fst (snd (runStage (summaryEnabled cfg)
                          (requestTimeout cfg < stageLatency S SummaryStage a)
                          (summaryCache st) now (cacheTtl cfg) (SummaryStage, fingerprint S a)
                          (take (summaryMaxLength cfg) (RawArticle.content a))
                          (\<lambda>_. summarize S (RawArticle.content a) (summaryMaxLength cfg)))),
       stageRuns = stageRuns st
          + ran (snd (snd (runStage (sentimentEnabled cfg)
                          (requestTimeout cfg < stageLatency S SentimentStage a)
                          (sentimentCache st) now (cacheTtl cfg) (SentimentStage, fingerprint S a) Neutral
                          (\<lambda>_. classifySentiment S (RawArticle.content a)))))
          + ran (snd (snd (runStage (credibilityEnabled cfg)
                          (requestTimeout cfg < stageLatency S CredibilityStage a)
                          (credibilityCache st) now (cacheTtl cfg) (CredibilityStage, fingerprint S a) Unknown
                          (\<lambda>_. classifyCredibility S (RawArticle.content a)))))
          + ran (snd (snd (runStage (summaryEnabled cfg)
                          (requestTimeout cfg < stageLatency S SummaryStage a)
                          (summaryCache st) now (cacheTtl cfg) (SummaryStage, fingerprint S a)
                          (take (summaryMaxLength cfg) (RawArticle.content a))
                          (\<lambda>_. summarize S (RawArticle.content a) (summaryMaxLength cfg)))))\<rparr>)"
  by (simp add: processOne_def Let_def split_beta)

lemma classifySentiment_tiers:
  "classifySentiment S t =
     (case sentimentPrimary S t of
        Inr (v, c) \<Rightarrow> \<lparr>value_sr = v, StageResult.confidence = c, origin = Primary\<rparr>
      | Inl e \<Rightarrow>
          (case sentimentFallback S t of
             Inr (v, c) \<Rightarrow> \<lparr>value_sr = v, StageResult.confidence = c, origin = Fallback\<rparr>
           | Inl e' \<Rightarrow> \<lparr>value_sr = Neutral, StageResult.confidence = 0, origin = Unavailable\<rparr>))"
  by (simp add: classifySentiment_def primaryThenFallback_def)

lemma summarize_tiers:
  "summarize S t n =
     (case summaryPrimary S (t, n) of
        Inr (v, c) \<Rightarrow> \<lparr>value_sr = v, StageResult.confidence = c, origin = Primary\<rparr>
      | Inl e \<Rightarrow>
          (case summaryFallback S (t, n) of
             Inr (v, c) \<Rightarrow> \<lparr>value_sr = v, StageResult.confidence = c, origin = Fallback\<rparr>
           | Inl e' \<Rightarrow> \<lparr>value_sr = take n t, StageResult.confidence = 0, origin = Unavailable\<rparr>))"
  by (simp add: summarize_def primaryThenFallback_def)

text \<open>
  C1 (as amended): an article whose text is empty or longer than the size cap is rejected
  with the validation error before any stage runs, the pipeline staying as it was. For
  every other article, whatever the services do, processOne returns a ProcessedArticle
  for that article with its three stage fields, and \<open>partial\<close> tells whether a stage
  did not use its primary method. Each stage field is determined as follows: the
  degraded result with origin unavailable and confidence 0 when the stage is disabled;
  else the live cached result when there is one; else the degraded result when the stage
  is cancelled by the timeout; else the result of the primary tier, else that of the
  fallback tier (sentiment and summary), else, every tier having failed, the degraded
  result with origin unavailable and confidence 0. No stage error reaches the caller.
\<close>

theorem C1_processOne_validated_total_and_degrading:
  "(malformed cfg a \<longrightarrow> processOne S cfg now st a = (Inl MalformedInput, st)) \<and>
   (\<not> malformed cfg a \<longrightarrow>
      (\<exists>p st'. processOne S cfg now st a = (Inr p, st') \<and>
         ProcessedArticle.article p = a \<and> processedAt p = now \<and>
         partial p = (origin (ProcessedArticle.sentiment p) \<noteq> Primary \<or>
                      origin (credibility p) \<noteq> Primary \<or>
                      origin (ProcessedArticle.summary p) \<noteq> Primary) \<and>
         ProcessedArticle.sentiment p =
           (if \<not> sentimentEnabled cfg
            then \<lparr>value_sr = Neutral, StageResult.confidence = 0, origin = Unavailable\<rparr>
            else case get (sentimentCache st) now (SentimentStage, fingerprint S a) of
                Some r \<Rightarrow> r
              | None \<Rightarrow>
                  if requestTimeout cfg < stageLatency S SentimentStage a
                  then \<lparr>value_sr = Neutral, StageResult.confidence = 0, origin = Unavailable\<rparr>
                  else case sentimentPrimary S (RawArticle.content a) of
                      Inr (v, c) \<Rightarrow> \<lparr>value_sr = v, StageResult.confidence = c, origin = Primary\<rparr>
                    | Inl e \<Rightarrow>
                        (case sentimentFallback S (RawArticle.content a) of
                           Inr (v, c) \<Rightarrow> \<lparr>value_sr = v, StageResult.confidence = c, origin = Fallback\<rparr>
                         | Inl e' \<Rightarrow> \<lparr>value_sr = Neutral, StageResult.confidence = 0, origin = Unavailable\<rparr>)) \<and>
         credibility p =
           (if \<not> credibilityEnabled cfg
            then \<lparr>value_sr = Unknown, StageResult.confidence = 0, origin = Unavailable\<rparr>
            else case get (credibilityCache st) now (CredibilityStage, fingerprint S a) of
                Some r \<Rightarrow> r
              | None \<Rightarrow>
                  if requestTimeout cfg < stageLatency S CredibilityStage a
                  then \<lparr>value_sr = Unknown, StageResult.confidence = 0, origin = Unavailable\<rparr>
                  else case credibilityPrimary S (RawArticle.content a) of
                      Inr (v, c) \<Rightarrow> \<lparr>value_sr = v, StageResult.confidence = c, origin = Primary\<rparr>
                    | Inl e \<Rightarrow> \<lparr>value_sr = Unknown, StageResult.confidence = 0, origin = Unavailable\<rparr>) \<and>
         ProcessedArticle.summary p =
           (if \<not> summaryEnabled cfg
            then \<lparr>value_sr = take (summaryMaxLength cfg) (RawArticle.content a),
                  StageResult.confidence = 0, origin = Unavailable\<rparr>
            else case get (summaryCache st) now (SummaryStage, fingerprint S a) of
                Some r \<Rightarrow> r
              | None \<Rightarrow>
                  if requestTimeout cfg < stageLatency S SummaryStage a
                  then \<lparr>value_sr = take (summaryMaxLength cfg) (RawArticle.content a),
                        StageResult.confidence = 0, origin = Unavailable\<rparr>
                  else case summaryPrimary S (RawArticle.content a, summaryMaxLength cfg) of
                      Inr (v, c) \<Rightarrow> \<lparr>value_sr = v, StageResult.confidence = c, origin = Primary\<rparr>
                    | Inl e \<Rightarrow>
                        (case summaryFallback S (RawArticle.content a, summaryMaxLength cfg) of
                           Inr (v, c) \<Rightarrow> \<lparr>value_sr = v, StageResult.confidence = c, origin = Fallback\<rparr>
                         | Inl e' \<Rightarrow>
                             \<lparr>value_sr = take (summaryMaxLength cfg) (RawArticle.content a),
                              StageResult.confidence = 0, origin = Unavailable\<rparr>))))"
  (is "(_ \<longrightarrow> ?A) \<and> (_ \<longrightarrow> ?B)")
proof (intro conjI impI)
  assume "malformed cfg a"
  then show ?A by (rule processOne_malformed)
next
  assume ok: "\<not> malformed cfg a"
  have s: "fst (runStage (sentimentEnabled cfg) (requestTimeout cfg < stageLatency S SentimentStage a)
                (sentimentCache st) now (cacheTtl cfg) (SentimentStage, fingerprint S a) Neutral
                (\<lambda>_. classifySentiment S (RawArticle.content a))) =
           (if \<not> sentimentEnabled cfg
            then \<lparr>value_sr = Neutral, StageResult.confidence = 0, origin = Unavailable\<rparr>
            else case get (sentimentCache st) now (SentimentStage, fingerprint S a) of
                Some r \<Rightarrow> r
              | None \<Rightarrow>
                  if requestTimeout cfg < stageLatency S SentimentStage a
                  then \<lparr>value_sr = Neutral, StageResult.confidence = 0, origin = Unavailable\<rparr>
                  else case sentimentPrimary S (RawArticle.content a) of
                      Inr (v, c) \<Rightarrow> \<lparr>value_sr = v, StageResult.confidence = c, origin = Primary\<rparr>
                    | Inl e \<Rightarrow>
                        (case sentimentFallback S (RawArticle.content a) of
                           Inr (v, c) \<Rightarrow> \<lparr>value_sr = v, StageResult.confidence = c, origin = Fallback\<rparr>
                         | Inl e' \<Rightarrow> \<lparr>value_sr = Neutral, StageResult.confidence = 0, origin = Unavailable\<rparr>))"
    by (simp add: fst_runStage unavailableResult_def classifySentiment_tiers split: option.splits)
  have c: "fst (runStage (credibilityEnabled cfg) (requestTimeout cfg < stageLatency S CredibilityStage a)
                (credibilityCache st) now (cacheTtl cfg) (CredibilityStage, fingerprint S a) Unknown
                (\<lambda>_. classifyCredibility S (RawArticle.content a))) =
           (if \<not> credibilityEnabled cfg
            then \<lparr>value_sr = Unknown, StageResult.confidence = 0, origin = Unavailable\<rparr>
            else case get (credibilityCache st) now (CredibilityStage, fingerprint S a) of
                Some r \<Rightarrow> r
              | None \<Rightarrow>
                  if requestTimeout cfg < stageLatency S CredibilityStage a
                  then \<lparr>value_sr = Unknown, StageResult.confidence = 0, origin = Unavailable\<rparr>
                  else case credibilityPrimary S (RawArticle.content a) of
                      Inr (v, c) \<Rightarrow> \<lparr>value_sr = v, StageResult.confidence = c, origin = Primary\<rparr>
                    | Inl e \<Rightarrow> \<lparr>value_sr = Unknown, StageResult.confidence = 0, origin = Unavailable\<rparr>)"
    by (simp add: fst_runStage unavailableResult_def classifyCredibility_def split: option.splits)
  have m: "fst (runStage (summaryEnabled cfg) (requestTimeout cfg < stageLatency S SummaryStage a)
                (summaryCache st) now (cacheTtl cfg) (SummaryStage, fingerprint S a)
                (take (summaryMaxLength cfg) (RawArticle.content a))
                (\<lambda>_. summarize S (RawArticle.content a) (summaryMaxLength cfg))) =
           (if \<not> summaryEnabled cfg
            then \<lparr>value_sr = take (summaryMaxLength cfg) (RawArticle.content a),
                  StageResult.confidence = 0, origin = Unavailable\<rparr>
            else case get (summaryCache st) now (SummaryStage, fingerprint S a) of
                Some r \<Rightarrow> r
              | None \<Rightarrow>
                  if requestTimeout cfg < stageLatency S SummaryStage a
                  then \<lparr>value_sr = take (summaryMaxLength cfg) (RawArticle.content a),
                        StageResult.confidence = 0, origin = Unavailable\<rparr>
                  else case summaryPrimary S (RawArticle.content a, summaryMaxLength cfg) of
                      Inr (v, c) \<Rightarrow> \<lparr>value_sr = v, StageResult.confidence = c, origin = Primary\<rparr>
                    | Inl e \<Rightarrow>
                        (case summaryFallback S (RawArticle.content a, summaryMaxLength cfg) of
                           Inr (v, c) \<Rightarrow> \<lparr>value_sr = v, StageResult.confidence = c, origin = Fallback\<rparr>
                         | Inl e' \<Rightarrow>
                             \<lparr>value_sr = take (summaryMaxLength cfg) (RawArticle.content a),
                              StageResult.confidence = 0, origin = Unavailable\<rparr>))"
    by (simp add: fst_runStage unavailableResult_def summarize_tiers split: option.splits)
  show ?B
    unfolding processOne_fields[OF ok] by (simp only: s c m prod.inject sum.inject
        ProcessedArticle.simps simp_thms ex_simps) 
qed


text \<open>
  C1 as stated promises a ProcessedArticle for every article; for an article with empty
  text and healthy services, processOne returns the validation error and no record.
\<close>

theorem C1_processOne_rejects_blank_counterexample:
  "processOne workingServices sampleConfig 7 emptyPipeline (blankArticle ''X'') =
     (Inl MalformedInput, emptyPipeline)"
  by (simp add: processOne_def malformed_def blankArticle_def)

theorem C1_processOne_validated_total_and_degrading_witness:
  "malformed sampleConfig (blankArticle ''X'') \<and>
   processOne workingServices sampleConfig 7 emptyPipeline (blankArticle ''X'') =
     (Inl MalformedInput, emptyPipeline) \<and>
   \<not> malformed sampleConfig (sampleArticle ''X'') \<and>
   fst (processOne workingServices sampleConfig 7 emptyPipeline (sampleArticle ''X'')) =
     Inr \<lparr>article = sampleArticle ''X'',
          sentiment = \<lparr>value_sr = Positive, StageResult.confidence = 9 / 10, origin = Primary\<rparr>,
          credibility = \<lparr>value_sr = Authentic, StageResult.confidence = 4 / 5, origin = Primary\<rparr>,
          summary = \<lparr>value_sr = ''Stocks rally as tech earnings beat expectations'',
                     StageResult.confidence = 1, origin = Primary\<rparr>,
          processedAt = 7, partial = False\<rparr> \<and>
   fst (processOne failingServices sampleConfig 7 emptyPipeline (sampleArticle ''X'')) =
     Inr \<lparr>article = sampleArticle ''X'',
          sentiment = \<lparr>value_sr = Neutral, StageResult.confidence = 0, origin = Unavailable\<rparr>,
          credibility = \<lparr>value_sr = Unknown, StageResult.confidence = 0, origin = Unavailable\<rparr>,
          summary = \<lparr>value_sr = ''Stocks rally as tech earnings beat expectations'',
                     StageResult.confidence = 0, origin = Unavailable\<rparr>,
          processedAt = 7, partial = True\<rparr> \<and>
   fst (processOne workingServices (sampleConfig\<lparr>sentimentEnabled := False\<rparr>) 7 emptyPipeline
          (sampleArticle ''X'')) =
     Inr \<lparr>article = sampleArticle ''X'',
          sentiment = \<lparr>value_sr = Neutral, StageResult.confidence = 0, origin = Unavailable\<rparr>,
          credibility = \<lparr>value_sr = Authentic, StageResult.confidence = 4 / 5, origin = Primary\<rparr>,
          summary = \<lparr>value_sr = ''Stocks rally as tech earnings beat expectations'',
                     StageResult.confidence = 1, origin = Primary\<rparr>,
          processedAt = 7, partial = True\<rparr> \<and>
   fst (processOne flakyServices sampleConfig 7 emptyPipeline (oddArticle ''X'')) =
     Inr \<lparr>article = oddArticle ''X'',
          sentiment = \<lparr>value_sr = Positive, StageResult.confidence = 9 / 10, origin = Primary\<rparr>,
          credibility = \<lparr>value_sr = Unknown, StageResult.confidence = 0, origin = Unavailable\<rparr>,
          summary = \<lparr>value_sr = ''Breaking'', StageResult.confidence = 1, origin = Primary\<rparr>,
          processedAt = 7, partial = True\<rparr> \<and>
   fst (processOne slowServices sampleConfig 7 emptyPipeline (sampleArticle ''X'')) =
     Inr \<lparr>article = sampleArticle ''X'',
          sentiment = \<lparr>value_sr = Positive, StageResult.confidence = 9 / 10, origin = Primary\<rparr>,
          credibility = \<lparr>value_sr = Authentic, StageResult.confidence = 4 / 5, origin = Primary\<rparr>,
          summary = \<lparr>value_sr = ''Stocks rally as tech earnings beat expectations'',
                     StageResult.confidence = 0, origin = Unavailable\<rparr>,
          processedAt = 7, partial = True\<rparr>"
proof -
  let ?a = "sampleArticle ''X''"
  have bad: "malformed sampleConfig (blankArticle ''X'')"
    by (simp add: malformed_def blankArticle_def)
  have ok: "\<not> malformed sampleConfig ?a" "\<not> malformed (sampleConfig\<lparr>sentimentEnabled := False\<rparr>) ?a"
    "\<not> malformed sampleConfig (oddArticle ''X'')"
    by (simp_all add: malformed_def sampleConfig_def sampleArticle_def oddArticle_def)
  have g: "get (sentimentCache emptyPipeline) 7 k1 = None"
    "get (credibilityCache emptyPipeline) 7 k2 = None"
    "get (summaryCache emptyPipeline) 7 k3 = None" for k1 k2 k3
    by (simp_all add: get_def emptyPipeline_def)
  note rejected = C1_processOne_validated_total_and_degrading[where S = workingServices
      and cfg = sampleConfig and now = 7 and st = emptyPipeline and a = "blankArticle ''X''"]
  note healthy = C1_processOne_validated_total_and_degrading[where S = workingServices
      and cfg = sampleConfig and now = 7 and st = emptyPipeline and a = ?a]
  note failing = C1_processOne_validated_total_and_degrading[where S = failingServices
      and cfg = sampleConfig and now = 7 and st = emptyPipeline and a = ?a]
  note disabled = C1_processOne_validated_total_and_degrading[where S = workingServices
      and cfg = "sampleConfig\<lparr>sentimentEnabled := False\<rparr>" and now = 7 and st = emptyPipeline
      and a = ?a]
  note flaky = C1_processOne_validated_total_and_degrading[where S = flakyServices
      and cfg = sampleConfig and now = 7 and st = emptyPipeline and a = "oddArticle ''X''"]
  note slow = C1_processOne_validated_total_and_degrading[where S = slowServices
      and cfg = sampleConfig and now = 7 and st = emptyPipeline and a = ?a]
  have 1: "processOne workingServices sampleConfig 7 emptyPipeline (blankArticle ''X'') =
     (Inl MalformedInput, emptyPipeline)"
    using rejected bad by blast
  have 2: "fst (processOne workingServices sampleConfig 7 emptyPipeline ?a) =
     Inr \<lparr>article = ?a,
          sentiment = \<lparr>value_sr = Positive, StageResult.confidence = 9 / 10, origin = Primary\<rparr>,
          credibility = \<lparr>value_sr = Authentic, StageResult.confidence = 4 / 5, origin = Primary\<rparr>,
          summary = \<lparr>value_sr = ''Stocks rally as tech earnings beat expectations'',
                     StageResult.confidence = 1, origin = Primary\<rparr>,
          processedAt = 7, partial = False\<rparr>"
    using healthy ok(1)
    by (auto simp: g workingServices_def sampleConfig_def sampleArticle_def
        intro!: ProcessedArticle.equality)
  have 3: "fst (processOne failingServices sampleConfig 7 emptyPipeline ?a) =
     Inr \<lparr>article = ?a,
          sentiment = \<lparr>value_sr = Neutral, StageResult.confidence = 0, origin = Unavailable\<rparr>,
          credibility = \<lparr>value_sr = Unknown, StageResult.confidence = 0, origin = Unavailable\<rparr>,
          summary = \<lparr>value_sr = ''Stocks rally as tech earnings beat expectations'',
                     StageResult.confidence = 0, origin = Unavailable\<rparr>,
          processedAt = 7, partial = True\<rparr>"
    using failing ok(1)
    by (auto simp: g failingServices_def sampleConfig_def sampleArticle_def
        intro!: ProcessedArticle.equality)
  have 4: "fst (processOne workingServices (sampleConfig\<lparr>sentimentEnabled := False\<rparr>) 7 emptyPipeline ?a) =
     Inr \<lparr>article = ?a,
          sentiment = \<lparr>value_sr = Neutral, StageResult.confidence = 0, origin = Unavailable\<rparr>,
          credibility = \<lparr>value_sr = Authentic, StageResult.confidence = 4 / 5, origin = Primary\<rparr>,
          summary = \<lparr>value_sr = ''Stocks rally as tech earnings beat expectations'',
                     StageResult.confidence = 1, origin = Primary\<rparr>,
          processedAt = 7, partial = True\<rparr>"
    using disabled ok(2)
    by (auto simp: g workingServices_def sampleConfig_def sampleArticle_def
        intro!: ProcessedArticle.equality)
  have 5: "fst (processOne flakyServices sampleConfig 7 emptyPipeline (oddArticle ''X'')) =
     Inr \<lparr>article = oddArticle ''X'',
          sentiment = \<lparr>value_sr = Positive, StageResult.confidence = 9 / 10, origin = Primary\<rparr>,
          credibility = \<lparr>value_sr = Unknown, StageResult.confidence = 0, origin = Unavailable\<rparr>,
          summary = \<lparr>value_sr = ''Breaking'', StageResult.confidence = 1, origin = Primary\<rparr>,
          processedAt = 7, partial = True\<rparr>"
    using flaky ok(3)
    by (auto simp: g flakyServices_def workingServices_def sampleConfig_def oddArticle_def
        intro!: ProcessedArticle.equality)
  have 6: "fst (processOne slowServices sampleConfig 7 emptyPipeline ?a) =
     Inr \<lparr>article = ?a,
          sentiment = \<lparr>value_sr = Positive, StageResult.confidence = 9 / 10, origin = Primary\<rparr>,
          credibility = \<lparr>value_sr = Authentic, StageResult.confidence = 4 / 5, origin = Primary\<rparr>,
          summary = \<lparr>value_sr = ''Stocks rally as tech earnings beat expectations'',
                     StageResult.confidence = 0, origin = Unavailable\<rparr>,
          processedAt = 7, partial = True\<rparr>"
    using slow ok(1)
    by (auto simp: g slowServices_def workingServices_def sampleConfig_def sampleArticle_def
        intro!: ProcessedArticle.equality)
  show ?thesis using bad 1 ok(1) 2 3 4 5 6 by blast
qed


lemma runStage_expired:
  "get c t k = None \<Longrightarrow> t + ttl \<le> now \<Longrightarrow>
     get (fst (snd (runStage en canc c t ttl k d f))) now k = None"
  by (simp add: cache_runStage get_put_same get_later)

lemma processOne_twice:
  assumes "get (sentimentCache st) t (SentimentStage, fingerprint S a) = None"
    and "get (credibilityCache st) t (CredibilityStage, fingerprint S a) = None"
    and "get (summaryCache st) t (SummaryStage, fingerprint S a) = None"
    and "t + cacheTtl cfg \<le> now"
  shows "stageRuns (snd (processOne S cfg now (snd (processOne S cfg t st a)) a)) =
           stageRuns (snd (processOne S cfg t st a)) +
             (if malformed cfg a then 0
              else ran (sentimentEnabled cfg \<and> \<not> requestTimeout cfg < stageLatency S SentimentStage a) +
                   ran (credibilityEnabled cfg \<and> \<not> requestTimeout cfg < stageLatency S CredibilityStage a) +
                   ran (summaryEnabled cfg \<and> \<not> requestTimeout cfg < stageLatency S SummaryStage a))"
    and "(\<not> malformed cfg a \<longrightarrow>
             (\<exists>p. fst (processOne S cfg now (snd (processOne S cfg t st a)) a) = Inr p \<and>
                ProcessedArticle.sentiment p =
                  (if sentimentEnabled cfg \<and> \<not> requestTimeout cfg < stageLatency S SentimentStage a
                   then classifySentiment S (RawArticle.content a)
                   else unavailableResult Neutral) \<and>
                credibility p =
                  (if credibilityEnabled cfg \<and> \<not> requestTimeout cfg < stageLatency S CredibilityStage a
                   then classifyCredibility S (RawArticle.content a)
                   else unavailableResult Unknown) \<and>
                ProcessedArticle.summary p =
                  (if summaryEnabled cfg \<and> \<not> requestTimeout cfg < stageLatency S SummaryStage a
                   then summarize S (RawArticle.content a) (summaryMaxLength cfg)
                   else unavailableResult (take (summaryMaxLength cfg) (RawArticle.content a)))))"
proof -
  show "stageRuns (snd (processOne S cfg now (snd (processOne S cfg t st a)) a)) =
           stageRuns (snd (processOne S cfg t st a)) +
             (if malformed cfg a then 0
              else ran (sentimentEnabled cfg \<and> \<not> requestTimeout cfg < stageLatency S SentimentStage a) +
                   ran (credibilityEnabled cfg \<and> \<not> requestTimeout cfg < stageLatency S CredibilityStage a) +
                   ran (summaryEnabled cfg \<and> \<not> requestTimeout cfg < stageLatency S SummaryStage a))"
  proof (cases "malformed cfg a")
    case True
    then show ?thesis by (simp add: processOne_malformed)
  next
    case False
    show ?thesis
      using assms False
      by (simp add: processOne_fields ran_runStage runStage_expired)
  qed
  show "(\<not> malformed cfg a \<longrightarrow>
             (\<exists>p. fst (processOne S cfg now (snd (processOne S cfg t st a)) a) = Inr p \<and>
                ProcessedArticle.sentiment p =
                  (if sentimentEnabled cfg \<and> \<not> requestTimeout cfg < stageLatency S SentimentStage a
                   then classifySentiment S (RawArticle.content a)
                   else unavailableResult Neutral) \<and>
                credibility p =
                  (if credibilityEnabled cfg \<and> \<not> requestTimeout cfg < stageLatency S CredibilityStage a
                   then classifyCredibility S (RawArticle.content a)
                   else unavailableResult Unknown) \<and>
                ProcessedArticle.summary p =
                  (if summaryEnabled cfg \<and> \<not> requestTimeout cfg < stageLatency S SummaryStage a
                   then summarize S (RawArticle.content a) (summaryMaxLength cfg)
                   else unavailableResult (take (summaryMaxLength cfg) (RawArticle.content a)))))"
  proof
    assume ok: "\<not> malformed cfg a"
    have caches: "sentimentCache (snd (processOne S cfg t st a)) =
       fst (snd (runStage (sentimentEnabled cfg)
                          (requestTimeout cfg < stageLatency S SentimentStage a)
                          (sentimentCache st) t (cacheTtl cfg) (SentimentStage, fingerprint S a) Neutral
                          (\<lambda>_. classifySentiment S (RawArticle.content a))))"
      "credibilityCache (snd (processOne S cfg t st a)) =
       fst (snd (runStage (credibilityEnabled cfg)
                          (requestTimeout cfg < stageLatency S CredibilityStage a)
                          (credibilityCache st) t (cacheTtl cfg) (CredibilityStage, fingerprint S a) Unknown
                          (\<lambda>_. classifyCredibility S (RawArticle.content a))))"
      "summaryCache (snd (processOne S cfg t st a)) =
       fst (snd (runStage (summaryEnabled cfg)
                          (requestTimeout cfg < stageLatency S SummaryStage a)
                          (summaryCache st) t (cacheTtl cfg) (SummaryStage, fingerprint S a)
                          (take (summaryMaxLength cfg) (RawArticle.content a))
                          (\<lambda>_. summarize S (RawArticle.content a) (summaryMaxLength cfg))))"
      by (simp_all only: processOne_fields[OF ok] snd_conv pipeline.simps)
    have gone: "get (sentimentCache (snd (processOne S cfg t st a))) now (SentimentStage, fingerprint S a) = None"
      "get (credibilityCache (snd (processOne S cfg t st a))) now (CredibilityStage, fingerprint S a) = None"
      "get (summaryCache (snd (processOne S cfg t st a))) now (SummaryStage, fingerprint S a) = None"
      unfolding caches using assms by (simp_all add: runStage_expired)
    show "\<exists>p. fst (processOne S cfg now (snd (processOne S cfg t st a)) a) = Inr p \<and>
                ProcessedArticle.sentiment p =
                  (if sentimentEnabled cfg \<and> \<not> requestTimeout cfg < stageLatency S SentimentStage a
                   then classifySentiment S (RawArticle.content a)
                   else unavailableResult Neutral) \<and>
                credibility p =
                  (if credibilityEnabled cfg \<and> \<not> requestTimeout cfg < stageLatency S CredibilityStage a
                   then classifyCredibility S (RawArticle.content a)
                   else unavailableResult Unknown) \<and>
                ProcessedArticle.summary p =
                  (if summaryEnabled cfg \<and> \<not> requestTimeout cfg < stageLatency S SummaryStage a
                   then summarize S (RawArticle.content a) (summaryMaxLength cfg)
                   else unavailableResult (take (summaryMaxLength cfg) (RawArticle.content a)))"
      unfolding processOne_fields[OF ok, of S now "snd (processOne S cfg t st a)"]
      by (simp add: fst_runStage gone)
  qed
qed

text \<open>
  C5: a cache lookup returns a result only from an entry whose expiry lies after the
  current time; an expired entry behaves exactly like an absent one, for \<open>get\<close> and for
  a cache-checked stage. After \<open>put\<close> with a time-to-live, lookups hit before the
  expiry and miss from the expiry on, and then the stage logic runs again and its fresh
  result replaces the stale one; other keys are not affected. An article processed a
  second time after the time-to-live runs again the logic of every stage that is enabled
  and not cancelled, and the stage fields of the second result are the fresh results of
  that logic.
\<close>

theorem C5_cache_hit_only_before_expiry:
  "(get c now k = Some r \<longrightarrow> (\<exists>e. c k = Some (r, e) \<and> now < e)) \<and>
   (c k = Some (r, e) \<and> e \<le> now \<longrightarrow>
      get c now k = None \<and> get c now k = get (c(k := None)) now k \<and>
      cached c now ttl k f = cached (c(k := None)) now ttl k f) \<and>
   (now < t + ttl \<longrightarrow> get (put c t k r ttl) now k = Some r \<and>
      cached (put c t k r ttl) now ttl k f = (r, put c t k r ttl, False)) \<and>
   (t + ttl \<le> now \<longrightarrow> get (put c t k r ttl) now k = None \<and>
      cached (put c t k r ttl) now ttl k f = (f (), put c now k (f ()) ttl, True)) \<and>
   (k' \<noteq> k \<longrightarrow> get (put c t k r ttl) now k' = get c now k') \<and>
   (get (sentimentCache st) t (SentimentStage, fingerprint S a) = None \<and>
    get (credibilityCache st) t (CredibilityStage, fingerprint S a) = None \<and>
    get (summaryCache st) t (SummaryStage, fingerprint S a) = None \<and>
    t + cacheTtl cfg \<le> now \<longrightarrow>
      stageRuns (snd (processOne S cfg now (snd (processOne S cfg t st a)) a)) =
        stageRuns (snd (processOne S cfg t st a)) +
          (if malformed cfg a then 0
           else ran (sentimentEnabled cfg \<and> \<not> requestTimeout cfg < stageLatency S SentimentStage a) +
                ran (credibilityEnabled cfg \<and> \<not> requestTimeout cfg < stageLatency S CredibilityStage a) +
                ran (summaryEnabled cfg \<and> \<not> requestTimeout cfg < stageLatency S SummaryStage a)) \<and>
      (\<not> malformed cfg a \<longrightarrow>
         (\<exists>p. fst (processOne S cfg now (snd (processOne S cfg t st a)) a) = Inr p \<and>
            ProcessedArticle.sentiment p =
              (if sentimentEnabled cfg \<and> \<not> requestTimeout cfg < stageLatency S SentimentStage a
               then classifySentiment S (RawArticle.content a)
               else unavailableResult Neutral) \<and>
            credibility p =
              (if credibilityEnabled cfg \<and> \<not> requestTimeout cfg < stageLatency S CredibilityStage a
               then classifyCredibility S (RawArticle.content a)
               else unavailableResult Unknown) \<and>
            ProcessedArticle.summary p =
              (if summaryEnabled cfg \<and> \<not> requestTimeout cfg < stageLatency S SummaryStage a
               then summarize S (RawArticle.content a) (summaryMaxLength cfg)
               else unavailableResult (take (summaryMaxLength cfg) (RawArticle.content a))))))"
  (is "?A \<and> ?B \<and> ?C \<and> ?D \<and> ?E \<and> ?G")
proof -
  have a: ?A
    by (simp add: get_Some_iff)
  have b: ?B
    by (auto simp: get_expired get_absent cached_miss put_absent)
  have c: ?C
    by (simp add: get_put_same cached_hit)
  have d: ?D
    by (simp add: get_put_same cached_miss) (simp add: put_def)
  have e: ?E
    by (simp add: get_put_other)
  have g: ?G
    using processOne_twice[of st t S a cfg now] by blast
  show ?thesis using a b c d e g by blast
qed

theorem C5_cache_hit_only_before_expiry_witness:
  "put Map.empty 0 (SentimentStage, 5) cachedResult 60 (SentimentStage, 5) = Some (cachedResult, 60) \<and>
   get (put Map.empty 0 (SentimentStage, 5) cachedResult 60) 59 (SentimentStage, 5) = Some cachedResult \<and>
   get (put Map.empty 0 (SentimentStage, 5) cachedResult 60) 59 (CredibilityStage, 5) = None \<and>
   get (put Map.empty 0 (SentimentStage, 5) cachedResult 60) 60 (SentimentStage, 5) = None \<and>
   cached (put Map.empty 0 (SentimentStage, 5) cachedResult 60) 60 60 (SentimentStage, 5) (\<lambda>_. recomputedResult)
     = cached ((put Map.empty 0 (SentimentStage, 5) cachedResult 60)((SentimentStage, 5) := None)) 60 60
         (SentimentStage, 5) (\<lambda>_. recomputedResult) \<and>
   cached (put Map.empty 0 (SentimentStage, 5) cachedResult 60) 60 60 (SentimentStage, 5) (\<lambda>_. recomputedResult)
     = (recomputedResult, put Map.empty 60 (SentimentStage, 5) recomputedResult 60, True) \<and>
   cached (put Map.empty 0 (SentimentStage, 5) cachedResult 60) 59 60 (SentimentStage, 5) (\<lambda>_. recomputedResult)
     = (cachedResult, put Map.empty 0 (SentimentStage, 5) cachedResult 60, False) \<and>
   stageRuns (snd (processOne failingServices sampleConfig 60
       (snd (processOne failingServices sampleConfig 0 emptyPipeline (sampleArticle ''A''))) (sampleArticle ''A''))) = 6"
proof -
  let ?k = "(SentimentStage, 5 :: nat)"
  let ?c = "put Map.empty 0 ?k cachedResult 60"
  let ?a = "sampleArticle ''A''"
  note live = C5_cache_hit_only_before_expiry[where c = Map.empty and now = 59 and k = ?k
      and r = cachedResult and e = 60 and ttl = 60 and f = "\<lambda>_. recomputedResult" and t = 0
      and k' = "(CredibilityStage, 5)" and st = emptyPipeline and S = failingServices
      and a = ?a and cfg = sampleConfig]
  note dead = C5_cache_hit_only_before_expiry[where c = Map.empty and now = 60 and k = ?k
      and r = cachedResult and e = 60 and ttl = 60 and f = "\<lambda>_. recomputedResult" and t = 0
      and k' = "(CredibilityStage, 5)" and st = emptyPipeline and S = failingServices
      and a = ?a and cfg = sampleConfig]
  note absent = C5_cache_hit_only_before_expiry[where c = ?c and now = 60 and k = ?k
      and r = cachedResult and e = 60 and ttl = 60 and f = "\<lambda>_. recomputedResult" and t = 0
      and k' = "(CredibilityStage, 5)" and st = emptyPipeline and S = failingServices
      and a = ?a and cfg = sampleConfig]
  have entry: "?c ?k = Some (cachedResult, 60)" by (simp add: put_def)
  have other: "get Map.empty 59 (CredibilityStage, 5 :: nat) = (None :: SentimentValue StageResult option)"
    by (simp add: get_def)
  have g: "get (sentimentCache emptyPipeline) 0 (SentimentStage, fingerprint failingServices ?a) = None"
    "get (credibilityCache emptyPipeline) 0 (CredibilityStage, fingerprint failingServices ?a) = None"
    "get (summaryCache emptyPipeline) 0 (SummaryStage, fingerprint failingServices ?a) = None"
    by (simp_all add: get_def emptyPipeline_def)
  have ttl: "0 + cacheTtl sampleConfig \<le> 60" by (simp add: sampleConfig_def)
  have ok: "\<not> malformed sampleConfig ?a"
    by (simp add: malformed_def sampleConfig_def sampleArticle_def)
  have cfg: "sentimentEnabled sampleConfig" "credibilityEnabled sampleConfig" "summaryEnabled sampleConfig"
    "\<not> requestTimeout sampleConfig < stageLatency failingServices s ?a" for s
    by (simp_all add: sampleConfig_def failingServices_def)
  have first: "stageRuns (snd (processOne failingServices sampleConfig 0 emptyPipeline ?a)) = 3"
    using g ok cfg by (simp add: processOne_fields ran_runStage ran_def emptyPipeline_def)
  have 1: "get ?c 59 ?k = Some cachedResult"
    and 2: "cached ?c 59 60 ?k (\<lambda>_. recomputedResult) = (cachedResult, ?c, False)"
    and 3: "get ?c 59 (CredibilityStage, 5) = None"
    using live other by simp_all
  have 4: "get ?c 60 ?k = None"
    and 5: "cached ?c 60 60 ?k (\<lambda>_. recomputedResult) =
              (recomputedResult, put Map.empty 60 ?k recomputedResult 60, True)"
    using dead by simp_all
  have 6: "stageRuns (snd (processOne failingServices sampleConfig 60
              (snd (processOne failingServices sampleConfig 0 emptyPipeline ?a)) ?a)) = 6"
    using dead g ttl first ok cfg by (simp add: ran_def)
  have 7: "cached ?c 60 60 ?k (\<lambda>_. recomputedResult) =
             cached (?c(?k := None)) 60 60 ?k (\<lambda>_. recomputedResult)"
    using absent entry by simp
  show ?thesis using entry 1 2 3 4 5 6 7 by blast
qed

section \<open>Replies, batches and fetching\<close>

lemma startsWith_append: "startsWith (h @ r) h"
  by (simp add: startsWith_def)

lemma isAnalysisReply_article: "isAnalysisReply (articleAnalysisText E a)"
  by (simp add: isAnalysisReply_def articleAnalysisText_def Let_def startsWith_append)

lemma isAnalysisReply_trend: "isAnalysisReply (trendAnalysisText E q a)"
  by (simp add: isAnalysisReply_def trendAnalysisText_def Let_def startsWith_append)

lemma isAnalysisReply_latest: "isAnalysisReply (latestNewsText E a)"
  by (simp add: isAnalysisReply_def latestNewsText_def Let_def startsWith_append)

lemma tryBody_kinds:
  assumes "0 \<le> random E" "random E < 1" "snd (tryBody E t) = Inr b"
  shows "\<exists>x. text_js b = Val x \<and>
           (isAnalysisReply x \<or> x = noResultsText \<or> x \<in> set generalResponses)"
proof -
  let ?i = "nat \<lfloor>random E * of_nat (length generalResponses)\<rfloor>"
  have i: "?i < length generalResponses" using randomIndex_bound assms by blast
  then have mem: "generalResponses ! ?i \<in> set generalResponses" by simp
  show ?thesis
  proof (cases "200 < length t")
    case True
    then show ?thesis using assms(3)
      by (auto simp: tryBody_def Let_def botMessage_def isAnalysisReply_article
            split: option.splits if_splits)
  next
    case False
    show ?thesis
    proof (cases "isNewsQuery E t")
      case True
      then show ?thesis using False assms(3)
        by (auto simp: tryBody_def Let_def botMessage_def isAnalysisReply_trend
              isAnalysisReply_latest split: option.splits if_splits list.splits jsprop.splits)
    next
      case n: False
      show ?thesis
        using assms(3) mem by (auto simp add: tryBody_chat[OF False n] botMessage_def elemAt_def i)
    qed
  qed
qed

text \<open>
  C10 (as amended): an invocation of handleSendMessage with a non-blank input while
  not loading leaves the earlier messages as they were and appends exactly two: the user's
  message and then one bot message, which is an analysis reply, the no-results reply, one
  of the general chat responses or the connection-error reply; the input is cleared and
  the loading flag is false afterwards, on every path.
\<close>

theorem C10_send_appends_user_and_bot_message:
  assumes "trim (inputValue s) \<noteq> []" and "\<not> isLoading s"
    and "0 \<le> random E" and "random E < 1"
  shows "\<exists>b t. fst (handleSendMessage E s) =
            \<lparr>messages = messages s @
               [\<lparr>text_js = Val (trim (inputValue s)), sender = ''user'', timestamp = newDate E 0\<rparr>, b],
             inputValue = [], isLoading = False\<rparr> \<and>
          sender b = ''bot'' \<and> text_js b = Val t \<and>
          (isAnalysisReply t \<or> t = noResultsText \<or> t \<in> set generalResponses \<or>
           t = connectionErrorText)"
proof (cases "snd (tryBody E (trim (inputValue s)))")
  case (Inl e)
  show ?thesis
    using handleSendMessage_sent[OF assms(1,2), of E] by (simp add: Inl errorMsg_def)
next
  case (Inr b)
  obtain x where "text_js b = Val x"
    "isAnalysisReply x \<or> x = noResultsText \<or> x \<in> set generalResponses"
    using tryBody_kinds[OF assms(3,4) Inr] by blast
  then show ?thesis
    using handleSendMessage_sent[OF assms(1,2), of E] tryBody_sender[OF Inr]
    by (simp add: Inr del: set_simps) blast
qed

lemma sample_reply_not_listed:
  "\<not> isAnalysisReply (generalResponses ! 0) \<and> generalResponses ! 0 \<noteq> noResultsText \<and>
   generalResponses ! 0 \<noteq> connectionErrorText"
  by (simp add: generalResponses_def isAnalysisReply_def startsWith_def articleHeader_def
        trendHeader_def latestHeader_def noResultsText_def connectionErrorText_def str_def)

text \<open>
  C10 as stated lists three kinds of bot message; on the input \<open>hello\<close> the bot message
  is a general chat response, which is none of the three.
\<close>

theorem C10_bot_reply_kinds_counterexample:
  "trim (inputValue ((initialApp 0)\<lparr>inputValue := str ''hello''\<rparr>)) \<noteq> [] \<and>
   \<not> isLoading ((initialApp 0)\<lparr>inputValue := str ''hello''\<rparr>) \<and>
   text_js (last (messages (fst (handleSendMessage (sampleEnv 0 offline)
      ((initialApp 0)\<lparr>inputValue := str ''hello''\<rparr>))))) = Val (generalResponses ! 0) \<and>
   \<not> isAnalysisReply (generalResponses ! 0) \<and> generalResponses ! 0 \<noteq> noResultsText \<and>
   generalResponses ! 0 \<noteq> connectionErrorText"
proof -
  let ?h = "(initialApp 0)\<lparr>inputValue := str ''hello''\<rparr>"
  have ne: "trim (inputValue ?h) \<noteq> []" by (simp add: sample_hello_trim) (simp add: str_def)
  have l: "\<not> isLoading ?h" by (simp add: initialApp_def)
  have t: "text_js (last (messages (fst (handleSendMessage (sampleEnv 0 offline) ?h)))) =
             Val (generalResponses ! 0)"
    by (simp add: sample_hello)
  show ?thesis using ne l t sample_reply_not_listed by blast
qed

theorem C10_send_appends_user_and_bot_message_witness:
  "trim (inputValue ((initialApp 0)\<lparr>inputValue := str ''hello''\<rparr>)) \<noteq> [] \<and>
   \<not> isLoading ((initialApp 0)\<lparr>inputValue := str ''hello''\<rparr>) \<and>
   0 \<le> random (sampleEnv 0 offline) \<and> random (sampleEnv 0 offline) < 1 \<and>
   (\<exists>b t. fst (handleSendMessage (sampleEnv 0 offline) ((initialApp 0)\<lparr>inputValue := str ''hello''\<rparr>)) =
            \<lparr>messages = messages ((initialApp 0)\<lparr>inputValue := str ''hello''\<rparr>) @
               [\<lparr>text_js = Val (trim (inputValue ((initialApp 0)\<lparr>inputValue := str ''hello''\<rparr>))),
                 sender = ''user'', timestamp = newDate (sampleEnv 0 offline) 0\<rparr>, b],
             inputValue = [], isLoading = False\<rparr> \<and>
          sender b = ''bot'' \<and> text_js b = Val t \<and>
          (isAnalysisReply t \<or> t = noResultsText \<or> t \<in> set generalResponses \<or>
           t = connectionErrorText))"
proof -
  let ?h = "(initialApp 0)\<lparr>inputValue := str ''hello''\<rparr>"
  let ?E = "sampleEnv 0 offline"
  have ne: "trim (inputValue ?h) \<noteq> []" by (simp add: sample_hello_trim) (simp add: str_def)
  have l: "\<not> isLoading ?h" by (simp add: initialApp_def)
  have r0: "0 \<le> random ?E" and r1: "random ?E < 1" by (simp_all add: sampleEnv_def)
  from C10_send_appends_user_and_bot_message[OF ne l r0 r1] ne l r0 r1
  show ?thesis by blast
qed



lemma allUnavailable_article: "ProcessedArticle.article (allUnavailable cfg now a) = a"
  by (simp add: allUnavailable_def)

lemma processOne_cases:
  "(malformed cfg a \<and> processOne S cfg now st a = (Inl MalformedInput, st)) \<or>
   (\<not> malformed cfg a \<and>
    (\<exists>p st'. processOne S cfg now st a = (Inr p, st') \<and> ProcessedArticle.article p = a))"
proof (cases "malformed cfg a")
  case True
  then show ?thesis by (simp add: processOne_malformed)
next
  case False
  show ?thesis unfolding processOne_fields[OF False] using False
    by (simp only: prod.inject sum.inject ProcessedArticle.simps simp_thms ex_simps)
qed

lemma processOne_article:
  "processOne S cfg now st a = (Inr p, st') \<Longrightarrow> ProcessedArticle.article p = a"
  using processOne_cases[of cfg a S now st] by auto

lemma runStage_other:
  "k' \<noteq> k \<Longrightarrow>
     fst (runStage en' canc' (fst (snd (runStage en canc c now ttl k d f))) now ttl' k' d' f') =
       fst (runStage en' canc' c now ttl' k' d' f')"
  by (simp add: fst_runStage runStage_frame)

lemma processOne_caches:
  "\<not> malformed cfg b \<Longrightarrow>
     sentimentCache (snd (processOne S cfg now st b)) =
       fst (snd (runStage (sentimentEnabled cfg)
                          (requestTimeout cfg < stageLatency S SentimentStage b)
                          (sentimentCache st) now (cacheTtl cfg) (SentimentStage, fingerprint S b) Neutral
                          (\<lambda>_. classifySentiment S (RawArticle.content b)))) \<and>
     credibilityCache (snd (processOne S cfg now st b)) =
       fst (snd (runStage (credibilityEnabled cfg)
                          (requestTimeout cfg < stageLatency S CredibilityStage b)
                          (credibilityCache st) now (cacheTtl cfg) (CredibilityStage, fingerprint S b) Unknown
                          (\<lambda>_. classifyCredibility S (RawArticle.content b)))) \<and>
     summaryCache (snd (processOne S cfg now st b)) =
       fst (snd (runStage (summaryEnabled cfg)
                          (requestTimeout cfg < stageLatency S SummaryStage b)
                          (summaryCache st) now (cacheTtl cfg) (SummaryStage, fingerprint S b)
                          (take (summaryMaxLength cfg) (RawArticle.content b))
                          (\<lambda>_. summarize S (RawArticle.content b) (summaryMaxLength cfg))))"
  by (simp only: processOne_fields snd_conv pipeline.simps simp_thms)

lemma processOne_after:
  assumes "fingerprint S a = fingerprint S b \<Longrightarrow> a = b"
  shows "fst (processOne S cfg now (snd (processOne S cfg now st b)) a) =
           fst (processOne S cfg now st a)"
proof (cases "malformed cfg b")
  case True
  then show ?thesis by (simp add: processOne_malformed)
next
  case okb: False
  note cs = processOne_caches[OF okb, of S now st]
  show ?thesis
  proof (cases "malformed cfg a")
    case True
    then show ?thesis by (simp add: processOne_malformed)
  next
    case oka: False
    let ?st1 = "snd (processOne S cfg now st b)"
    have s: "fst (runStage (sentimentEnabled cfg) (requestTimeout cfg < stageLatency S SentimentStage a)
                (sentimentCache ?st1) now (cacheTtl cfg) (SentimentStage, fingerprint S a) Neutral
                (\<lambda>_. classifySentiment S (RawArticle.content a))) =
             fst (runStage (sentimentEnabled cfg) (requestTimeout cfg < stageLatency S SentimentStage a)
                (sentimentCache st) now (cacheTtl cfg) (SentimentStage, fingerprint S a) Neutral
                (\<lambda>_. classifySentiment S (RawArticle.content a)))"
    proof (cases "a = b")
      case True
      show ?thesis unfolding cs[THEN conjunct1] True by (rule runStage_again)
    next
      case False
      then have "(SentimentStage, fingerprint S a) \<noteq> (SentimentStage, fingerprint S b)"
        using assms by blast
      then show ?thesis unfolding cs[THEN conjunct1] by (rule runStage_other)
    qed
    have c: "fst (runStage (credibilityEnabled cfg) (requestTimeout cfg < stageLatency S CredibilityStage a)
                (credibilityCache ?st1) now (cacheTtl cfg) (CredibilityStage, fingerprint S a) Unknown
                (\<lambda>_. classifyCredibility S (RawArticle.content a))) =
             fst (runStage (credibilityEnabled cfg) (requestTimeout cfg < stageLatency S CredibilityStage a)
                (credibilityCache st) now (cacheTtl cfg) (CredibilityStage, fingerprint S a) Unknown
                (\<lambda>_. classifyCredibility S (RawArticle.content a)))"
    proof (cases "a = b")
      case True
      show ?thesis unfolding cs[THEN conjunct2, THEN conjunct1] True by (rule runStage_again)
    next
      case False
      then have "(CredibilityStage, fingerprint S a) \<noteq> (CredibilityStage, fingerprint S b)"
        using assms by blast
      then show ?thesis unfolding cs[THEN conjunct2, THEN conjunct1] by (rule runStage_other)
    qed
    have m: "fst (runStage (summaryEnabled cfg) (requestTimeout cfg < stageLatency S SummaryStage a)
                (summaryCache ?st1) now (cacheTtl cfg) (SummaryStage, fingerprint S a)
                (take (summaryMaxLength cfg) (RawArticle.content a))
                (\<lambda>_. summarize S (RawArticle.content a) (summaryMaxLength cfg))) =
             fst (runStage (summaryEnabled cfg) (requestTimeout cfg < stageLatency S SummaryStage a)
                (summaryCache st) now (cacheTtl cfg) (SummaryStage, fingerprint S a)
                (take (summaryMaxLength cfg) (RawArticle.content a))
                (\<lambda>_. summarize S (RawArticle.content a) (summaryMaxLength cfg)))"
    proof (cases "a = b")
      case True
      show ?thesis unfolding cs[THEN conjunct2, THEN conjunct2] True by (rule runStage_again)
    next
      case False
      then have "(SummaryStage, fingerprint S a) \<noteq> (SummaryStage, fingerprint S b)"
        using assms by blast
      then show ?thesis unfolding cs[THEN conjunct2, THEN conjunct2] by (rule runStage_other)
    qed
    show ?thesis
      unfolding processOne_fields[OF oka, of S now ?st1] processOne_fields[OF oka, of S now st]
      by (simp only: s c m fst_conv)
  qed
qed


lemma runTasks_some_state:
  "length out = length as \<Longrightarrow>
   runTasks (processOne S cfg now) cfg now as order (out, st) = (out', st') \<Longrightarrow>
     length out' = length as \<and>
     (\<forall>i<length as.
        (i \<in> set order \<longrightarrow>
           (\<exists>s. out' ! i = Some (case fst (processOne S cfg now s (as ! i)) of
                                   Inr p \<Rightarrow> p | Inl e \<Rightarrow> allUnavailable cfg now (as ! i)))) \<and>
        (i \<notin> set order \<longrightarrow> out' ! i = out ! i))"
proof (induction order arbitrary: out st)
  case Nil
  then show ?case by simp
next
  case (Cons i order)
  show ?case
  proof (cases "i < length as")
    case False
    then have "runTasks (processOne S cfg now) cfg now as order (out, st) = (out', st')"
      using Cons.prems(2) by simp
    from Cons.IH[OF Cons.prems(1) this] False show ?thesis by auto
  next
    case True
    obtain r st1 where r: "processOne S cfg now st (as ! i) = (r, st1)"
      by (cases "processOne S cfg now st (as ! i)")
    define p where "p = (case fst (processOne S cfg now st (as ! i)) of
                           Inr q \<Rightarrow> q | Inl e \<Rightarrow> allUnavailable cfg now (as ! i))"
    have run: "runTasks (processOne S cfg now) cfg now as order (out[i := Some p], st1) = (out', st')"
      using Cons.prems(2) True r by (cases r) (simp_all add: p_def)
    have len: "length (out[i := Some p]) = length as" using Cons.prems(1) by simp
    note IH = Cons.IH[OF len run]
    show ?thesis
    proof (intro conjI allI impI)
      show "length out' = length as" using IH by simp
    next
      fix j assume j: "j < length as" and mem: "j \<in> set (i # order)"
      show "\<exists>s. out' ! j = Some (case fst (processOne S cfg now s (as ! j)) of
                                   Inr p \<Rightarrow> p | Inl e \<Rightarrow> allUnavailable cfg now (as ! j))"
      proof (cases "j \<in> set order")
        case True
        then show ?thesis using IH j by blast
      next
        case False
        then have ji: "j = i" using mem by simp
        have "out' ! j = (out[i := Some p]) ! j" using IH j False by blast
        then have "out' ! j = Some p" using ji j Cons.prems(1) by simp
        then show ?thesis unfolding p_def ji by blast
      qed
    next
      fix j assume j: "j < length as" and nmem: "j \<notin> set (i # order)"
      then have "out' ! j = (out[i := Some p]) ! j" using IH by simp
      then show "out' ! j = out ! j" using nmem by simp
    qed
  qed
qed

lemma runTasks_results:
  assumes inj: "inj_on (fingerprint S) (set as)"
  shows "length out = length as \<Longrightarrow>
   (\<forall>a\<in>set as. fst (processOne S cfg now st a) = fst (processOne S cfg now st0 a)) \<Longrightarrow>
   runTasks (processOne S cfg now) cfg now as order (out, st) = (out', st') \<Longrightarrow>
     (\<forall>i<length as.
        i \<in> set order \<longrightarrow>
           out' ! i = Some (case fst (processOne S cfg now st0 (as ! i)) of
                              Inr p \<Rightarrow> p | Inl e \<Rightarrow> allUnavailable cfg now (as ! i)))"
proof (induction order arbitrary: out st)
  case Nil
  then show ?case by simp
next
  case (Cons i order)
  show ?case
  proof (cases "i < length as")
    case False
    then have "runTasks (processOne S cfg now) cfg now as order (out, st) = (out', st')"
      using Cons.prems(3) by simp
    from Cons.IH[OF Cons.prems(1,2) this] False show ?thesis by auto
  next
    case True
    then have mem: "as ! i \<in> set as" by simp
    obtain r st1 where r: "processOne S cfg now st (as ! i) = (r, st1)"
      by (cases "processOne S cfg now st (as ! i)")
    define p where "p = (case fst (processOne S cfg now st0 (as ! i)) of
                           Inr q \<Rightarrow> q | Inl e \<Rightarrow> allUnavailable cfg now (as ! i))"
    have same: "fst (processOne S cfg now st (as ! i)) = fst (processOne S cfg now st0 (as ! i))"
      using Cons.prems(2) mem by blast
    have run: "runTasks (processOne S cfg now) cfg now as order (out[i := Some p], st1) = (out', st')"
      using Cons.prems(3) True r same[symmetric] by (cases r) (simp_all add: p_def)
    have len: "length (out[i := Some p]) = length as" using Cons.prems(1) by simp
    have st1: "st1 = snd (processOne S cfg now st (as ! i))" using r by simp
    have inv: "\<forall>a\<in>set as. fst (processOne S cfg now st1 a) = fst (processOne S cfg now st0 a)"
    proof
      fix a assume a: "a \<in> set as"
      have "fingerprint S a = fingerprint S (as ! i) \<Longrightarrow> a = as ! i"
        using inj a mem by (auto dest: inj_onD)
      then have "fst (processOne S cfg now st1 a) = fst (processOne S cfg now st a)"
        unfolding st1 by (rule processOne_after)
      then show "fst (processOne S cfg now st1 a) = fst (processOne S cfg now st0 a)"
        using Cons.prems(2) a by simp
    qed
    note IH = Cons.IH[OF len inv run]
    have rest: "length out' = length as \<and>
     (\<forall>j<length as.
        (j \<in> set order \<longrightarrow>
           (\<exists>s. out' ! j = Some (case fst (processOne S cfg now s (as ! j)) of
                                   Inr p \<Rightarrow> p | Inl e \<Rightarrow> allUnavailable cfg now (as ! j)))) \<and>
        (j \<notin> set order \<longrightarrow> out' ! j = (out[i := Some p]) ! j))"
      by (rule runTasks_some_state[OF len run])
    show ?thesis
    proof (intro allI impI)
      fix j assume j: "j < length as" and jm: "j \<in> set (i # order)"
      show "out' ! j = Some (case fst (processOne S cfg now st0 (as ! j)) of
                              Inr p \<Rightarrow> p | Inl e \<Rightarrow> allUnavailable cfg now (as ! j))"
      proof (cases "j \<in> set order")
        case True
        then show ?thesis using IH j by blast
      next
        case False
        then have ji: "j = i" using jm by simp
        have "out' ! j = (out[i := Some p]) ! j" using rest j False by blast
        then have "out' ! j = Some p" using ji j Cons.prems(1) by simp
        then show ?thesis unfolding p_def ji by simp
      qed
    qed
  qed
qed

lemma joinAll_Some:
  "(\<forall>i<length xs. \<exists>y. xs ! i = Some y) \<Longrightarrow>
     \<exists>ys. joinAll xs = Some ys \<and> length ys = length xs \<and> (\<forall>i<length xs. xs ! i = Some (ys ! i))"
proof (induction xs)
  case Nil
  then show ?case by simp
next
  case (Cons x xs)
  from Cons.prems obtain y where y: "x = Some y" by fastforce
  have "\<forall>i<length xs. \<exists>y. xs ! i = Some y" using Cons.prems by fastforce
  from Cons.IH[OF this] obtain ys where ys: "joinAll xs = Some ys" "length ys = length xs"
    "\<forall>i<length xs. xs ! i = Some (ys ! i)" by blast
  have "\<forall>i<length (x # xs). (x # xs) ! i = Some ((y # ys) ! i)"
    using y ys(3) by (auto simp: nth_Cons split: nat.splits)
  then show ?case using y ys by simp
qed

lemma processBatch_spec:
  assumes cover: "set order = {..<length as}"
  shows "\<exists>ps. fst (processBatch S cfg now st order as) = Some ps \<and> length ps = length as \<and>
          (\<forall>i<length as.
             \<exists>s. ps ! i = (case fst (processOne S cfg now s (as ! i)) of
                             Inr p \<Rightarrow> p | Inl e \<Rightarrow> allUnavailable cfg now (as ! i))) \<and>
          (inj_on (fingerprint S) (set as) \<longrightarrow>
             ps = map (\<lambda>a. case fst (processOne S cfg now st a) of
                              Inr p \<Rightarrow> p | Inl e \<Rightarrow> allUnavailable cfg now a) as)"
proof -
  let ?w = "processOne S cfg now"
  obtain out' st' where run: "runTasks ?w cfg now as order (replicate (length as) None, st) = (out', st')"
    by (cases "runTasks ?w cfg now as order (replicate (length as) None, st)")
  have len0: "length (replicate (length as) (None :: ProcessedArticle option)) = length as" by simp
  have spec: "length out' = length as \<and>
     (\<forall>i<length as.
        (i \<in> set order \<longrightarrow>
           (\<exists>s. out' ! i = Some (case fst (processOne S cfg now s (as ! i)) of
                                   Inr p \<Rightarrow> p | Inl e \<Rightarrow> allUnavailable cfg now (as ! i)))) \<and>
        (i \<notin> set order \<longrightarrow> out' ! i = replicate (length as) None ! i))"
    by (rule runTasks_some_state[OF len0 run])
  have all: "\<forall>i<length as. \<exists>s. out' ! i = Some (case fst (processOne S cfg now s (as ! i)) of
                                   Inr p \<Rightarrow> p | Inl e \<Rightarrow> allUnavailable cfg now (as ! i))"
    using spec cover by auto
  have "\<forall>i<length out'. \<exists>y. out' ! i = Some y" using all spec by auto
  from joinAll_Some[OF this] obtain ps where ps: "joinAll out' = Some ps" "length ps = length out'"
    "\<forall>i<length out'. out' ! i = Some (ps ! i)" by blast
  have 1: "fst (processBatch S cfg now st order as) = Some ps"
    by (simp add: processBatch_def processBatchWith_def run ps(1))
  have 2: "length ps = length as" using ps(2) spec by simp
  have 3: "\<forall>i<length as.
             \<exists>s. ps ! i = (case fst (processOne S cfg now s (as ! i)) of
                             Inr p \<Rightarrow> p | Inl e \<Rightarrow> allUnavailable cfg now (as ! i))"
  proof (intro allI impI)
    fix i assume i: "i < length as"
    then obtain s where s: "out' ! i = Some (case fst (processOne S cfg now s (as ! i)) of
                                   Inr p \<Rightarrow> p | Inl e \<Rightarrow> allUnavailable cfg now (as ! i))"
      using all by blast
    have "out' ! i = Some (ps ! i)" using ps(3) i spec by simp
    then have "ps ! i = (case fst (processOne S cfg now s (as ! i)) of
                             Inr p \<Rightarrow> p | Inl e \<Rightarrow> allUnavailable cfg now (as ! i))"
      using s by simp
    then show "\<exists>s. ps ! i = (case fst (processOne S cfg now s (as ! i)) of
                             Inr p \<Rightarrow> p | Inl e \<Rightarrow> allUnavailable cfg now (as ! i))"
      by (rule exI)
  qed
  have 4: "inj_on (fingerprint S) (set as) \<longrightarrow>
             ps = map (\<lambda>a. case fst (processOne S cfg now st a) of
                              Inr p \<Rightarrow> p | Inl e \<Rightarrow> allUnavailable cfg now a) as"
  proof
    assume inj: "inj_on (fingerprint S) (set as)"
    have res: "\<forall>i<length as. i \<in> set order \<longrightarrow>
           out' ! i = Some (case fst (processOne S cfg now st (as ! i)) of
                              Inr p \<Rightarrow> p | Inl e \<Rightarrow> allUnavailable cfg now (as ! i))"
      by (rule runTasks_results[OF inj len0 _ run]) simp
    show "ps = map (\<lambda>a. case fst (processOne S cfg now st a) of
                              Inr p \<Rightarrow> p | Inl e \<Rightarrow> allUnavailable cfg now a) as"
    proof (rule nth_equalityI)
      show "length ps = length (map (\<lambda>a. case fst (processOne S cfg now st a) of
                              Inr p \<Rightarrow> p | Inl e \<Rightarrow> allUnavailable cfg now a) as)"
        using 2 by simp
    next
      fix i assume "i < length ps"
      then have i: "i < length as" using 2 by simp
      then have "i \<in> set order" using cover by simp
      then have "out' ! i = Some (case fst (processOne S cfg now st (as ! i)) of
                              Inr p \<Rightarrow> p | Inl e \<Rightarrow> allUnavailable cfg now (as ! i))"
        using res i by blast
      moreover have "out' ! i = Some (ps ! i)" using ps(3) i spec by simp
      ultimately show "ps ! i = map (\<lambda>a. case fst (processOne S cfg now st a) of
                              Inr p \<Rightarrow> p | Inl e \<Rightarrow> allUnavailable cfg now a) as ! i"
        using i by simp
    qed
  qed
  show ?thesis using 1 2 3 4 by blast
qed

lemma batch_result_article:
  "ProcessedArticle.article (case fst (processOne S cfg now s a) of
      Inr p \<Rightarrow> p | Inl e \<Rightarrow> allUnavailable cfg now a) = a"
  by (cases "processOne S cfg now s a")
     (auto simp: allUnavailable_article processOne_article split: sum.splits)








lemma runTasks_empty: "runTasks w cfg now [] order acc = acc"
  by (induction order) (simp_all split: prod.splits, (cases acc, simp)+)

text \<open>
  C6: fetchAndProcess is processBatch on whatever the source collaborator returned, one
  result per returned article; on an empty fetch result it returns the empty list and
  leaves the pipeline as it was. When the response to a news query carries an empty
  (or no) list of processed articles, the chat component replies with the no-results
  message.
\<close>

theorem C6_fetchAndProcess_and_empty_result:
  "fetchAndProcess fetchSource S cfg now st order query pageSize =
     processBatch S cfg now st order (fetchSource query pageSize) \<and>
   (fetchSource query pageSize = [] \<longrightarrow>
      fetchAndProcess fetchSource S cfg now st order query pageSize = (Some [], st)) \<and>
   (set order = {..<length (fetchSource query pageSize)} \<longrightarrow>
      (\<exists>ps. fst (fetchAndProcess fetchSource S cfg now st order query pageSize) = Some ps \<and>
            length ps = length (fetchSource query pageSize) \<and>
            (\<forall>i<length ps. ProcessedArticle.article (ps ! i) = fetchSource query pageSize ! i))) \<and>
   (\<not> isLoading s \<and> t = trim (inputValue s) \<and> t \<noteq> [] \<and> length t \<le> 200 \<and> isNewsQuery E t \<and>
    fetch E (fetchAndProcessRequest t) = Some r \<and> ok r \<and> jsonBody r = Some (DataJson d) \<and>
    (processed_articles d = Val [] \<or> processed_articles d = Undefined \<or> processed_articles d = Null)
    \<longrightarrow>
      messages (fst (handleSendMessage E s)) =
        messages s @
          [\<lparr>text_js = Val t, sender = ''user'', timestamp = newDate E 0\<rparr>,
           \<lparr>text_js = Val noResultsText, sender = ''bot'', timestamp = newDate E 1\<rparr>])"
proof -
  have a: "fetchAndProcess fetchSource S cfg now st order query pageSize =
     processBatch S cfg now st order (fetchSource query pageSize)"
    by (simp add: fetchAndProcess_def)
  have b: "fetchSource query pageSize = [] \<longrightarrow>
      fetchAndProcess fetchSource S cfg now st order query pageSize = (Some [], st)"
    by (simp add: fetchAndProcess_def processBatch_def processBatchWith_def runTasks_empty)
  have c: "set order = {..<length (fetchSource query pageSize)} \<longrightarrow>
      (\<exists>ps. fst (fetchAndProcess fetchSource S cfg now st order query pageSize) = Some ps \<and>
            length ps = length (fetchSource query pageSize) \<and>
            (\<forall>i<length ps. ProcessedArticle.article (ps ! i) = fetchSource query pageSize ! i))"
  proof
    assume cover: "set order = {..<length (fetchSource query pageSize)}"
    from processBatch_spec[OF cover, of S cfg now st]
    obtain ps where ps: "fst (processBatch S cfg now st order (fetchSource query pageSize)) = Some ps"
      "length ps = length (fetchSource query pageSize)"
      "\<forall>i<length (fetchSource query pageSize).
         \<exists>s. ps ! i = (case fst (processOne S cfg now s (fetchSource query pageSize ! i)) of
                         Inr p \<Rightarrow> p | Inl e \<Rightarrow> allUnavailable cfg now (fetchSource query pageSize ! i))"
      by blast
    have "\<forall>i<length ps. ProcessedArticle.article (ps ! i) = fetchSource query pageSize ! i"
    proof (intro allI impI)
      fix i assume "i < length ps"
      then obtain s where s: "ps ! i =
          (case fst (processOne S cfg now s (fetchSource query pageSize ! i)) of
             Inr p \<Rightarrow> p | Inl e \<Rightarrow> allUnavailable cfg now (fetchSource query pageSize ! i))"
        using ps(2,3) by auto
      show "ProcessedArticle.article (ps ! i) = fetchSource query pageSize ! i"
        unfolding s by (rule batch_result_article)
    qed
    then show "\<exists>ps. fst (fetchAndProcess fetchSource S cfg now st order query pageSize) = Some ps \<and>
            length ps = length (fetchSource query pageSize) \<and>
            (\<forall>i<length ps. ProcessedArticle.article (ps ! i) = fetchSource query pageSize ! i)"
      unfolding fetchAndProcess_def using ps(1,2) by blast
  qed
  have d: "\<not> isLoading s \<and> t = trim (inputValue s) \<and> t \<noteq> [] \<and> length t \<le> 200 \<and> isNewsQuery E t \<and>
    fetch E (fetchAndProcessRequest t) = Some r \<and> ok r \<and> jsonBody r = Some (DataJson d) \<and>
    (processed_articles d = Val [] \<or> processed_articles d = Undefined \<or> processed_articles d = Null)
    \<longrightarrow>
      messages (fst (handleSendMessage E s)) =
        messages s @
          [\<lparr>text_js = Val t, sender = ''user'', timestamp = newDate E 0\<rparr>,
           \<lparr>text_js = Val noResultsText, sender = ''bot'', timestamp = newDate E 1\<rparr>]"
  proof
    assume h: "\<not> isLoading s \<and> t = trim (inputValue s) \<and> t \<noteq> [] \<and> length t \<le> 200 \<and> isNewsQuery E t \<and>
      fetch E (fetchAndProcessRequest t) = Some r \<and> ok r \<and> jsonBody r = Some (DataJson d) \<and>
      (processed_articles d = Val [] \<or> processed_articles d = Undefined \<or> processed_articles d = Null)"
    then have ne: "trim (inputValue s) \<noteq> []" and l: "\<not> isLoading s" by auto
    have short: "\<not> 200 < length t" using h by auto
    have "snd (tryBody E t) = Inr (botMessage E (Val noResultsText))"
      using h short by (auto simp: tryBody_def Let_def asData_def)
    then show "messages (fst (handleSendMessage E s)) =
        messages s @
          [\<lparr>text_js = Val t, sender = ''user'', timestamp = newDate E 0\<rparr>,
           \<lparr>text_js = Val noResultsText, sender = ''bot'', timestamp = newDate E 1\<rparr>]"
      using handleSendMessage_sent[OF ne l, of E] h by (simp add: botMessage_def)
  qed
  show ?thesis using a b c d by blast
qed

theorem C6_fetchAndProcess_and_empty_result_witness:
  "noArticles ''quantum'' 5 = [] \<and>
   fetchAndProcess noArticles failingServices sampleConfig 7 emptyPipeline [] ''quantum'' 5 = (Some [], emptyPipeline) \<and>
   set [1, 0] = {..<length (twoArticles ''stocks'' 5)} \<and>
   (\<exists>ps. fst (fetchAndProcess twoArticles failingServices sampleConfig 7 emptyPipeline [1, 0] ''stocks'' 5) = Some ps \<and>
         length ps = 2 \<and> ProcessedArticle.article (ps ! 0) = sampleArticle ''A'' \<and>
         ProcessedArticle.article (ps ! 1) = sampleArticle ''C'') \<and>
   \<not> isLoading ((initialApp 0)\<lparr>inputValue := str ''latest news''\<rparr>) \<and>
   isNewsQuery (sampleEnv 0 emptyNet) (str ''latest news'') \<and>
   messages (fst (handleSendMessage (sampleEnv 0 emptyNet) ((initialApp 0)\<lparr>inputValue := str ''latest news''\<rparr>))) =
     [\<lparr>text_js = Val welcomeText, sender = ''bot'', timestamp = 0\<rparr>,
      \<lparr>text_js = Val (str ''latest news''), sender = ''user'', timestamp = 0\<rparr>,
      \<lparr>text_js = Val noResultsText, sender = ''bot'', timestamp = 1\<rparr>]"
proof -
  let ?s = "(initialApp 0)\<lparr>inputValue := str ''latest news''\<rparr>"
  let ?E = "sampleEnv 0 emptyNet"
  have e: "noArticles ''quantum'' 5 = []" by (simp add: noArticles_def)
  have two: "twoArticles ''stocks'' 5 = [sampleArticle ''A'', sampleArticle ''C'']"
    by (simp add: twoArticles_def)
  have cover: "set [1, 0] = {..<length (twoArticles ''stocks'' 5)}" by (auto simp: two)
  have l: "\<not> isLoading ?s" by (simp add: initialApp_def)
  have t: "str ''latest news'' = trim (inputValue ?s)" by (simp add: sample_latest_news)
  have n: "str ''latest news'' \<noteq> []" "length (str ''latest news'') \<le> 200" by (simp_all add: str_def)
  have q: "isNewsQuery ?E (str ''latest news'')" by (rule sample_latest_news_is_news)
  have f: "fetch ?E (fetchAndProcessRequest (str ''latest news'')) =
             Some \<lparr>ok = True, jsonBody = Some (DataJson \<lparr>processed_articles = Val []\<rparr>)\<rparr>"
    by (simp add: sampleEnv_def emptyNet_def)
  note empty = C6_fetchAndProcess_and_empty_result[where fetchSource = noArticles and S = failingServices
      and cfg = sampleConfig and now = 7 and st = emptyPipeline and order = "[]" and query = "''quantum''"
      and pageSize = 5 and s = ?s and t = "str ''latest news''" and E = ?E
      and r = "\<lparr>ok = True, jsonBody = Some (DataJson \<lparr>processed_articles = Val []\<rparr>)\<rparr>"
      and d = "\<lparr>processed_articles = Val []\<rparr>"]
  note some = C6_fetchAndProcess_and_empty_result[where fetchSource = twoArticles and S = failingServices
      and cfg = sampleConfig and now = 7 and st = emptyPipeline and order = "[1, 0]" and query = "''stocks''"
      and pageSize = 5 and s = ?s and t = "str ''latest news''" and E = ?E
      and r = "\<lparr>ok = True, jsonBody = Some (DataJson \<lparr>processed_articles = Val []\<rparr>)\<rparr>"
      and d = "\<lparr>processed_articles = Val []\<rparr>"]
  have 1: "fetchAndProcess noArticles failingServices sampleConfig 7 emptyPipeline [] ''quantum'' 5 =
             (Some [], emptyPipeline)"
    using empty e by blast
  have 2: "\<exists>ps. fst (fetchAndProcess twoArticles failingServices sampleConfig 7 emptyPipeline [1, 0] ''stocks'' 5) = Some ps \<and>
         length ps = 2 \<and> ProcessedArticle.article (ps ! 0) = sampleArticle ''A'' \<and>
         ProcessedArticle.article (ps ! 1) = sampleArticle ''C''"
  proof -
    from some cover obtain ps where
      ps: "fst (fetchAndProcess twoArticles failingServices sampleConfig 7 emptyPipeline [1, 0] ''stocks'' 5) = Some ps"
        "length ps = length (twoArticles ''stocks'' 5)"
        "\<forall>i<length ps. ProcessedArticle.article (ps ! i) = twoArticles ''stocks'' 5 ! i"
      by blast
    have "ProcessedArticle.article (ps ! 0) = sampleArticle ''A''"
      "ProcessedArticle.article (ps ! 1) = sampleArticle ''C''"
      using ps(2,3) by (simp_all add: two)
    then show ?thesis using ps(1,2) by (auto simp: two)
  qed
  have 3: "messages (fst (handleSendMessage ?E ?s)) =
        messages ?s @
          [\<lparr>text_js = Val (str ''latest news''), sender = ''user'', timestamp = newDate ?E 0\<rparr>,
           \<lparr>text_js = Val noResultsText, sender = ''bot'', timestamp = newDate ?E 1\<rparr>]"
    using empty l t n q f by simp
  have 4: "messages ?s = [\<lparr>text_js = Val welcomeText, sender = ''bot'', timestamp = 0\<rparr>]"
    by (simp add: initialApp_def)
  have 5: "newDate ?E 0 = 0" "newDate ?E 1 = 1" by (simp_all add: sampleEnv_def)
  show ?thesis using e 1 cover 2 l q 3 unfolding 4 5 by simp
qed

section \<open>Rendering of the credibility result\<close>

lemma includes_prefix: "includes_js (k @ ys) k"
proof (cases "k @ ys")
  case Nil
  then show ?thesis by simp
next
  case (Cons c cs)
  have "take (length k) (k @ ys) = k" by simp
  then have "take (length k) (c # cs) = k" by (simp only: Cons)
  then show ?thesis by (simp only: Cons includes_js.simps) simp
qed

lemma includes_append: "includes_js (xs @ k @ ys) k"
  by (induction xs) (simp_all add: includes_prefix)

lemma verdict_texts_differ: "potentialFakeText \<noteq> likelyAuthenticText"
  by (simp add: potentialFakeText_def likelyAuthenticText_def)

lemma degraded_rendering:
  assumes "prediction f \<noteq> Val (str ''fake'')"
    and "confidence f = Val 0 \<or> confidence f = Undefined \<or> confidence f = Null"
  shows "credibilityScore E f = str ''High''" and "credibilityVerdict f = likelyAuthenticText"
  using assms by (auto simp: credibilityScore_def credibilityVerdict_def)

lemma article_credibility_line:
  "\<exists>xs ys. articleAnalysisText E a =
     xs @ (str ''- Credibility: '' @ credibilityScore E (orEmpty (fake_news_detection a)) @ str '' ''
           @ credibilityVerdict (orEmpty (fake_news_detection a))) @ ys"
proof -
  let ?m = "str ''- Credibility: '' @ credibilityScore E (orEmpty (fake_news_detection a)) @ str '' ''
           @ credibilityVerdict (orEmpty (fake_news_detection a))"
  let ?xs = "articleHeader @ toString (title a) @ str ''**\<newline>\<newline>''
         @ summarySlot 300 a
         @ str ''\<newline>\<newline>'' @ [0xD83D, 0xDD0D] @ str '' **Analysis Results:**\<newline>- Sentiment: ''
         @ sentimentLabel (orEmpty (sentiment_analysis a)) @ str '' ''
         @ sentimentConfidence E (orEmpty (sentiment_analysis a)) @ str ''\<newline>''"
  let ?ys = "str ''\<newline>- Source: '' @ sourceProvided a
         @ str ''\<newline>\<newline>*Analysis completed using AI-powered news intelligence.*''"
  have "articleAnalysisText E a = ?xs @ ?m @ ?ys"
    by (simp add: articleAnalysisText_def Let_def str_def)
  then show ?thesis by blast
qed


lemma latest_credibility_line:
  "\<exists>xs ys. latestNewsText E a =
     xs @ (str ''- Credibility: '' @ credibilityScore E (orEmpty (fake_news_detection a)) @ str '' ''
           @ credibilityVerdict (orEmpty (fake_news_detection a))) @ ys"
proof -
  let ?m = "str ''- Credibility: '' @ credibilityScore E (orEmpty (fake_news_detection a)) @ str '' ''
           @ credibilityVerdict (orEmpty (fake_news_detection a))"
  let ?xs = "latestHeader @ toString (title a) @ str ''**\<newline>\<newline>''
         @ summarySlot 200 a
         @ str ''\<newline>\<newline>'' @ [0xD83D, 0xDD0D] @ str '' **Analysis:**\<newline>- Sentiment: ''
         @ sentimentLabel (orEmpty (sentiment_analysis a)) @ str '' ''
         @ sentimentConfidence E (orEmpty (sentiment_analysis a)) @ str ''\<newline>''"
  let ?ys = "str ''\<newline>- Source: '' @ sourceFetched a
         @ str ''\<newline>\<newline>'' @ publishedSlot E a (str ''Published: '') []"
  have "latestNewsText E a = ?xs @ ?m @ ?ys"
    by (simp add: latestNewsText_def Let_def str_def)
  then show ?thesis by blast
qed

lemma trend_credibility_line:
  "\<exists>xs ys. trendAnalysisText E q a =
     xs @ (str ''- Credibility Score: '' @ credibilityScore E (orEmpty (fake_news_detection a)) @ str '' ''
           @ credibilityVerdict (orEmpty (fake_news_detection a))) @ ys"
proof -
  let ?m = "str ''- Credibility Score: '' @ credibilityScore E (orEmpty (fake_news_detection a)) @ str '' ''
           @ credibilityVerdict (orEmpty (fake_news_detection a))"
  let ?xs = "trendHeader @ q @ str ''**\<newline>\<newline>**''
         @ toString (title a) @ str ''**\<newline>\<newline>''
         @ summarySlot 200 a
         @ str ''\<newline>\<newline>'' @ [0xD83D, 0xDD0D] @ str '' **Trend Insights:**\<newline>- Current Sentiment: ''
         @ sentimentLabel (orEmpty (sentiment_analysis a)) @ str '' ''
         @ sentimentConfidence E (orEmpty (sentiment_analysis a)) @ str ''\<newline>''"
  let ?ys = "str ''\<newline>- Source: '' @ sourceFetched a
         @ str ''\<newline>- Published: '' @ publishedSlot E a [] (str ''Recent'')
         @ str ''\<newline>\<newline>*This analysis represents the latest developments in this trend. For comprehensive trend analysis, consider checking multiple sources over time.*''"
  have "trendAnalysisText E q a = ?xs @ ?m @ ?ys"
    by (simp add: trendAnalysisText_def Let_def str_def)
  then show ?thesis by blast
qed

lemma degraded_line:
  assumes "prediction f \<noteq> Val (str ''fake'')"
    and "confidence f = Val 0 \<or> confidence f = Undefined \<or> confidence f = Null"
  shows "label @ credibilityScore E f @ str '' '' @ credibilityVerdict f =
           (label @ str ''High '') @ likelyAuthenticText"
  using degraded_rendering[OF assms] by (simp add: str_def)

lemma degraded_shown_authentic:
  assumes "prediction (orEmpty (fake_news_detection a)) \<noteq> Val (str ''fake'')"
    and "confidence (orEmpty (fake_news_detection a)) = Val 0 \<or>
         confidence (orEmpty (fake_news_detection a)) = Undefined \<or>
         confidence (orEmpty (fake_news_detection a)) = Null"
  shows "includes_js (articleAnalysisText E a) (str ''- Credibility: High '' @ likelyAuthenticText)"
    and "includes_js (latestNewsText E a) (str ''- Credibility: High '' @ likelyAuthenticText)"
    and "includes_js (trendAnalysisText E q a) (str ''- Credibility Score: High '' @ likelyAuthenticText)"
proof -
  have s1: "str ''- Credibility: High '' = str ''- Credibility: '' @ str ''High ''"
    and s2: "str ''- Credibility Score: High '' = str ''- Credibility Score: '' @ str ''High ''"
    by (simp_all add: str_def)
  obtain xs ys where "articleAnalysisText E a =
     xs @ (str ''- Credibility: '' @ credibilityScore E (orEmpty (fake_news_detection a)) @ str '' ''
           @ credibilityVerdict (orEmpty (fake_news_detection a))) @ ys"
    using article_credibility_line by blast
  then have "articleAnalysisText E a = xs @ (str ''- Credibility: High '' @ likelyAuthenticText) @ ys"
    by (simp only: degraded_line[OF assms] s1)
  then show "includes_js (articleAnalysisText E a) (str ''- Credibility: High '' @ likelyAuthenticText)"
    by (simp only: includes_append)
  obtain xs ys where "latestNewsText E a =
     xs @ (str ''- Credibility: '' @ credibilityScore E (orEmpty (fake_news_detection a)) @ str '' ''
           @ credibilityVerdict (orEmpty (fake_news_detection a))) @ ys"
    using latest_credibility_line by blast
  then have "latestNewsText E a = xs @ (str ''- Credibility: High '' @ likelyAuthenticText) @ ys"
    by (simp only: degraded_line[OF assms] s1)
  then show "includes_js (latestNewsText E a) (str ''- Credibility: High '' @ likelyAuthenticText)"
    by (simp only: includes_append)
  obtain xs ys where "trendAnalysisText E q a =
     xs @ (str ''- Credibility Score: '' @ credibilityScore E (orEmpty (fake_news_detection a)) @ str '' ''
           @ credibilityVerdict (orEmpty (fake_news_detection a))) @ ys"
    using trend_credibility_line by blast
  then have "trendAnalysisText E q a = xs @ (str ''- Credibility Score: High '' @ likelyAuthenticText) @ ys"
    by (simp only: degraded_line[OF assms] s2)
  then show "includes_js (trendAnalysisText E q a) (str ''- Credibility Score: High '' @ likelyAuthenticText)"
    by (simp only: includes_append)
qed

lemma article_line_only:
  "\<exists>xs ys. \<forall>fn.
     articleAnalysisText E (a\<lparr>fake_news_detection := fn\<rparr>) =
       xs @ (str ''- Credibility: '' @
              (case confidence (orEmpty fn) of
                 Val x \<Rightarrow> (if x \<noteq> 0 then toFixed E (times E x 100) 0 @ str ''%'' else str ''High'')
               | _ \<Rightarrow> str ''High'') @
              str '' '' @
              (if prediction (orEmpty fn) = Val (str ''fake'') then potentialFakeText
               else likelyAuthenticText)) @ ys"
proof (intro exI allI)
  fix fn
  show "articleAnalysisText E (a\<lparr>fake_news_detection := fn\<rparr>) =
       (articleHeader @ toString (title a) @ str ''**\<newline>\<newline>''
         @ summarySlot 300 a
         @ str ''\<newline>\<newline>'' @ [0xD83D, 0xDD0D] @ str '' **Analysis Results:**\<newline>- Sentiment: ''
         @ sentimentLabel (orEmpty (sentiment_analysis a)) @ str '' ''
         @ sentimentConfidence E (orEmpty (sentiment_analysis a)) @ str ''\<newline>'')
       @ (str ''- Credibility: '' @
              (case confidence (orEmpty fn) of
                 Val x \<Rightarrow> (if x \<noteq> 0 then toFixed E (times E x 100) 0 @ str ''%'' else str ''High'')
               | _ \<Rightarrow> str ''High'') @
              str '' '' @
              (if prediction (orEmpty fn) = Val (str ''fake'') then potentialFakeText
               else likelyAuthenticText))
       @ (str ''\<newline>- Source: '' @ sourceProvided a
         @ str ''\<newline>\<newline>*Analysis completed using AI-powered news intelligence.*'')"
    by (simp add: articleAnalysisText_def Let_def str_def summarySlot_def sourceProvided_def
        credibilityScore_def credibilityVerdict_def)
qed

lemma latest_line_only:
  "\<exists>xs ys. \<forall>fn.
     latestNewsText E (a\<lparr>fake_news_detection := fn\<rparr>) =
       xs @ (str ''- Credibility: '' @
              (case confidence (orEmpty fn) of
                 Val x \<Rightarrow> (if x \<noteq> 0 then toFixed E (times E x 100) 0 @ str ''%'' else str ''High'')
               | _ \<Rightarrow> str ''High'') @
              str '' '' @
              (if prediction (orEmpty fn) = Val (str ''fake'') then potentialFakeText
               else likelyAuthenticText)) @ ys"
proof (intro exI allI)
  fix fn
  show "latestNewsText E (a\<lparr>fake_news_detection := fn\<rparr>) =
       (latestHeader @ toString (title a) @ str ''**\<newline>\<newline>''
         @ summarySlot 200 a
         @ str ''\<newline>\<newline>'' @ [0xD83D, 0xDD0D] @ str '' **Analysis:**\<newline>- Sentiment: ''
         @ sentimentLabel (orEmpty (sentiment_analysis a)) @ str '' ''
         @ sentimentConfidence E (orEmpty (sentiment_analysis a)) @ str ''\<newline>'')
       @ (str ''- Credibility: '' @
              (case confidence (orEmpty fn) of
                 Val x \<Rightarrow> (if x \<noteq> 0 then toFixed E (times E x 100) 0 @ str ''%'' else str ''High'')
               | _ \<Rightarrow> str ''High'') @
              str '' '' @
              (if prediction (orEmpty fn) = Val (str ''fake'') then potentialFakeText
               else likelyAuthenticText))
       @ (str ''\<newline>- Source: '' @ sourceFetched a
         @ str ''\<newline>\<newline>'' @ publishedSlot E a (str ''Published: '') [])"
    by (simp add: latestNewsText_def Let_def str_def summarySlot_def sourceFetched_def
        publishedSlot_def credibilityScore_def credibilityVerdict_def)
qed

lemma trend_line_only:
  "\<exists>xs ys. \<forall>fn.
     trendAnalysisText E q (a\<lparr>fake_news_detection := fn\<rparr>) =
       xs @ (str ''- Credibility Score: '' @
              (case confidence (orEmpty fn) of
                 Val x \<Rightarrow> (if x \<noteq> 0 then toFixed E (times E x 100) 0 @ str ''%'' else str ''High'')
               | _ \<Rightarrow> str ''High'') @
              str '' '' @
              (if prediction (orEmpty fn) = Val (str ''fake'') then potentialFakeText
               else likelyAuthenticText)) @ ys"
proof (intro exI allI)
  fix fn
  show "trendAnalysisText E q (a\<lparr>fake_news_detection := fn\<rparr>) =
       (trendHeader @ q @ str ''**\<newline>\<newline>**''
         @ toString (title a) @ str ''**\<newline>\<newline>''
         @ summarySlot 200 a
         @ str ''\<newline>\<newline>'' @ [0xD83D, 0xDD0D] @ str '' **Trend Insights:**\<newline>- Current Sentiment: ''
         @ sentimentLabel (orEmpty (sentiment_analysis a)) @ str '' ''
         @ sentimentConfidence E (orEmpty (sentiment_analysis a)) @ str ''\<newline>'')
       @ (str ''- Credibility Score: '' @
              (case confidence (orEmpty fn) of
                 Val x \<Rightarrow> (if x \<noteq> 0 then toFixed E (times E x 100) 0 @ str ''%'' else str ''High'')
               | _ \<Rightarrow> str ''High'') @
              str '' '' @
              (if prediction (orEmpty fn) = Val (str ''fake'') then potentialFakeText
               else likelyAuthenticText))
       @ (str ''\<newline>- Source: '' @ sourceFetched a
         @ str ''\<newline>- Published: '' @ publishedSlot E a [] (str ''Recent'')
         @ str ''\<newline>\<newline>*This analysis represents the latest developments in this trend. For comprehensive trend analysis, consider checking multiple sources over time.*'')"
    by (simp add: trendAnalysisText_def Let_def str_def summarySlot_def sourceFetched_def
        publishedSlot_def credibilityScore_def credibilityVerdict_def)
qed

text \<open>
  C4 (as amended): when its classifier cannot run, the credibility stage returns unknown
  with confidence 0 and origin unavailable, never authentic or fake: every result that
  is not the primary classifier's is that one. Each of the three
  reply templates of the chat component is a text before, the credibility line, and a
  text after, where neither text depends on the credibility analysis of the article and
  the credibility line is the label, the score (\<open>High\<close> when the confidence is 0 or
  absent), a space, and the fake-news warning if the prediction is \<open>fake\<close> and the
  label \<open>Likely authentic\<close> otherwise. So a result with any other prediction and with
  confidence 0 or none, as a degraded result is, is shown in all three templates as
  \<open>High\<close> followed by \<open>Likely authentic\<close>.
\<close>

theorem C4_degraded_credibility_unknown_but_shown_authentic:
  "(credibilityPrimary S doc = Inl err \<longrightarrow>
      classifyCredibility S doc =
        \<lparr>value_sr = Unknown, StageResult.confidence = 0, origin = Unavailable\<rparr>) \<and>
   (origin (classifyCredibility S doc) \<noteq> Primary \<longrightarrow>
      classifyCredibility S doc =
        \<lparr>value_sr = Unknown, StageResult.confidence = 0, origin = Unavailable\<rparr>) \<and>
   (\<exists>xs ys. \<forall>fn.
        articleAnalysisText E (a\<lparr>fake_news_detection := fn\<rparr>) =
          xs @ (str ''- Credibility: '' @
              (case confidence (orEmpty fn) of
                 Val x \<Rightarrow> (if x \<noteq> 0 then toFixed E (times E x 100) 0 @ str ''%'' else str ''High'')
               | _ \<Rightarrow> str ''High'') @
              str '' '' @
              (if prediction (orEmpty fn) = Val (str ''fake'') then potentialFakeText
               else likelyAuthenticText)) @ ys) \<and>
   (\<exists>xs ys. \<forall>fn.
        latestNewsText E (a\<lparr>fake_news_detection := fn\<rparr>) =
          xs @ (str ''- Credibility: '' @
              (case confidence (orEmpty fn) of
                 Val x \<Rightarrow> (if x \<noteq> 0 then toFixed E (times E x 100) 0 @ str ''%'' else str ''High'')
               | _ \<Rightarrow> str ''High'') @
              str '' '' @
              (if prediction (orEmpty fn) = Val (str ''fake'') then potentialFakeText
               else likelyAuthenticText)) @ ys) \<and>
   (\<exists>xs ys. \<forall>fn.
        trendAnalysisText E q (a\<lparr>fake_news_detection := fn\<rparr>) =
          xs @ (str ''- Credibility Score: '' @
              (case confidence (orEmpty fn) of
                 Val x \<Rightarrow> (if x \<noteq> 0 then toFixed E (times E x 100) 0 @ str ''%'' else str ''High'')
               | _ \<Rightarrow> str ''High'') @
              str '' '' @
              (if prediction (orEmpty fn) = Val (str ''fake'') then potentialFakeText
               else likelyAuthenticText)) @ ys) \<and>
   potentialFakeText \<noteq> likelyAuthenticText \<and>
   (f = orEmpty (fake_news_detection a) \<and> prediction f \<noteq> Val (str ''fake'') \<and>
    (confidence f = Val 0 \<or> confidence f = Undefined \<or> confidence f = Null) \<longrightarrow>
      includes_js (articleAnalysisText E a) (str ''- Credibility: High '' @ likelyAuthenticText) \<and>
      includes_js (latestNewsText E a) (str ''- Credibility: High '' @ likelyAuthenticText) \<and>
      includes_js (trendAnalysisText E q a) (str ''- Credibility Score: High '' @ likelyAuthenticText))"
  (is "?A \<and> ?A' \<and> ?B \<and> ?C \<and> ?D \<and> ?F \<and> ?G")
proof -
  have a: ?A
    by (simp add: classifyCredibility_def)
  have a': ?A'
    by (simp add: classifyCredibility_def split: sum.splits prod.splits)
  have b: ?B by (rule article_line_only)
  have c: ?C by (rule latest_line_only)
  have d: ?D by (rule trend_line_only)
  have f: ?F by (rule verdict_texts_differ)
  have g: ?G
    using degraded_shown_authentic by blast
  show ?thesis using a a' b c d f g by blast
qed

lemma degraded_sample:
  "prediction degradedCredibility \<noteq> Val (str ''fake'')"
  "confidence degradedCredibility = Val 0"
  "orEmpty (fake_news_detection (emptyArticle\<lparr>fake_news_detection := Val degradedCredibility\<rparr>)) = degradedCredibility"
  by (simp_all add: degradedCredibility_def orEmpty_def str_def)

theorem C4_degraded_credibility_unknown_but_shown_authentic_witness:
  "credibilityPrimary failingServices ''Stocks rally'' = Inl ModelUnavailable \<and>
   classifyCredibility failingServices ''Stocks rally'' =
     \<lparr>value_sr = Unknown, StageResult.confidence = 0, origin = Unavailable\<rparr> \<and>
   prediction degradedCredibility \<noteq> Val (str ''fake'') \<and> confidence degradedCredibility = Val 0 \<and>
   includes_js (articleAnalysisText (sampleEnv 0 degradedNet)
        (emptyArticle\<lparr>fake_news_detection := Val degradedCredibility\<rparr>))
     (str ''- Credibility: High '' @ likelyAuthenticText) \<and>
   prediction fakeCredibility = Val (str ''fake'') \<and>
   includes_js (articleAnalysisText (sampleEnv 0 degradedNet)
        (emptyArticle\<lparr>fake_news_detection := Val fakeCredibility\<rparr>))
     (str ''- Credibility: % '' @ potentialFakeText)"
proof -
  let ?E = "sampleEnv 0 degradedNet"
  have p: "credibilityPrimary failingServices ''Stocks rally'' = Inl ModelUnavailable"
    by (simp add: failingServices_def)
  note c4 = C4_degraded_credibility_unknown_but_shown_authentic[where S = failingServices
      and doc = "''Stocks rally''" and err = ModelUnavailable and f = degradedCredibility
      and a = "emptyArticle\<lparr>fake_news_detection := Val degradedCredibility\<rparr>"
      and E = ?E]
  have 1: "classifyCredibility failingServices ''Stocks rally'' =
     \<lparr>value_sr = Unknown, StageResult.confidence = 0, origin = Unavailable\<rparr>"
    using c4 p by blast
  have 2: "includes_js (articleAnalysisText ?E
        (emptyArticle\<lparr>fake_news_detection := Val degradedCredibility\<rparr>))
     (str ''- Credibility: High '' @ likelyAuthenticText)"
    using c4 degraded_sample by simp
  from c4[THEN conjunct2, THEN conjunct2, THEN conjunct1] obtain xs ys where line: "\<forall>fn.
        articleAnalysisText ?E
          (emptyArticle\<lparr>fake_news_detection := Val degradedCredibility\<rparr>\<lparr>fake_news_detection := fn\<rparr>) =
          xs @ (str ''- Credibility: '' @
              (case confidence (orEmpty fn) of
                 Val x \<Rightarrow> (if x \<noteq> 0 then toFixed ?E (times ?E x 100) 0 @ str ''%'' else str ''High'')
               | _ \<Rightarrow> str ''High'') @
              str '' '' @
              (if prediction (orEmpty fn) = Val (str ''fake'') then potentialFakeText
               else likelyAuthenticText)) @ ys"
    by blast
  have "articleAnalysisText ?E (emptyArticle\<lparr>fake_news_detection := Val fakeCredibility\<rparr>) =
          xs @ (str ''- Credibility: % '' @ potentialFakeText) @ ys"
    using line[rule_format, of "Val fakeCredibility"]
    by (simp add: orEmpty_def fakeCredibility_def sampleEnv_def str_def)
  then have 3: "includes_js (articleAnalysisText ?E
        (emptyArticle\<lparr>fake_news_detection := Val fakeCredibility\<rparr>))
     (str ''- Credibility: % '' @ potentialFakeText)"
    by (simp only: includes_append)
  have 4: "prediction fakeCredibility = Val (str ''fake'')" by (simp add: fakeCredibility_def)
  show ?thesis using p 1 degraded_sample(1,2) 2 4 3 by blast
qed

lemma sample_degraded_reply:
  "text_js (last (messages (fst (handleSendMessage (sampleEnv 0 degradedNet)
      ((initialApp 0)\<lparr>inputValue := replicate 201 0x78\<rparr>))))) =
   Val (articleAnalysisText (sampleEnv 0 degradedNet)
          (emptyArticle\<lparr>fake_news_detection := Val degradedCredibility\<rparr>))"
proof -
  let ?s = "(initialApp 0)\<lparr>inputValue := replicate 201 0x78\<rparr>"
  let ?E = "sampleEnv 0 degradedNet"
  have ne: "trim (inputValue ?s) \<noteq> []" by (simp add: sample_long)
  have l: "\<not> isLoading ?s" by (simp add: initialApp_def)
  have f: "\<And>req. fetch ?E req = degradedNet req" by (simp add: sampleEnv_def)
  have "snd (tryBody ?E (replicate 201 0x78)) =
      Inr (botMessage ?E (Val (articleAnalysisText ?E
             (emptyArticle\<lparr>fake_news_detection := Val degradedCredibility\<rparr>))))"
    by (simp add: tryBody_def Let_def f degradedNet_def asArticle_def)
  then show ?thesis
    using handleSendMessage_sent[OF ne l, of ?E] by (simp add: sample_long botMessage_def)
qed

text \<open>
  C4 as stated says that a degraded credibility result is never presented as authentic;
  for a pasted article whose response carries prediction \<open>unknown\<close> with confidence 0,
  the bot message reads \<open>Credibility: High ... Likely authentic\<close>.
\<close>

theorem C4_degraded_credibility_counterexample:
  "prediction degradedCredibility = Val (str ''unknown'') \<and>
   confidence degradedCredibility = Val 0 \<and>
   (\<exists>t. text_js (last (messages (fst (handleSendMessage (sampleEnv 0 degradedNet)
           ((initialApp 0)\<lparr>inputValue := replicate 201 0x78\<rparr>))))) = Val t \<and>
        includes_js t (str ''- Credibility: High '' @ likelyAuthenticText))"
proof -
  have "includes_js (articleAnalysisText (sampleEnv 0 degradedNet)
          (emptyArticle\<lparr>fake_news_detection := Val degradedCredibility\<rparr>))
        (str ''- Credibility: High '' @ likelyAuthenticText)"
    by (rule degraded_shown_authentic(1)) (simp_all add: degradedCredibility_def orEmpty_def str_def)
  then show ?thesis using sample_degraded_reply by (simp add: degradedCredibility_def)
qed

end
